theory Spec2Isabelle
  imports Complex_Main "HOL-Library.Sublist" "HOL-Library.AList" "HOL-Library.Log_Nat"
begin

section \<open>Strings\<close>

text \<open>
  A vector string is a \<^typ>\<open>string\<close>.  \<open>split_on c s\<close> is JavaScript's
  \<^verbatim>\<open>s.split(c)\<close> for a one-character separator: it always returns at least one
  piece, and an empty input gives one empty piece.
\<close>

fun split_on :: "char \<Rightarrow> string \<Rightarrow> string list" where
  "split_on c [] = [[]]"
| "split_on c (x # xs) =
     (if x = c then [] # split_on c xs
      else (case split_on c xs of [] \<Rightarrow> [[x]] | y # ys \<Rightarrow> (x # y) # ys))"

text \<open>
  \<^verbatim>\<open>const [key, value] = metric.split(":")\<close>: the first piece and, when there is one,
  the second; a segment without a colon has the value \<^verbatim>\<open>undefined\<close> (\<open>None\<close>).
\<close>

definition split_metric :: "string \<Rightarrow> string \<times> string option" where
  "split_metric metric =
     (case split_on CHR '':'' metric of
        [] \<Rightarrow> ([], None)
      | [key] \<Rightarrow> (key, None)
      | key # v # _ \<Rightarrow> (key, Some v))"

text \<open>\<^verbatim>\<open>haystack.indexOf(needle)\<close>, with \<open>-1\<close> when the needle does not occur.\<close>

fun indexOf :: "string \<Rightarrow> string \<Rightarrow> int" where
  "indexOf [] needle = (if needle = [] then 0 else - 1)"
| "indexOf (c # cs) needle =
     (if prefix needle (c # cs) then 0
      else (let i = indexOf cs needle in if i < 0 then - 1 else i + 1))"

definition includes_str :: "string \<Rightarrow> string \<Rightarrow> bool" where
  "includes_str haystack needle \<longleftrightarrow> 0 \<le> indexOf haystack needle"

section \<open>Errors\<close>

text \<open>
  Every \<^verbatim>\<open>throw new Error(...)\<close> of the two source files, and every
  \<^verbatim>\<open>{ valid: false, error: ... }\<close> returned by \<^verbatim>\<open>validateVectorV4\<close>, is one
  constructor; the data of the message is the constructor's argument.
\<close>

datatype error =
    InvalidVectorPrefix
  | RepeatedMetric string
  | MetricOutOfSequence string
  | UnexpectedMetric string
  | ValueNotAllowed string "string option"
  | MissingMandatoryMetrics "string list"
  | MustStartWithCVSS
  | InvalidCvssString
  | UnsupportedVersion string
  | DuplicatedMetric string
  | MissingMandatoryMetric string
  | UnknownMetric string
  | InvalidMetricValue string string
  | MissingMetric string
  | UnknownScopeValue string
  | UnknownPrivilegesRequiredValue string
  | MissingMetricScore string
  | TypeError

definition bindE :: "error + 'a \<Rightarrow> ('a \<Rightarrow> error + 'b) \<Rightarrow> error + 'b" where
  "bindE r f = (case r of Inl e \<Rightarrow> Inl e | Inr x \<Rightarrow> f x)"

section \<open>Objects and maps\<close>

text \<open>
  A JavaScript object used as a dictionary, and a \<^verbatim>\<open>Map\<close>, keep their keys in
  insertion order: both are association lists.  \<open>map_of obj key\<close> reads a key (\<open>None\<close>
  is \<^verbatim>\<open>undefined\<close>), \<open>AList.update key v obj\<close> is \<^verbatim>\<open>obj[key] = v\<close> and
  \<^verbatim>\<open>map.set(key, v)\<close>: an existing key keeps its place, a new one goes last.
\<close>

type_synonym obj = "(string \<times> string) list"

definition has :: "(string \<times> 'v) list \<Rightarrow> string \<Rightarrow> bool" where
  "has obj key \<longleftrightarrow> map_of obj key \<noteq> None"

section \<open>CVSS v4.0: metric catalogue and validation\<close>

text \<open>\<^verbatim>\<open>expectedMetricOrder\<close> of the models file, in its definition order.\<close>

definition expectedMetricOrder :: "(string \<times> string list) list" where
  "expectedMetricOrder =
   [(''AV'', [''N'', ''A'', ''L'', ''P'']),
    (''AC'', [''L'', ''H'']),
    (''AT'', [''N'', ''P'']),
    (''PR'', [''N'', ''L'', ''H'']),
    (''UI'', [''N'', ''P'', ''A'']),
    (''VC'', [''H'', ''L'', ''N'']),
    (''VI'', [''H'', ''L'', ''N'']),
    (''VA'', [''H'', ''L'', ''N'']),
    (''SC'', [''H'', ''L'', ''N'']),
    (''SI'', [''H'', ''L'', ''N'']),
    (''SA'', [''H'', ''L'', ''N'']),
    (''E'', [''X'', ''A'', ''P'', ''U'']),
    (''CR'', [''X'', ''H'', ''M'', ''L'']),
    (''IR'', [''X'', ''H'', ''M'', ''L'']),
    (''AR'', [''X'', ''H'', ''M'', ''L'']),
    (''MAV'', [''X'', ''N'', ''A'', ''L'', ''P'']),
    (''MAC'', [''X'', ''L'', ''H'']),
    (''MAT'', [''X'', ''N'', ''P'']),
    (''MPR'', [''X'', ''N'', ''L'', ''H'']),
    (''MUI'', [''X'', ''N'', ''P'', ''A'']),
    (''MVC'', [''X'', ''H'', ''L'', ''N'']),
    (''MVI'', [''X'', ''H'', ''L'', ''N'']),
    (''MVA'', [''X'', ''H'', ''L'', ''N'']),
    (''MSC'', [''X'', ''H'', ''L'', ''N'']),
    (''MSI'', [''X'', ''S'', ''H'', ''L'', ''N'']),
    (''MSA'', [''X'', ''S'', ''H'', ''L'', ''N'']),
    (''S'', [''X'', ''N'', ''P'']),
    (''AU'', [''X'', ''N'', ''Y'']),
    (''R'', [''X'', ''A'', ''U'', ''I'']),
    (''V'', [''X'', ''D'', ''C'']),
    (''RE'', [''X'', ''L'', ''M'', ''H'']),
    (''U'', [''X'', ''Clear'', ''Green'', ''Amber'', ''Red''])]"

definition mandatoryMetrics :: "string list" where
  "mandatoryMetrics =
     [''AV'', ''AC'', ''AT'', ''PR'', ''UI'', ''VC'', ''VI'', ''VA'', ''SC'', ''SI'', ''SA'']"

text \<open>
  \<^verbatim>\<open>toSelect\<close> is a plain object \<^verbatim>\<open>{}\<close>, so \<^verbatim>\<open>key in toSelect\<close> also holds for
  the property names every object inherits from \<^verbatim>\<open>Object.prototype\<close>.  None of them
  is a metric name, so reading a metric (\<^verbatim>\<open>obj[metric]\<close>) is \<open>map_of\<close>.
\<close>

definition object_prototype_keys :: "string list" where
  "object_prototype_keys =
     [''constructor'', ''__defineGetter__'', ''__defineSetter__'', ''hasOwnProperty'',
      ''__lookupGetter__'', ''__lookupSetter__'', ''isPrototypeOf'', ''propertyIsEnumerable'',
      ''toString'', ''valueOf'', ''__proto__'', ''toLocaleString'']"

definition key_in :: "string \<Rightarrow> (string \<times> 'v) list \<Rightarrow> bool" where
  "key_in key obj \<longleftrightarrow> has obj key \<or> key \<in> set object_prototype_keys"

text \<open>
  The \<^verbatim>\<open>while\<close> loop that advances \<^verbatim>\<open>expectedIndex\<close> to the next entry named
  \<open>key\<close>, or to the end of the catalogue.
\<close>

function advance :: "nat \<Rightarrow> string \<Rightarrow> nat" where
  "advance expectedIndex key =
     (if expectedIndex < length expectedMetricOrder
         \<and> fst (expectedMetricOrder ! expectedIndex) \<noteq> key
      then advance (Suc expectedIndex) key else expectedIndex)"
  by pat_completeness auto
termination
  by (relation "measure (\<lambda>(i, key). length expectedMetricOrder - i)") auto

declare advance.simps [simp del]

text \<open>The body of \<^verbatim>\<open>for (const metric of metrics)\<close>, with its four early returns in
  the order of the source.\<close>

fun validate_metrics ::
  "string list \<Rightarrow> nat \<Rightarrow> obj \<Rightarrow> error + obj" where
  "validate_metrics [] expectedIndex toSelect = Inr toSelect"
| "validate_metrics (metric # metrics) expectedIndex toSelect =
     (let (key, val) = split_metric metric;
          expectedEntry = find (\<lambda>entry. fst entry = key) expectedMetricOrder
      in if key_in key toSelect then Inl (RepeatedMetric key)
         else let expectedIndex' = advance expectedIndex key
           in if length expectedMetricOrder \<le> expectedIndex' then Inl (MetricOutOfSequence key)
              else (case expectedEntry of
                      None \<Rightarrow> Inl (UnexpectedMetric key)
                    | Some entry \<Rightarrow>
                        (case val of
                           None \<Rightarrow> Inl (ValueNotAllowed key None)
                         | Some v \<Rightarrow>
                             if v \<notin> set (snd entry) then Inl (ValueNotAllowed key (Some v))
                             else validate_metrics metrics expectedIndex'
                                    (AList.update key v toSelect))))"

definition validateVectorV4 :: "string \<Rightarrow> error + obj" where
  "validateVectorV4 vectorString =
     (let metrics = (if vectorString = [] then [] else split_on CHR ''/'' vectorString)
      in case metrics of
           [] \<Rightarrow> Inl InvalidVectorPrefix
         | pre # metrics' \<Rightarrow>
             if pre \<noteq> ''CVSS:4.0'' then Inl InvalidVectorPrefix
             else bindE (validate_metrics metrics' 0 []) (\<lambda>toSelect.
               let missingMandatoryMetrics =
                     filter (\<lambda>metric. \<not> key_in metric toSelect) mandatoryMetrics
               in if missingMandatoryMetrics \<noteq> [] then
                    Inl (MissingMandatoryMetrics missingMandatoryMetrics)
                  else Inr toSelect))"

section \<open>Numbers\<close>

text \<open>
  A JavaScript \<^verbatim>\<open>number\<close> is an IEEE 754 binary64 value.  The finite ones are
  rationals, \<open>Num r\<close>; \<open>NaN\<close> also stands for \<^verbatim>\<open>undefined\<close> where a table lookup
  misses, because every use of such a value in this program is arithmetic (which gives
  \<^verbatim>\<open>NaN\<close>) or an ordering comparison (which is false for both).  Infinities and the sign
  of zero are not represented: no divisor of the program is zero and all magnitudes stay
  far inside the exponent range.

  \<open>fl\<close> rounds a rational to the nearest value with a 53-bit significand, ties to even;
  each arithmetic operation is the exact operation followed by \<open>fl\<close>, and a decimal
  literal of the source is \<open>dbl\<close> of its rational value.  A table of literals is kept
  as a list of rationals, and reading an entry gives its \<open>dbl\<close>.
\<close>

datatype number = NaN | Num rat

text \<open>
  The binary exponent \<open>e\<close> of a non-zero \<open>x\<close>, \<open>2^e \<le> \<bar>x\<bar> < 2^(e+1)\<close>, from the
  bit length of an integer (\<^const>\<open>bitlen\<close>).
\<close>

definition expo :: "rat \<Rightarrow> int" where
  "expo x = (if 1 \<le> \<bar>x\<bar> then bitlen \<lfloor>\<bar>x\<bar>\<rfloor> - 1
             else - bitlen (\<lceil>1 / \<bar>x\<bar>\<rceil> - 1))"

text \<open>
  The integer nearest to \<open>y = a / b\<close> (in lowest terms, \<open>0 < b\<close>), the even one of
  the two when \<open>y\<close> lies half-way.
\<close>

definition round_half_even :: "rat \<Rightarrow> int" where
  "round_half_even y =
     (case quotient_of y of
        (a, b) \<Rightarrow>
          let q = a div b; r = a mod b
          in if 2 * r < b then q else if b < 2 * r then q + 1
             else if even q then q else q + 1)"

definition fl :: "rat \<Rightarrow> rat" where
  "fl x = (if x = 0 then 0
           else let q = 2 powi (expo x - 52) in of_int (round_half_even (x / q)) * q)"

definition dbl :: "rat \<Rightarrow> number" where
  "dbl r = Num (fl r)"

fun num_add :: "number \<Rightarrow> number \<Rightarrow> number" where
  "num_add (Num a) (Num b) = Num (fl (a + b))"
| "num_add _ _ = NaN"

fun num_sub :: "number \<Rightarrow> number \<Rightarrow> number" where
  "num_sub (Num a) (Num b) = Num (fl (a - b))"
| "num_sub _ _ = NaN"

fun num_mul :: "number \<Rightarrow> number \<Rightarrow> number" where
  "num_mul (Num a) (Num b) = Num (fl (a * b))"
| "num_mul _ _ = NaN"

fun num_div :: "number \<Rightarrow> number \<Rightarrow> number" where
  "num_div (Num a) (Num b) = (if b = 0 then NaN else Num (fl (a / b)))"
| "num_div _ _ = NaN"

text \<open>\<^verbatim>\<open>a % b\<close>: the remainder has the sign of the dividend and is exact.\<close>

fun num_rem :: "number \<Rightarrow> number \<Rightarrow> number" where
  "num_rem (Num a) (Num b) =
     (if b = 0 then NaN
      else Num (a - b * of_int (if 0 \<le> a / b then \<lfloor>a / b\<rfloor> else \<lceil>a / b\<rceil>)))"
| "num_rem _ _ = NaN"

fun num_le :: "number \<Rightarrow> number \<Rightarrow> bool" where
  "num_le (Num a) (Num b) \<longleftrightarrow> a \<le> b"
| "num_le _ _ \<longleftrightarrow> False"

fun num_lt :: "number \<Rightarrow> number \<Rightarrow> bool" where
  "num_lt (Num a) (Num b) \<longleftrightarrow> a < b"
| "num_lt _ _ \<longleftrightarrow> False"

definition isNaN :: "number \<Rightarrow> bool" where
  "isNaN x \<longleftrightarrow> x = NaN"

fun Math_min :: "number \<Rightarrow> number \<Rightarrow> number" where
  "Math_min (Num a) (Num b) = Num (min a b)"
| "Math_min _ _ = NaN"

text \<open>\<^verbatim>\<open>Math.round\<close>: the nearest integer, a tie going up.\<close>

fun Math_round :: "number \<Rightarrow> number" where
  "Math_round (Num a) = Num (of_int \<lfloor>a + 1 / 2\<rfloor>)"
| "Math_round NaN = NaN"

fun Math_floor :: "number \<Rightarrow> number" where
  "Math_floor (Num a) = Num (of_int \<lfloor>a\<rfloor>)"
| "Math_floor NaN = NaN"

text \<open>
  \<^verbatim>\<open>Math.pow\<close> with the two integer exponents the program uses.  The language leaves
  its last bit to the implementation; here it is the correctly rounded power.
\<close>

fun Math_pow :: "number \<Rightarrow> nat \<Rightarrow> number" where
  "Math_pow (Num a) n = Num (fl (a ^ n))"
| "Math_pow NaN n = NaN"

text \<open>
  Two helpers of evaluation only: \<open>rhe_int a b\<close> is \<open>round_half_even\<close> of the fraction
  \<open>a / b\<close> without reducing it, and \<open>rat_pow\<close> is the power, named so that numerator and
  denominator can be raised separately.  The equations that use them are proved below.
\<close>

definition rhe_int :: "int \<Rightarrow> int \<Rightarrow> int" where
  "rhe_int a b =
     (let q = a div b; r = a mod b
      in if 2 * r < b then q else if b < 2 * r then q + 1
         else if even q then q else q + 1)"

definition rat_pow :: "rat \<Rightarrow> nat \<Rightarrow> rat" where
  "rat_pow a n = a ^ n"

subsection \<open>The v3.x rounding\<close>

definition roundUp :: "number \<Rightarrow> number" where
  "roundUp input =
     (let intInput = Math_round (num_mul input (Num 100000))
      in if num_rem intInput (Num 10000) = Num 0
         then num_div intInput (Num 100000)
         else num_div (num_add (Math_floor (num_div intInput (Num 10000))) (Num 1)) (Num 10))"

text \<open>
  The rounding as the specification words it, to be compared with \<open>roundUp\<close>: the input
  times 100000 is rounded to the nearest integer; on that integer the divisibility test and
  the floor of the division by 10000 are exact integer operations, and the result is the
  double of the final quotient.
\<close>

definition roundup_spec :: "number \<Rightarrow> number" where
  "roundup_spec input =
     (case Math_round (num_mul input (Num 100000)) of
        NaN \<Rightarrow> NaN
      | Num i \<Rightarrow>
          (let intValue = \<lfloor>i\<rfloor>
           in if intValue mod 10000 = 0 then dbl (of_int intValue / 100000)
              else dbl (of_int (intValue div 10000 + 1) / 10)))"

text \<open>
  A score between 0 and 10 with one decimal: the double that the decimal \<open>k / 10\<close>
  denotes, for an integer \<open>k\<close> from 0 to 100.
\<close>

definition one_decimal :: "number \<Rightarrow> bool" where
  "one_decimal x \<longleftrightarrow> (\<exists>k. 0 \<le> k \<and> k \<le> 100 \<and> x = dbl (of_int k / 10))"

section \<open>CVSS v3.x: metric catalogue\<close>

text \<open>
  The metric enumerations of the models file are string enumerations, and the keys of a
  metrics map are whatever the vector contained, so a metric is its string:
  \<open>AV AC PR UI S C I A\<close> (base), \<open>E RL RC\<close> (temporal) and
  \<open>CR IR AR MAV MAC MPR MUI MS MC MI MA\<close> (environmental).
\<close>

definition baseMetrics :: "string list" where
  "baseMetrics = [''AV'', ''AC'', ''PR'', ''UI'', ''S'', ''C'', ''I'', ''A'']"

definition temporalMetrics :: "string list" where
  "temporalMetrics = [''E'', ''RL'', ''RC'']"

definition environmentalMetrics :: "string list" where
  "environmentalMetrics =
     [''AR'', ''CR'', ''IR'', ''MAV'', ''MAC'', ''MPR'', ''MUI'', ''MS'', ''MC'', ''MI'', ''MA'']"

definition baseMetricValues :: "(string \<times> string list) list" where
  "baseMetricValues =
     [(''AV'', [''N'', ''A'', ''L'', ''P'']),
      (''AC'', [''L'', ''H'']),
      (''PR'', [''N'', ''L'', ''H'']),
      (''UI'', [''N'', ''R'']),
      (''S'', [''U'', ''C'']),
      (''C'', [''N'', ''L'', ''H'']),
      (''I'', [''N'', ''L'', ''H'']),
      (''A'', [''N'', ''L'', ''H''])]"

definition temporalMetricValues :: "(string \<times> string list) list" where
  "temporalMetricValues =
     [(''E'', [''X'', ''H'', ''F'', ''P'', ''U'']),
      (''RL'', [''X'', ''U'', ''W'', ''T'', ''O'']),
      (''RC'', [''X'', ''C'', ''R'', ''U''])]"

definition environmentalMetricValues :: "(string \<times> string list) list" where
  "environmentalMetricValues =
     [(''CR'', [''X'', ''H'', ''M'', ''L'']),
      (''IR'', [''X'', ''H'', ''M'', ''L'']),
      (''AR'', [''X'', ''H'', ''M'', ''L'']),
      (''MAV'', [''X'', ''N'', ''A'', ''L'', ''P'']),
      (''MAC'', [''X'', ''L'', ''H'']),
      (''MPR'', [''X'', ''N'', ''L'', ''H'']),
      (''MUI'', [''X'', ''N'', ''R'']),
      (''MS'', [''X'', ''U'', ''C'']),
      (''MC'', [''X'', ''N'', ''L'', ''H'']),
      (''MI'', [''X'', ''N'', ''L'', ''H'']),
      (''MA'', [''X'', ''N'', ''L'', ''H''])]"

section \<open>The parser\<close>

text \<open>
  Modelled from the spec: \<^verbatim>\<open>parseVersion\<close>, \<^verbatim>\<open>parseVector\<close> and
  \<^verbatim>\<open>parseMetricsAsMap\<close> (module \<^verbatim>\<open>./parser\<close>) are not among the sources.  The spec
  gives the wire format \<^verbatim>\<open>CVSS:<version>/<KEY>:<VALUE>(/<KEY>:<VALUE>)*\<close> and asks of
  the parser the version tag after the \<^verbatim>\<open>CVSS:\<close> prefix and the tokenization into an
  ordered, duplicate-free sequence of (key, value) pairs, a repeated key being an error.
  The version is the text between the prefix and the first slash, the vector the text
  after that slash, and a segment is cut at its colon as the v4 code of the repository
  does; a segment without a colon gets the empty value.
\<close>

definition parseVersion :: "string \<Rightarrow> string option" where
  "parseVersion cvssStr =
     (if prefix ''CVSS:'' cvssStr
      then Some (takeWhile (\<lambda>c. c \<noteq> CHR ''/'') (drop 5 cvssStr)) else None)"

definition parseVector :: "string \<Rightarrow> string option" where
  "parseVector cvssStr =
     (case dropWhile (\<lambda>c. c \<noteq> CHR ''/'') cvssStr of [] \<Rightarrow> None | _ # rest \<Rightarrow> Some rest)"

fun parseMetrics :: "string list \<Rightarrow> obj \<Rightarrow> error + obj" where
  "parseMetrics [] res = Inr res"
| "parseMetrics (metric # metrics) res =
     (let (key, val) = split_metric metric
      in if has res key then Inl (DuplicatedMetric key)
         else parseMetrics metrics
                (AList.update key (case val of None \<Rightarrow> [] | Some v \<Rightarrow> v) res))"

definition parseMetricsAsMap :: "string \<Rightarrow> error + obj" where
  "parseMetricsAsMap cvssStr =
     parseMetrics
       (split_on CHR ''/'' (case parseVector cvssStr of None \<Rightarrow> [] | Some v \<Rightarrow> v)) []"

section \<open>CVSS v3.x: validation\<close>

definition validateVersion :: "string option \<Rightarrow> error + unit" where
  "validateVersion versionStr =
     (case versionStr of
        None \<Rightarrow> Inl InvalidCvssString
      | Some v \<Rightarrow>
          if v = [] then Inl InvalidCvssString
          else if v \<noteq> ''3.0'' \<and> v \<noteq> ''3.1'' \<and> v \<noteq> ''4.0'' then Inl (UnsupportedVersion v)
          else Inr ())"

definition validateVector :: "string option \<Rightarrow> error + unit" where
  "validateVector vectorStr =
     (case vectorStr of
        None \<Rightarrow> Inl InvalidCvssString
      | Some v \<Rightarrow>
          if v = [] \<or> includes_str v ''//'' then Inl InvalidCvssString else Inr ())"

text \<open>
  The three checks run a \<^verbatim>\<open>forEach\<close> that throws at the first offending element:
  \<open>find\<close> gives that element.
\<close>

definition checkUnknownMetrics :: "obj \<Rightarrow> string list \<Rightarrow> error + unit" where
  "checkUnknownMetrics metricsMap allKnownMetrics =
     (case find (\<lambda>userMetric. userMetric \<notin> set allKnownMetrics) (map fst metricsMap) of
        Some userMetric \<Rightarrow> Inl (UnknownMetric userMetric)
      | None \<Rightarrow> Inr ())"

definition checkMandatoryMetrics :: "obj \<Rightarrow> string list \<Rightarrow> error + unit" where
  "checkMandatoryMetrics metricsMap metrics =
     (case find (\<lambda>metric. \<not> has metricsMap metric) metrics of
        Some metric \<Rightarrow> Inl (MissingMandatoryMetric metric)
      | None \<Rightarrow> Inr ())"

text \<open>
  \<^verbatim>\<open>if (!userValue) return;\<close> leaves the callback for this metric only: an absent metric
  and one with the empty value are both skipped.
\<close>

definition checkMetricsValues ::
  "obj \<Rightarrow> string list \<Rightarrow> (string \<times> string list) list \<Rightarrow> error + unit" where
  "checkMetricsValues metricsMap metrics metricsValues =
     (case find (\<lambda>metric.
              case map_of metricsMap metric of
                None \<Rightarrow> False
              | Some userValue \<Rightarrow>
                  userValue \<noteq> [] \<and>
                  userValue \<notin> set (case map_of metricsValues metric of
                                     None \<Rightarrow> [] | Some vs \<Rightarrow> vs)) metrics of
        Some metric \<Rightarrow>
          Inl (InvalidMetricValue metric
                 (case map_of metricsMap metric of None \<Rightarrow> [] | Some v \<Rightarrow> v))
      | None \<Rightarrow> Inr ())"

text \<open>The fields of the two result types carry a prefix (\<open>vr_\<close>, \<open>sr_\<close>), because a
  field name is a constant and the source uses the same names for its local variables.\<close>

record ValidationResult =
  vr_isTemporal :: bool
  vr_isEnvironmental :: bool
  vr_metricsMap :: obj
  vr_versionStr :: "string option"

text \<open>
  \<^verbatim>\<open>validate\<close>.  For a string that starts with \<^verbatim>\<open>CVSS:4\<close> it calls
  \<^verbatim>\<open>validateVectorV4\<close> and drops what that returns (\<open>vvres\<close> below is not used
  again); the v3.x checks follow for every string.
\<close>

definition validate :: "string \<Rightarrow> error + ValidationResult" where
  "validate cvssStr =
     (if cvssStr = [] \<or> \<not> prefix ''CVSS:'' cvssStr then Inl MustStartWithCVSS
      else
        let vvres = (if prefix ''CVSS:4'' cvssStr then Some (validateVectorV4 cvssStr)
                     else None);
            allKnownMetrics = baseMetrics @ temporalMetrics @ environmentalMetrics;
            allKnownMetricsValues =
              baseMetricValues @ temporalMetricValues @ environmentalMetricValues;
            versionStr = parseVersion cvssStr
        in bindE (validateVersion versionStr) (\<lambda>_.
           bindE (validateVector (parseVector cvssStr)) (\<lambda>_.
           bindE (parseMetricsAsMap cvssStr) (\<lambda>metricsMap.
           bindE (checkMandatoryMetrics metricsMap baseMetrics) (\<lambda>_.
           bindE (checkUnknownMetrics metricsMap allKnownMetrics) (\<lambda>_.
           bindE (checkMetricsValues metricsMap allKnownMetrics allKnownMetricsValues) (\<lambda>_.
           Inr \<lparr>vr_isTemporal = (\<exists>metric \<in> set (map fst metricsMap). metric \<in> set temporalMetrics),
                vr_isEnvironmental =
                  (\<exists>metric \<in> set (map fst metricsMap). metric \<in> set environmentalMetrics),
                vr_metricsMap = metricsMap,
                vr_versionStr = versionStr\<rparr>)))))))"

section \<open>CVSS v3.x: metric weights\<close>

text \<open>
  A score table maps a metric to the weights of its values; \<open>None\<close> is the \<^verbatim>\<open>null\<close>
  entry of the two privileges-required metrics, whose weight depends on the scope.
\<close>

type_synonym scores = "(string \<times> (string \<times> rat) list option) list"

definition baseMetricValueScores :: scores where
  "baseMetricValueScores =
     [(''AV'', Some [(''N'', 0.85), (''A'', 0.62), (''L'', 0.55), (''P'', 0.2)]),
      (''AC'', Some [(''L'', 0.77), (''H'', 0.44)]),
      (''PR'', None),
      (''UI'', Some [(''N'', 0.85), (''R'', 0.62)]),
      (''S'', Some [(''U'', 0), (''C'', 0)]),
      (''C'', Some [(''N'', 0), (''L'', 0.22), (''H'', 0.56)]),
      (''I'', Some [(''N'', 0), (''L'', 0.22), (''H'', 0.56)]),
      (''A'', Some [(''N'', 0), (''L'', 0.22), (''H'', 0.56)])]"

definition temporalMetricValueScores :: scores where
  "temporalMetricValueScores =
     [(''E'', Some [(''X'', 1), (''U'', 0.91), (''F'', 0.97), (''P'', 0.94),
                    (''H'', 1)]),
      (''RL'', Some [(''X'', 1), (''O'', 0.95), (''T'', 0.96), (''W'', 0.97),
                     (''U'', 1)]),
      (''RC'', Some [(''X'', 1), (''U'', 0.92), (''R'', 0.96), (''C'', 1)])]"

definition score_of :: "scores \<Rightarrow> string \<Rightarrow> (string \<times> rat) list option" where
  "score_of table metric = (case map_of table metric of None \<Rightarrow> None | Some s \<Rightarrow> s)"

definition environmentalMetricValueScores :: scores where
  "environmentalMetricValueScores =
     [(''CR'', Some [(''M'', 1), (''L'', 0.5), (''H'', 1.5), (''X'', 1)]),
      (''IR'', Some [(''M'', 1), (''L'', 0.5), (''H'', 1.5), (''X'', 1)]),
      (''AR'', Some [(''M'', 1), (''L'', 0.5), (''H'', 1.5), (''X'', 1)]),
      (''MAV'', score_of baseMetricValueScores ''AV''),
      (''MAC'', score_of baseMetricValueScores ''AC''),
      (''MPR'', None),
      (''MUI'', score_of baseMetricValueScores ''UI''),
      (''MS'', score_of baseMetricValueScores ''S''),
      (''MC'', score_of baseMetricValueScores ''C''),
      (''MI'', score_of baseMetricValueScores ''I''),
      (''MA'', score_of baseMetricValueScores ''A'')]"

definition getPrivilegesRequiredNumericValue :: "string \<Rightarrow> string \<Rightarrow> error + number" where
  "getPrivilegesRequiredNumericValue val scopeValue =
     (if scopeValue \<noteq> ''U'' \<and> scopeValue \<noteq> ''C'' \<and> scopeValue \<noteq> ''X''
      then Inl (UnknownScopeValue scopeValue)
      else if val = ''N'' then Inr (dbl 0.85)
      else if val = ''L'' then Inr (if scopeValue = ''U'' then dbl 0.62 else dbl 0.68)
      else if val = ''H'' then Inr (if scopeValue = ''U'' then dbl 0.27 else dbl 0.5)
      else Inl (UnknownPrivilegesRequiredValue val))"

definition getMetricValue :: "string \<Rightarrow> obj \<Rightarrow> error + string" where
  "getMetricValue metric metricsMap =
     (case map_of metricsMap metric of
        None \<Rightarrow> Inl (MissingMetric metric)
      | Some v \<Rightarrow> Inr v)"

text \<open>
  \<^verbatim>\<open>score[value]!\<close> is \<^verbatim>\<open>undefined\<close> for a value the table does not have; it is
  only used in arithmetic, so it is \<open>NaN\<close> here.
\<close>

definition getMetricNumericValue :: "string \<Rightarrow> obj \<Rightarrow> error + number" where
  "getMetricNumericValue metric metricsMap =
     bindE (getMetricValue metric metricsMap) (\<lambda>val.
       if metric = ''PR'' then
         bindE (getMetricValue ''S'' metricsMap) (getPrivilegesRequiredNumericValue val)
       else if metric = ''MPR'' then
         bindE (getMetricValue ''MS'' metricsMap) (getPrivilegesRequiredNumericValue val)
       else
         (case score_of (baseMetricValueScores @ temporalMetricValueScores
                           @ environmentalMetricValueScores) metric of
            None \<Rightarrow> Inl (MissingMetricScore metric)
          | Some score \<Rightarrow> Inr (case map_of score val of None \<Rightarrow> NaN | Some n \<Rightarrow> dbl n)))"

section \<open>CVSS v3.x: the equations\<close>

definition calculateIss :: "obj \<Rightarrow> error + number" where
  "calculateIss metricsMap =
     bindE (getMetricNumericValue ''C'' metricsMap) (\<lambda>confidentiality.
     bindE (getMetricNumericValue ''I'' metricsMap) (\<lambda>integrity.
     bindE (getMetricNumericValue ''A'' metricsMap) (\<lambda>availability.
       Inr (num_sub (Num 1)
              (num_mul (num_mul (num_sub (Num 1) confidentiality) (num_sub (Num 1) integrity))
                 (num_sub (Num 1) availability))))))"

definition calculateMiss :: "obj \<Rightarrow> error + number" where
  "calculateMiss metricsMap =
     bindE (getMetricNumericValue ''CR'' metricsMap) (\<lambda>rConfidentiality.
     bindE (getMetricNumericValue ''MC'' metricsMap) (\<lambda>mConfidentiality.
     bindE (getMetricNumericValue ''IR'' metricsMap) (\<lambda>rIntegrity.
     bindE (getMetricNumericValue ''MI'' metricsMap) (\<lambda>mIntegrity.
     bindE (getMetricNumericValue ''AR'' metricsMap) (\<lambda>rAvailability.
     bindE (getMetricNumericValue ''MA'' metricsMap) (\<lambda>mAvailability.
       Inr (Math_min
              (num_sub (Num 1)
                 (num_mul
                    (num_mul (num_sub (Num 1) (num_mul rConfidentiality mConfidentiality))
                       (num_sub (Num 1) (num_mul rIntegrity mIntegrity)))
                    (num_sub (Num 1) (num_mul rAvailability mAvailability))))
              (dbl 0.915))))))))"

definition calculateImpact :: "obj \<Rightarrow> number \<Rightarrow> number" where
  "calculateImpact metricsMap iss =
     (if map_of metricsMap ''S'' = Some ''U'' then num_mul (dbl 6.42) iss
      else num_sub (num_mul (dbl 7.52) (num_sub iss (dbl 0.029)))
             (num_mul (dbl 3.25) (Math_pow (num_sub iss (dbl 0.02)) 15)))"

definition calculateModifiedImpact :: "obj \<Rightarrow> number \<Rightarrow> string option \<Rightarrow> number" where
  "calculateModifiedImpact metricsMap miss versionStr =
     (if map_of metricsMap ''MS'' = Some ''U'' then num_mul (dbl 6.42) miss
      else num_sub (num_mul (dbl 7.52) (num_sub miss (dbl 0.029)))
             (num_mul (dbl 3.25)
                (Math_pow
                   (num_sub
                      (num_mul miss (if versionStr = Some ''3.0'' then Num 1 else dbl 0.9731))
                      (dbl 0.02))
                   (if versionStr = Some ''3.0'' then 15 else 13))))"

definition calculateExploitability :: "obj \<Rightarrow> error + number" where
  "calculateExploitability metricsMap =
     bindE (getMetricNumericValue ''AV'' metricsMap) (\<lambda>av.
     bindE (getMetricNumericValue ''AC'' metricsMap) (\<lambda>ac.
     bindE (getMetricNumericValue ''PR'' metricsMap) (\<lambda>pr.
     bindE (getMetricNumericValue ''UI'' metricsMap) (\<lambda>ui.
       Inr (num_mul (num_mul (num_mul (num_mul (dbl 8.22) av) ac) pr) ui)))))"

definition calculateModifiedExploitability :: "obj \<Rightarrow> error + number" where
  "calculateModifiedExploitability metricsMap =
     bindE (getMetricNumericValue ''MAV'' metricsMap) (\<lambda>mav.
     bindE (getMetricNumericValue ''MAC'' metricsMap) (\<lambda>mac.
     bindE (getMetricNumericValue ''MPR'' metricsMap) (\<lambda>mpr.
     bindE (getMetricNumericValue ''MUI'' metricsMap) (\<lambda>mui.
       Inr (num_mul (num_mul (num_mul (num_mul (dbl 8.22) mav) mac) mpr) mui)))))"

definition modifiedMetricsMap :: "(string \<times> string) list" where
  "modifiedMetricsMap =
     [(''MAV'', ''AV''), (''MAC'', ''AC''), (''MPR'', ''PR''), (''MUI'', ''UI''),
      (''MS'', ''S''), (''MC'', ''C''), (''MI'', ''I''), (''MA'', ''A'')]"

definition populateTemporalMetricDefaults :: "obj \<Rightarrow> obj" where
  "populateTemporalMetricDefaults metricsMap =
     fold (\<lambda>metric mm. if \<not> has mm metric then AList.update metric ''X'' mm else mm)
       temporalMetrics metricsMap"

text \<open>
  A modified metric that is absent or \<open>X\<close> takes the value of its base metric; the three
  requirement metrics have no base metric (\<^verbatim>\<open>modifiedMetricsMap[metric]\<close> is
  \<^verbatim>\<open>undefined\<close>, which the map never has) and stay \<open>X\<close>.
\<close>

definition populateEnvironmentalMetricDefaults :: "obj \<Rightarrow> obj" where
  "populateEnvironmentalMetricDefaults metricsMap =
     fold (\<lambda>metric mm.
        let mm1 = (if \<not> has mm metric then AList.update metric ''X'' mm else mm)
        in if map_of mm1 metric = Some ''X'' then
             AList.update metric
               (case map_of modifiedMetricsMap metric of
                  None \<Rightarrow> ''X''
                | Some b \<Rightarrow> (case map_of mm1 b of None \<Rightarrow> ''X'' | Some v \<Rightarrow> v)) mm1
           else mm1)
       environmentalMetrics metricsMap"

record ScoreResult =
  sr_score :: number
  sr_impact :: number
  sr_exploitability :: number
  sr_metricsMap :: obj

definition calculateBaseResult :: "string \<Rightarrow> error + ScoreResult" where
  "calculateBaseResult cvssString =
     bindE (validate cvssString) (\<lambda>validationResult.
       let metricsMap = vr_metricsMap validationResult
       in bindE (calculateIss metricsMap) (\<lambda>iss.
          let impact = calculateImpact metricsMap iss
          in bindE (calculateExploitability metricsMap) (\<lambda>exploitability.
             let scopeUnchanged = (map_of metricsMap ''S'' = Some ''U'');
                 score =
                   (if num_le impact (Num 0) then Num 0
                    else if scopeUnchanged
                      then roundUp (Math_min (num_add impact exploitability) (Num 10))
                      else roundUp (Math_min (num_mul (dbl 1.08) (num_add impact exploitability))
                                      (Num 10)))
             in Inr \<lparr>sr_score = score,
                     sr_impact = (if num_le impact (Num 0) then Num 0 else roundUp impact),
                     sr_exploitability =
                       (if num_le impact (Num 0) then Num 0 else roundUp exploitability),
                     sr_metricsMap = metricsMap\<rparr>)))"

definition calculateTemporalResult :: "string \<Rightarrow> error + ScoreResult" where
  "calculateTemporalResult cvssString =
     bindE (validate cvssString) (\<lambda>validationResult.
       let metricsMap = populateTemporalMetricDefaults (vr_metricsMap validationResult)
       in bindE (calculateBaseResult cvssString) (\<lambda>baseResult.
          bindE (getMetricNumericValue ''RC'' metricsMap) (\<lambda>rc.
          bindE (getMetricNumericValue ''E'' metricsMap) (\<lambda>e.
          bindE (getMetricNumericValue ''RL'' metricsMap) (\<lambda>rl.
            let tempScore = roundUp (num_mul (num_mul (num_mul (sr_score baseResult) rc) e) rl)
            in Inr \<lparr>sr_score = tempScore,
                    sr_impact = sr_impact baseResult,
                    sr_exploitability = sr_exploitability baseResult,
                    sr_metricsMap = metricsMap\<rparr>)))))"

definition calculateTemporalScore :: "string \<Rightarrow> error + number" where
  "calculateTemporalScore cvssString =
     bindE (calculateTemporalResult cvssString) (\<lambda>r. Inr (sr_score r))"

text \<open>
  The two branches of the source differ only in the factor 1.08; in each the three
  temporal weights are read in the order \<open>E\<close>, \<open>RL\<close>, \<open>RC\<close>, and only when the impact
  is positive.
\<close>

definition calculateEnvironmentalResult :: "string \<Rightarrow> error + ScoreResult" where
  "calculateEnvironmentalResult cvssString =
     bindE (validate cvssString) (\<lambda>validationResult.
       let versionStr = vr_versionStr validationResult;
           metricsMap = populateEnvironmentalMetricDefaults
                          (populateTemporalMetricDefaults (vr_metricsMap validationResult))
       in bindE (calculateMiss metricsMap) (\<lambda>miss.
          let impact = calculateModifiedImpact metricsMap miss versionStr
          in bindE (calculateModifiedExploitability metricsMap) (\<lambda>exploitability.
             let scopeUnchanged = (map_of metricsMap ''MS'' = Some ''U'')
             in bindE
                  (if num_le impact (Num 0) then Inr (Num 0)
                   else
                     bindE (getMetricNumericValue ''E'' metricsMap) (\<lambda>e.
                     bindE (getMetricNumericValue ''RL'' metricsMap) (\<lambda>rl.
                     bindE (getMetricNumericValue ''RC'' metricsMap) (\<lambda>rc.
                       Inr (roundUp
                              (num_mul
                                 (num_mul
                                    (num_mul
                                       (roundUp
                                          (Math_min
                                             (if scopeUnchanged
                                              then num_add impact exploitability
                                              else num_mul (dbl 1.08)
                                                     (num_add impact exploitability))
                                             (Num 10)))
                                       e) rl) rc))))))
                  (\<lambda>score.
                     Inr \<lparr>sr_score = score,
                          sr_impact = (if num_le impact (Num 0) then Num 0 else roundUp impact),
                          sr_exploitability =
                            (if num_le impact (Num 0) then Num 0 else roundUp exploitability),
                          sr_metricsMap = metricsMap\<rparr>))))"

definition calculateEnvironmentalScore :: "string \<Rightarrow> error + number" where
  "calculateEnvironmentalScore cvssString =
     bindE (calculateEnvironmentalResult cvssString) (\<lambda>r. Inr (sr_score r))"

section \<open>CVSS v4.0: tables\<close>

text \<open>\<^verbatim>\<open>cvssLookup_globalV4\<close>: the score of each of the 270 MacroVectors.\<close>

definition cvssLookup_globalV4 :: "(string \<times> rat) list" where
  "cvssLookup_globalV4 =
     [(''000000'', 10), (''000001'', 9.9), (''000010'', 9.8), (''000011'', 9.5),
      (''000020'', 9.5), (''000021'', 9.2), (''000100'', 10), (''000101'', 9.6),
      (''000110'', 9.3), (''000111'', 8.7), (''000120'', 9.1), (''000121'', 8.1),
      (''000200'', 9.3), (''000201'', 9), (''000210'', 8.9), (''000211'', 8),
      (''000220'', 8.1), (''000221'', 6.8), (''001000'', 9.8), (''001001'', 9.5),
      (''001010'', 9.5), (''001011'', 9.2), (''001020'', 9), (''001021'', 8.4),
      (''001100'', 9.3), (''001101'', 9.2), (''001110'', 8.9), (''001111'', 8.1),
      (''001120'', 8.1), (''001121'', 6.5), (''001200'', 8.8), (''001201'', 8),
      (''001210'', 7.8), (''001211'', 7), (''001220'', 6.9), (''001221'', 4.8),
      (''002001'', 9.2), (''002011'', 8.2), (''002021'', 7.2), (''002101'', 7.9),
      (''002111'', 6.9), (''002121'', 5), (''002201'', 6.9), (''002211'', 5.5),
      (''002221'', 2.7), (''010000'', 9.9), (''010001'', 9.7), (''010010'', 9.5),
      (''010011'', 9.2), (''010020'', 9.2), (''010021'', 8.5), (''010100'', 9.5),
      (''010101'', 9.1), (''010110'', 9), (''010111'', 8.3), (''010120'', 8.4),
      (''010121'', 7.1), (''010200'', 9.2), (''010201'', 8.1), (''010210'', 8.2),
      (''010211'', 7.1), (''010220'', 7.2), (''010221'', 5.3), (''011000'', 9.5),
      (''011001'', 9.3), (''011010'', 9.2), (''011011'', 8.5), (''011020'', 8.5),
      (''011021'', 7.3), (''011100'', 9.2), (''011101'', 8.2), (''011110'', 8),
      (''011111'', 7.2), (''011120'', 7), (''011121'', 5.9), (''011200'', 8.4),
      (''011201'', 7), (''011210'', 7.1), (''011211'', 5.2), (''011220'', 5),
      (''011221'', 3), (''012001'', 8.6), (''012011'', 7.5), (''012021'', 5.2),
      (''012101'', 7.1), (''012111'', 5.2), (''012121'', 2.9), (''012201'', 6.3),
      (''012211'', 2.9), (''012221'', 1.7), (''100000'', 9.8), (''100001'', 9.5),
      (''100010'', 9.4), (''100011'', 8.7), (''100020'', 9.1), (''100021'', 8.1),
      (''100100'', 9.4), (''100101'', 8.9), (''100110'', 8.6), (''100111'', 7.4),
      (''100120'', 7.7), (''100121'', 6.4), (''100200'', 8.7), (''100201'', 7.5),
      (''100210'', 7.4), (''100211'', 6.3), (''100220'', 6.3), (''100221'', 4.9),
      (''101000'', 9.4), (''101001'', 8.9), (''101010'', 8.8), (''101011'', 7.7),
      (''101020'', 7.6), (''101021'', 6.7), (''101100'', 8.6), (''101101'', 7.6),
      (''101110'', 7.4), (''101111'', 5.8), (''101120'', 5.9), (''101121'', 5),
      (''101200'', 7.2), (''101201'', 5.7), (''101210'', 5.7), (''101211'', 5.2),
      (''101220'', 5.2), (''101221'', 2.5), (''102001'', 8.3), (''102011'', 7),
      (''102021'', 5.4), (''102101'', 6.5), (''102111'', 5.8), (''102121'', 2.6),
      (''102201'', 5.3), (''102211'', 2.1), (''102221'', 1.3), (''110000'', 9.5),
      (''110001'', 9), (''110010'', 8.8), (''110011'', 7.6), (''110020'', 7.6),
      (''110021'', 7), (''110100'', 9), (''110101'', 7.7), (''110110'', 7.5),
      (''110111'', 6.2), (''110120'', 6.1), (''110121'', 5.3), (''110200'', 7.7),
      (''110201'', 6.6), (''110210'', 6.8), (''110211'', 5.9), (''110220'', 5.2),
      (''110221'', 3), (''111000'', 8.9), (''111001'', 7.8), (''111010'', 7.6),
      (''111011'', 6.7), (''111020'', 6.2), (''111021'', 5.8), (''111100'', 7.4),
      (''111101'', 5.9), (''111110'', 5.7), (''111111'', 5.7), (''111120'', 4.7),
      (''111121'', 2.3), (''111200'', 6.1), (''111201'', 5.2), (''111210'', 5.7),
      (''111211'', 2.9), (''111220'', 2.4), (''111221'', 1.6), (''112001'', 7.1),
      (''112011'', 5.9), (''112021'', 3), (''112101'', 5.8), (''112111'', 2.6),
      (''112121'', 1.5), (''112201'', 2.3), (''112211'', 1.3), (''112221'', 0.6),
      (''200000'', 9.3), (''200001'', 8.7), (''200010'', 8.6), (''200011'', 7.2),
      (''200020'', 7.5), (''200021'', 5.8), (''200100'', 8.6), (''200101'', 7.4),
      (''200110'', 7.4), (''200111'', 6.1), (''200120'', 5.6), (''200121'', 3.4),
      (''200200'', 7), (''200201'', 5.4), (''200210'', 5.2), (''200211'', 4),
      (''200220'', 4), (''200221'', 2.2), (''201000'', 8.5), (''201001'', 7.5),
      (''201010'', 7.4), (''201011'', 5.5), (''201020'', 6.2), (''201021'', 5.1),
      (''201100'', 7.2), (''201101'', 5.7), (''201110'', 5.5), (''201111'', 4.1),
      (''201120'', 4.6), (''201121'', 1.9), (''201200'', 5.3), (''201201'', 3.6),
      (''201210'', 3.4), (''201211'', 1.9), (''201220'', 1.9), (''201221'', 0.8),
      (''202001'', 6.4), (''202011'', 5.1), (''202021'', 2), (''202101'', 4.7),
      (''202111'', 2.1), (''202121'', 1.1), (''202201'', 2.4), (''202211'', 0.9),
      (''202221'', 0.4), (''210000'', 8.8), (''210001'', 7.5), (''210010'', 7.3),
      (''210011'', 5.3), (''210020'', 6), (''210021'', 5), (''210100'', 7.3),
      (''210101'', 5.5), (''210110'', 5.9), (''210111'', 4), (''210120'', 4.1),
      (''210121'', 2), (''210200'', 5.4), (''210201'', 4.3), (''210210'', 4.5),
      (''210211'', 2.2), (''210220'', 2), (''210221'', 1.1), (''211000'', 7.5),
      (''211001'', 5.5), (''211010'', 5.8), (''211011'', 4.5), (''211020'', 4),
      (''211021'', 2.1), (''211100'', 6.1), (''211101'', 5.1), (''211110'', 4.8),
      (''211111'', 1.8), (''211120'', 2), (''211121'', 0.9), (''211200'', 4.6),
      (''211201'', 1.8), (''211210'', 1.7), (''211211'', 0.7), (''211220'', 0.8),
      (''211221'', 0.2), (''212001'', 5.3), (''212011'', 2.4), (''212021'', 1.4),
      (''212101'', 2.4), (''212111'', 1.2), (''212121'', 0.5), (''212201'', 1),
      (''212211'', 0.3), (''212221'', 0.1)]"

text \<open>
  \<^verbatim>\<open>maxComposed\<close> and \<^verbatim>\<open>maxSeverityV4\<close>.  Their numeric keys are property names,
  the decimal strings \<open>''0''\<close>, \<open>''1''\<close>, \<open>''2''\<close>.
\<close>

record MaxComposed =
  mc_eq1 :: "(string \<times> string list) list"
  mc_eq2 :: "(string \<times> string list) list"
  mc_eq3 :: "(string \<times> (string \<times> string list) list) list"
  mc_eq4 :: "(string \<times> string list) list"
  mc_eq5 :: "(string \<times> string list) list"

definition maxComposed :: MaxComposed where
  "maxComposed =
     \<lparr>mc_eq1 =
        [(''0'', [''AV:N/PR:N/UI:N/'']),
         (''1'', [''AV:A/PR:N/UI:N/'', ''AV:N/PR:L/UI:N/'', ''AV:N/PR:N/UI:P/'']),
         (''2'', [''AV:P/PR:N/UI:N/'', ''AV:A/PR:L/UI:P/''])],
      mc_eq2 =
        [(''0'', [''AC:L/AT:N/'']),
         (''1'', [''AC:H/AT:N/'', ''AC:L/AT:P/''])],
      mc_eq3 =
        [(''0'',
          [(''0'', [''VC:H/VI:H/VA:H/CR:H/IR:H/AR:H/'']),
           (''1'', [''VC:H/VI:H/VA:L/CR:M/IR:M/AR:H/'', ''VC:H/VI:H/VA:H/CR:M/IR:M/AR:M/''])]),
         (''1'',
          [(''0'', [''VC:L/VI:H/VA:H/CR:H/IR:H/AR:H/'', ''VC:H/VI:L/VA:H/CR:H/IR:H/AR:H/'']),
           (''1'', [''VC:L/VI:H/VA:L/CR:H/IR:M/AR:H/'', ''VC:L/VI:H/VA:H/CR:H/IR:M/AR:M/'',
                   ''VC:H/VI:L/VA:H/CR:M/IR:H/AR:M/'', ''VC:H/VI:L/VA:L/CR:M/IR:H/AR:H/'',
                   ''VC:L/VI:L/VA:H/CR:H/IR:H/AR:M/''])]),
         (''2'',
          [(''1'', [''VC:L/VI:L/VA:L/CR:H/IR:H/AR:H/''])])],
      mc_eq4 =
        [(''0'', [''SC:H/SI:S/SA:S/'']),
         (''1'', [''SC:H/SI:H/SA:H/'']),
         (''2'', [''SC:L/SI:L/SA:L/''])],
      mc_eq5 =
        [(''0'', [''E:A/'']),
         (''1'', [''E:P/'']),
         (''2'', [''E:U/''])]\<rparr>"

record MaxSeverityData =
  ms_eq1 :: "(string \<times> rat) list"
  ms_eq2 :: "(string \<times> rat) list"
  ms_eq3eq6 :: "(string \<times> (string \<times> rat) list) list"
  ms_eq4 :: "(string \<times> rat) list"
  ms_eq5 :: "(string \<times> rat) list"

definition maxSeverityV4 :: MaxSeverityData where
  "maxSeverityV4 =
     \<lparr>ms_eq1 = [(''0'', 1), (''1'', 4), (''2'', 5)],
      ms_eq2 = [(''0'', 1), (''1'', 2)],
      ms_eq3eq6 =
        [(''0'', [(''0'', 7), (''1'', 6)]),
         (''1'', [(''0'', 8), (''1'', 8)]),
         (''2'', [(''1'', 10)])],
      ms_eq4 = [(''0'', 6), (''1'', 5), (''2'', 4)],
      ms_eq5 = [(''0'', 1), (''1'', 1), (''2'', 1)]\<rparr>"

section \<open>CVSS v4.0: scoring\<close>

text \<open>
  \<^verbatim>\<open>cvssSelected\<close>: the object \<^verbatim>\<open>parseVectorV4\<close> builds.  A segment without a
  colon stores the value \<^verbatim>\<open>undefined\<close> under its key, so a value is an option.
\<close>

type_synonym selected = "(string \<times> string option) list"

definition parseVectorV4 :: "string \<Rightarrow> selected" where
  "parseVectorV4 vector =
     (let metrics = tl (split_on CHR ''/'' vector);
          cvssSelected =
            fold (\<lambda>metric sel. let (key, val) = split_metric metric in AList.update key val sel)
              metrics []
      in fold (\<lambda>key sel. if \<not> key_in key sel then AList.update key (Some ''X'') sel else sel)
           [''E'', ''CR'', ''IR'', ''AR''] cvssSelected)"

definition get_prop :: "selected \<Rightarrow> string \<Rightarrow> string option" where
  "get_prop cvssSelected key = (case map_of cvssSelected key of None \<Rightarrow> None | Some v \<Rightarrow> v)"

text \<open>
  \<^verbatim>\<open>m\<close>: the effective value of a metric.  \<open>E\<close>, \<open>CR\<close>, \<open>IR\<close>, \<open>AR\<close> default to
  their worst case; for any other metric a modified metric \<open>M...\<close> that is among the
  object's own keys and is not \<open>X\<close> replaces the base value.
\<close>

definition m :: "selected \<Rightarrow> string \<Rightarrow> string option" where
  "m cvssSelected metric =
     (let selected = get_prop cvssSelected metric
      in if metric = ''E'' \<and> selected = Some ''X'' then Some ''A''
         else if metric = ''CR'' \<and> selected = Some ''X'' then Some ''H''
         else if metric = ''IR'' \<and> selected = Some ''X'' then Some ''H''
         else if metric = ''AR'' \<and> selected = Some ''X'' then Some ''H''
         else if (''M'' @ metric) \<in> set (map fst cvssSelected) then
           (let modified_selected = get_prop cvssSelected (''M'' @ metric)
            in if modified_selected \<noteq> Some ''X'' then modified_selected else selected)
         else selected)"

text \<open>A number inside a template literal: its decimal digits, or \<open>NaN\<close>.\<close>

fun string_of_nat :: "nat \<Rightarrow> string" where
  "string_of_nat n =
     (if n < 10 then [''0123456789'' ! n]
      else string_of_nat (n div 10) @ [''0123456789'' ! (n mod 10)])"

declare string_of_nat.simps [simp del]

definition tpl :: "nat option \<Rightarrow> string" where
  "tpl n = (case n of None \<Rightarrow> ''NaN'' | Some k \<Rightarrow> string_of_nat k)"

definition macroVector :: "selected \<Rightarrow> string" where
  "macroVector cvssSelected =
     (let eq1 =
            (if m cvssSelected ''AV'' = Some ''N'' \<and> m cvssSelected ''PR'' = Some ''N''
                \<and> m cvssSelected ''UI'' = Some ''N'' then 0
             else if (m cvssSelected ''AV'' = Some ''N'' \<or> m cvssSelected ''PR'' = Some ''N''
                        \<or> m cvssSelected ''UI'' = Some ''N'')
                     \<and> \<not> (m cvssSelected ''AV'' = Some ''N'' \<and> m cvssSelected ''PR'' = Some ''N''
                            \<and> m cvssSelected ''UI'' = Some ''N'')
                     \<and> \<not> m cvssSelected ''AV'' = Some ''P'' then 1
             else if m cvssSelected ''AV'' = Some ''P''
                     \<or> \<not> (m cvssSelected ''AV'' = Some ''N'' \<or> m cvssSelected ''PR'' = Some ''N''
                            \<or> m cvssSelected ''UI'' = Some ''N'') then 2
             else 0);
          eq2 =
            (if m cvssSelected ''AC'' = Some ''L'' \<and> m cvssSelected ''AT'' = Some ''N'' then 0
             else if \<not> (m cvssSelected ''AC'' = Some ''L'' \<and> m cvssSelected ''AT'' = Some ''N'')
               then 1
             else 0);
          eq3 =
            (if m cvssSelected ''VC'' = Some ''H'' \<and> m cvssSelected ''VI'' = Some ''H'' then 0
             else if \<not> (m cvssSelected ''VC'' = Some ''H'' \<and> m cvssSelected ''VI'' = Some ''H'')
                     \<and> (m cvssSelected ''VC'' = Some ''H'' \<or> m cvssSelected ''VI'' = Some ''H''
                          \<or> m cvssSelected ''VA'' = Some ''H'') then 1
             else if \<not> (m cvssSelected ''VC'' = Some ''H'' \<or> m cvssSelected ''VI'' = Some ''H''
                          \<or> m cvssSelected ''VA'' = Some ''H'') then 2
             else 0);
          eq4 =
            (if m cvssSelected ''MSI'' = Some ''S'' \<or> m cvssSelected ''MSA'' = Some ''S'' then 0
             else if \<not> (m cvssSelected ''MSI'' = Some ''S'' \<or> m cvssSelected ''MSA'' = Some ''S'')
                     \<and> (m cvssSelected ''SC'' = Some ''H'' \<or> m cvssSelected ''SI'' = Some ''H''
                          \<or> m cvssSelected ''SA'' = Some ''H'') then 1
             else if \<not> (m cvssSelected ''MSI'' = Some ''S'' \<or> m cvssSelected ''MSA'' = Some ''S'')
                     \<and> \<not> (m cvssSelected ''SC'' = Some ''H'' \<or> m cvssSelected ''SI'' = Some ''H''
                            \<or> m cvssSelected ''SA'' = Some ''H'') then 2
             else 0);
          eq5 =
            (if m cvssSelected ''E'' = Some ''A'' then 0
             else if m cvssSelected ''E'' = Some ''P'' then 1
             else if m cvssSelected ''E'' = Some ''U'' then 2
             else 0);
          eq6 =
            (if (m cvssSelected ''CR'' = Some ''H'' \<and> m cvssSelected ''VC'' = Some ''H'')
                \<or> (m cvssSelected ''IR'' = Some ''H'' \<and> m cvssSelected ''VI'' = Some ''H'')
                \<or> (m cvssSelected ''AR'' = Some ''H'' \<and> m cvssSelected ''VA'' = Some ''H'') then 0
             else if \<not> ((m cvssSelected ''CR'' = Some ''H'' \<and> m cvssSelected ''VC'' = Some ''H'')
                \<or> (m cvssSelected ''IR'' = Some ''H'' \<and> m cvssSelected ''VI'' = Some ''H'')
                \<or> (m cvssSelected ''AR'' = Some ''H'' \<and> m cvssSelected ''VA'' = Some ''H'')) then 1
             else 0)
      in string_of_nat eq1 @ string_of_nat eq2 @ string_of_nat eq3 @ string_of_nat eq4
           @ string_of_nat eq5 @ string_of_nat eq6)"

text \<open>
  \<^verbatim>\<open>lookup[i]\<close> on a string is the one-character string at \<open>i\<close> or \<^verbatim>\<open>undefined\<close>;
  as a property name \<^verbatim>\<open>undefined\<close> reads \<open>''undefined''\<close>, and \<^verbatim>\<open>parseInt\<close> of it,
  or of a character that is no digit, is \<^verbatim>\<open>NaN\<close> (\<open>None\<close>).
\<close>

definition char_at :: "string \<Rightarrow> nat \<Rightarrow> string option" where
  "char_at s i = (if i < length s then Some [s ! i] else None)"

definition prop_name :: "string option \<Rightarrow> string" where
  "prop_name k = (case k of None \<Rightarrow> ''undefined'' | Some s \<Rightarrow> s)"

definition parseInt :: "string option \<Rightarrow> nat option" where
  "parseInt s =
     (case s of
        Some [c] \<Rightarrow>
          (let n = (of_char c :: nat) in if 48 \<le> n \<and> n \<le> 57 then Some (n - 48) else None)
      | _ \<Rightarrow> None)"

text \<open>
  \<^verbatim>\<open>getEQMaxes\<close>: the entry of \<^verbatim>\<open>maxComposed["eq" + eq]\<close> under the digit
  \<^verbatim>\<open>lookup[eq - 1]\<close>.  For the classes 1, 2, 4 and 5 the entry is a list of partial
  vectors, for class 3 it is a table indexed once more by the EQ6 digit, and a digit the
  class does not have gives \<^verbatim>\<open>undefined\<close> (\<open>None\<close>).  \<^verbatim>\<open>maxComposed\<close> has no other
  class, so any other \<open>eq\<close> reads a property of \<^verbatim>\<open>undefined\<close> and raises a
  \<^verbatim>\<open>TypeError\<close>.
\<close>

datatype eq_maxes = Vectors "string list" | Table "(string \<times> string list) list"

definition getEQMaxes :: "string \<Rightarrow> nat \<Rightarrow> error + eq_maxes option" where
  "getEQMaxes lookup eq =
     (let digit = prop_name (char_at lookup (eq - 1))
      in if eq = 1 then Inr (map_option Vectors (map_of (mc_eq1 maxComposed) digit))
         else if eq = 2 then Inr (map_option Vectors (map_of (mc_eq2 maxComposed) digit))
         else if eq = 3 then Inr (map_option Table (map_of (mc_eq3 maxComposed) digit))
         else if eq = 4 then Inr (map_option Vectors (map_of (mc_eq4 maxComposed) digit))
         else if eq = 5 then Inr (map_option Vectors (map_of (mc_eq5 maxComposed) digit))
         else Inl TypeError)"

text \<open>
  What \<^verbatim>\<open>cvss_score\<close> does with a result of \<^verbatim>\<open>getEQMaxes\<close>.  A \<^verbatim>\<open>for ... of\<close>
  loop runs over a list and raises a \<^verbatim>\<open>TypeError\<close> on \<^verbatim>\<open>undefined\<close> and on a table,
  which is a plain object (\<open>vectors_of\<close>, \<open>None\<close> for the error).  Indexing by the EQ6
  digit reads a table, raises a \<^verbatim>\<open>TypeError\<close> on \<^verbatim>\<open>undefined\<close>, and on a list gives
  the element at that index, a string, over which a loop runs character by character
  (\<open>maxes_at\<close>).
\<close>

definition vectors_of :: "error + eq_maxes option \<Rightarrow> string list option" where
  "vectors_of r = (case r of Inr (Some (Vectors l)) \<Rightarrow> Some l | _ \<Rightarrow> None)"

definition maxes_at :: "error + eq_maxes option \<Rightarrow> string option \<Rightarrow> string list option" where
  "maxes_at r digit =
     (case r of
        Inr (Some (Table t)) \<Rightarrow> map_of t (prop_name digit)
      | Inr (Some (Vectors l)) \<Rightarrow>
          (case parseInt digit of
             Some i \<Rightarrow> if i < length l then Some (map (\<lambda>c. [c]) (l ! i)) else None
           | None \<Rightarrow> None)
      | _ \<Rightarrow> None)"

definition extractValueMetric :: "string \<Rightarrow> string \<Rightarrow> string" where
  "extractValueMetric metric str =
     (let extracted = drop (nat (indexOf str metric + int (length metric) + 1)) str
      in if 0 < indexOf extracted ''/'' then take (nat (indexOf extracted ''/'')) extracted
         else extracted)"

text \<open>The rank tables of \<^verbatim>\<open>cvss_score\<close>.\<close>

definition AV_levels :: "(string \<times> rat) list" where
  "AV_levels = [(''N'', 0.0), (''A'', 0.1), (''L'', 0.2), (''P'', 0.3)]"

definition PR_levels :: "(string \<times> rat) list" where
  "PR_levels = [(''N'', 0.0), (''L'', 0.1), (''H'', 0.2)]"

definition UI_levels :: "(string \<times> rat) list" where
  "UI_levels = [(''N'', 0.0), (''P'', 0.1), (''A'', 0.2)]"

definition AC_levels :: "(string \<times> rat) list" where
  "AC_levels = [(''L'', 0.0), (''H'', 0.1)]"

definition AT_levels :: "(string \<times> rat) list" where
  "AT_levels = [(''N'', 0.0), (''P'', 0.1)]"

definition VC_levels :: "(string \<times> rat) list" where
  "VC_levels = [(''H'', 0.0), (''L'', 0.1), (''N'', 0.2)]"

definition VI_levels :: "(string \<times> rat) list" where
  "VI_levels = [(''H'', 0.0), (''L'', 0.1), (''N'', 0.2)]"

definition VA_levels :: "(string \<times> rat) list" where
  "VA_levels = [(''H'', 0.0), (''L'', 0.1), (''N'', 0.2)]"

definition SC_levels :: "(string \<times> rat) list" where
  "SC_levels = [(''H'', 0.1), (''L'', 0.2), (''N'', 0.3)]"

definition SI_levels :: "(string \<times> rat) list" where
  "SI_levels = [(''S'', 0.0), (''H'', 0.1), (''L'', 0.2), (''N'', 0.3)]"

definition SA_levels :: "(string \<times> rat) list" where
  "SA_levels = [(''S'', 0.0), (''H'', 0.1), (''L'', 0.2), (''N'', 0.3)]"

definition CR_levels :: "(string \<times> rat) list" where
  "CR_levels = [(''H'', 0.0), (''M'', 0.1), (''L'', 0.2)]"

definition IR_levels :: "(string \<times> rat) list" where
  "IR_levels = [(''H'', 0.0), (''M'', 0.1), (''L'', 0.2)]"

definition AR_levels :: "(string \<times> rat) list" where
  "AR_levels = [(''H'', 0.0), (''M'', 0.1), (''L'', 0.2)]"

text \<open>Reading a table of numbers by a key that may be \<^verbatim>\<open>undefined\<close>.\<close>

definition num_at :: "(string \<times> rat) list \<Rightarrow> string option \<Rightarrow> number" where
  "num_at table key =
     (case map_of table (prop_name key) of None \<Rightarrow> NaN | Some n \<Rightarrow> dbl n)"

definition severity_distance ::
  "(string \<times> rat) list \<Rightarrow> string \<Rightarrow> selected \<Rightarrow> string \<Rightarrow> number" where
  "severity_distance levels metric cvssSelected max_vector =
     num_sub (num_at levels (m cvssSelected metric))
       (num_at levels (Some (extractValueMetric metric max_vector)))"

text \<open>
  The fourteen severity distances of one iteration, in the order of the array the source
  tests: \<open>AV PR UI AC AT VC VI VA SC SI SA CR IR AR\<close>.
\<close>

record severity_distances =
  sd_AV :: number
  sd_PR :: number
  sd_UI :: number
  sd_AC :: number
  sd_AT :: number
  sd_VC :: number
  sd_VI :: number
  sd_VA :: number
  sd_SC :: number
  sd_SI :: number
  sd_SA :: number
  sd_CR :: number
  sd_IR :: number
  sd_AR :: number

definition distances_to :: "selected \<Rightarrow> string \<Rightarrow> severity_distances" where
  "distances_to cvssSelected max_vector =
     \<lparr>sd_AV = severity_distance AV_levels ''AV'' cvssSelected max_vector,
      sd_PR = severity_distance PR_levels ''PR'' cvssSelected max_vector,
      sd_UI = severity_distance UI_levels ''UI'' cvssSelected max_vector,
      sd_AC = severity_distance AC_levels ''AC'' cvssSelected max_vector,
      sd_AT = severity_distance AT_levels ''AT'' cvssSelected max_vector,
      sd_VC = severity_distance VC_levels ''VC'' cvssSelected max_vector,
      sd_VI = severity_distance VI_levels ''VI'' cvssSelected max_vector,
      sd_VA = severity_distance VA_levels ''VA'' cvssSelected max_vector,
      sd_SC = severity_distance SC_levels ''SC'' cvssSelected max_vector,
      sd_SI = severity_distance SI_levels ''SI'' cvssSelected max_vector,
      sd_SA = severity_distance SA_levels ''SA'' cvssSelected max_vector,
      sd_CR = severity_distance CR_levels ''CR'' cvssSelected max_vector,
      sd_IR = severity_distance IR_levels ''IR'' cvssSelected max_vector,
      sd_AR = severity_distance AR_levels ''AR'' cvssSelected max_vector\<rparr>"

definition some_negative :: "severity_distances \<Rightarrow> bool" where
  "some_negative d \<longleftrightarrow>
     (\<exists>met \<in> set [sd_AV d, sd_PR d, sd_UI d, sd_AC d, sd_AT d, sd_VC d, sd_VI d, sd_VA d,
                   sd_SC d, sd_SI d, sd_SA d, sd_CR d, sd_IR d, sd_AR d]. num_lt met (Num 0))"

text \<open>
  The loop over \<^verbatim>\<open>max_vectors\<close>: \<^verbatim>\<open>continue\<close> when some distance is negative,
  \<^verbatim>\<open>break\<close> otherwise.  The distances keep the values of the last iteration that ran.
\<close>

fun find_max_vector ::
  "selected \<Rightarrow> string list \<Rightarrow> severity_distances \<Rightarrow> severity_distances" where
  "find_max_vector cvssSelected [] d = d"
| "find_max_vector cvssSelected (max_vector # max_vectors) d =
     (let d' = distances_to cvssSelected max_vector
      in if some_negative d' then find_max_vector cvssSelected max_vectors d' else d')"

text \<open>
  A MacroVector key built by a template literal from the six digits, \<open>eq + 1\<close>, and the
  score the table has for a key (\<open>NaN\<close> when it has none).
\<close>

definition macro_key ::
  "nat option \<Rightarrow> nat option \<Rightarrow> nat option \<Rightarrow> nat option \<Rightarrow> nat option \<Rightarrow> nat option \<Rightarrow> string"
  where
  "macro_key eq1 eq2 eq3 eq4 eq5 eq6 = tpl eq1 @ tpl eq2 @ tpl eq3 @ tpl eq4 @ tpl eq5 @ tpl eq6"

definition inc :: "nat option \<Rightarrow> nat option" where
  "inc eq = map_option Suc eq"

definition lookup_score :: "(string \<times> rat) list \<Rightarrow> string \<Rightarrow> number" where
  "lookup_score lookup key = (case map_of lookup key of None \<Rightarrow> NaN | Some v \<Rightarrow> dbl v)"

text \<open>
  The next lower MacroVector of the coupled classes EQ3 and EQ6 when there is one
  candidate; from \<open>(0, 0)\<close> the source leaves it empty and uses the two candidates
  \<open>left\<close> and \<open>right\<close> instead.
\<close>

definition eq3eq6_next_lower_macro ::
  "nat option \<Rightarrow> nat option \<Rightarrow> nat option \<Rightarrow> nat option \<Rightarrow> nat option \<Rightarrow> nat option \<Rightarrow> string"
  where
  "eq3eq6_next_lower_macro eq1 eq2 eq3 eq4 eq5 eq6 =
     (if eq3 = Some 1 \<and> eq6 = Some 1 then macro_key eq1 eq2 (inc eq3) eq4 eq5 (inc eq6)
      else if eq3 = Some 0 \<and> eq6 = Some 1 then macro_key eq1 eq2 (inc eq3) eq4 eq5 eq6
      else if eq3 = Some 1 \<and> eq6 = Some 0 then macro_key eq1 eq2 eq3 eq4 eq5 (inc eq6)
      else if eq3 = Some 0 \<and> eq6 = Some 0 then []
      else macro_key eq1 eq2 (inc eq3) eq4 eq5 (inc eq6))"

definition eq3eq6_next_lower_macro_left ::
  "nat option \<Rightarrow> nat option \<Rightarrow> nat option \<Rightarrow> nat option \<Rightarrow> nat option \<Rightarrow> nat option \<Rightarrow> string"
  where
  "eq3eq6_next_lower_macro_left eq1 eq2 eq3 eq4 eq5 eq6 =
     (if eq3 = Some 0 \<and> eq6 = Some 0 then macro_key eq1 eq2 eq3 eq4 eq5 (inc eq6) else [])"

definition eq3eq6_next_lower_macro_right ::
  "nat option \<Rightarrow> nat option \<Rightarrow> nat option \<Rightarrow> nat option \<Rightarrow> nat option \<Rightarrow> nat option \<Rightarrow> string"
  where
  "eq3eq6_next_lower_macro_right eq1 eq2 eq3 eq4 eq5 eq6 =
     (if eq3 = Some 0 \<and> eq6 = Some 0 then macro_key eq1 eq2 (inc eq3) eq4 eq5 eq6 else [])"

definition score_eq3eq6_next_lower_macro ::
  "(string \<times> rat) list \<Rightarrow>
   nat option \<Rightarrow> nat option \<Rightarrow> nat option \<Rightarrow> nat option \<Rightarrow> nat option \<Rightarrow> nat option \<Rightarrow> number"
  where
  "score_eq3eq6_next_lower_macro lookup eq1 eq2 eq3 eq4 eq5 eq6 =
     (if eq3 = Some 0 \<and> eq6 = Some 0 then
        let score_eq3eq6_next_lower_macro_left =
              lookup_score lookup (eq3eq6_next_lower_macro_left eq1 eq2 eq3 eq4 eq5 eq6);
            score_eq3eq6_next_lower_macro_right =
              lookup_score lookup (eq3eq6_next_lower_macro_right eq1 eq2 eq3 eq4 eq5 eq6)
        in if num_lt score_eq3eq6_next_lower_macro_right score_eq3eq6_next_lower_macro_left
           then score_eq3eq6_next_lower_macro_left
           else score_eq3eq6_next_lower_macro_right
      else lookup_score lookup (eq3eq6_next_lower_macro eq1 eq2 eq3 eq4 eq5 eq6))"

text \<open>
  \<^verbatim>\<open>max_vectors\<close>: the five nested loops.  Every list of \<^verbatim>\<open>maxComposed\<close> is
  non-empty, so a list that is \<^verbatim>\<open>undefined\<close> is reached by the loops and raises a
  \<^verbatim>\<open>TypeError\<close> (\<open>None\<close>).
\<close>

definition compose_max_vectors :: "string \<Rightarrow> string list option" where
  "compose_max_vectors macroVectorResult =
     (case (vectors_of (getEQMaxes macroVectorResult 1),
            vectors_of (getEQMaxes macroVectorResult 2),
            maxes_at (getEQMaxes macroVectorResult 3) (char_at macroVectorResult 5),
            vectors_of (getEQMaxes macroVectorResult 4),
            vectors_of (getEQMaxes macroVectorResult 5)) of
        (Some eq1_maxes, Some eq2_maxes, Some eq3_eq6_maxes, Some eq4_maxes, Some eq5_maxes) \<Rightarrow>
          Some (concat (map (\<lambda>eq1_max.
                  concat (map (\<lambda>eq2_max.
                    concat (map (\<lambda>eq3_eq6_max.
                      concat (map (\<lambda>eq4_max.
                        map (\<lambda>eq5_max. eq1_max @ eq2_max @ eq3_eq6_max @ eq4_max @ eq5_max)
                          eq5_maxes) eq4_maxes)) eq3_eq6_maxes)) eq2_maxes)) eq1_maxes))
      | _ \<Rightarrow> None)"

definition zero_distances :: severity_distances where
  "zero_distances =
     \<lparr>sd_AV = Num 0, sd_PR = Num 0, sd_UI = Num 0, sd_AC = Num 0, sd_AT = Num 0,
      sd_VC = Num 0, sd_VI = Num 0, sd_VA = Num 0, sd_SC = Num 0, sd_SI = Num 0,
      sd_SA = Num 0, sd_CR = Num 0, sd_IR = Num 0, sd_AR = Num 0\<rparr>"

text \<open>
  One \<^verbatim>\<open>if (!isNaN(available_distance)) { ... }\<close> block: what it adds to
  \<^verbatim>\<open>n_existing_lower\<close> and what it leaves in \<^verbatim>\<open>normalized_severity\<close>, which starts
  at 0.  For EQ5 the proportion is the constant 0.
\<close>

definition existing_lower :: "number \<Rightarrow> nat" where
  "existing_lower available_distance = (if \<not> isNaN available_distance then 1 else 0)"

definition normalized_severity :: "number \<Rightarrow> number \<Rightarrow> number \<Rightarrow> number" where
  "normalized_severity available_distance current_severity_distance maxSeverity =
     (if \<not> isNaN available_distance
      then num_mul available_distance (num_div current_severity_distance maxSeverity)
      else Num 0)"

definition normalized_severity_eq5 :: "number \<Rightarrow> number" where
  "normalized_severity_eq5 available_distance =
     (if \<not> isNaN available_distance then num_mul available_distance (Num 0) else Num 0)"

definition mean_distance ::
  "nat \<Rightarrow> number \<Rightarrow> number \<Rightarrow> number \<Rightarrow> number \<Rightarrow> number \<Rightarrow> number" where
  "mean_distance n_existing_lower normalized_severity_eq1 normalized_severity_eq2
       normalized_severity_eq3eq6 normalized_severity_eq4 normalized_severity_eq5' =
     (if n_existing_lower = 0 then Num 0
      else num_div
             (num_add
                (num_add
                   (num_add (num_add normalized_severity_eq1 normalized_severity_eq2)
                      normalized_severity_eq3eq6)
                   normalized_severity_eq4)
                normalized_severity_eq5')
             (Num (of_nat n_existing_lower)))"

text \<open>The last step: clamp to \<open>[0, 10]\<close> and round to one decimal with \<^verbatim>\<open>Math.round\<close>.\<close>

definition round_v4 :: "number \<Rightarrow> number" where
  "round_v4 val =
     (let v1 = (if num_lt val (Num 0) then Num 0 else val);
          v2 = (if num_lt (Num 10) v1 then Num 10 else v1)
      in num_div (Math_round (num_mul v2 (Num 10))) (Num 10))"

definition cvss_score ::
  "selected \<Rightarrow> (string \<times> rat) list \<Rightarrow> MaxSeverityData \<Rightarrow> string \<Rightarrow> error + number" where
  "cvss_score cvssSelected lookup maxSeverityData macroVectorResult =
     (if \<forall>metric \<in> set [''VC'', ''VI'', ''VA'', ''SC'', ''SI'', ''SA''].
           m cvssSelected metric = Some ''N''
      then Inr (Num 0)
      else
        let val = lookup_score lookup macroVectorResult;
            eq1 = parseInt (char_at macroVectorResult 0);
            eq2 = parseInt (char_at macroVectorResult 1);
            eq3 = parseInt (char_at macroVectorResult 2);
            eq4 = parseInt (char_at macroVectorResult 3);
            eq5 = parseInt (char_at macroVectorResult 4);
            eq6 = parseInt (char_at macroVectorResult 5);
            eq1_next_lower_macro = macro_key (inc eq1) eq2 eq3 eq4 eq5 eq6;
            eq2_next_lower_macro = macro_key eq1 (inc eq2) eq3 eq4 eq5 eq6;
            eq4_next_lower_macro = macro_key eq1 eq2 eq3 (inc eq4) eq5 eq6;
            eq5_next_lower_macro = macro_key eq1 eq2 eq3 eq4 (inc eq5) eq6;
            score_eq1_next_lower_macro = lookup_score lookup eq1_next_lower_macro;
            score_eq2_next_lower_macro = lookup_score lookup eq2_next_lower_macro;
            score_eq3eq6_next_lower_macro' =
              score_eq3eq6_next_lower_macro lookup eq1 eq2 eq3 eq4 eq5 eq6;
            score_eq4_next_lower_macro = lookup_score lookup eq4_next_lower_macro;
            score_eq5_next_lower_macro = lookup_score lookup eq5_next_lower_macro
        in case compose_max_vectors macroVectorResult of
             None \<Rightarrow> Inl TypeError
           | Some max_vectors \<Rightarrow>
               let d = find_max_vector cvssSelected max_vectors zero_distances;
                   current_severity_distance_eq1 = num_add (num_add (sd_AV d) (sd_PR d)) (sd_UI d);
                   current_severity_distance_eq2 = num_add (sd_AC d) (sd_AT d);
                   current_severity_distance_eq3eq6 =
                     num_add
                       (num_add
                          (num_add (num_add (num_add (sd_VC d) (sd_VI d)) (sd_VA d)) (sd_CR d))
                          (sd_IR d))
                       (sd_AR d);
                   current_severity_distance_eq4 = num_add (num_add (sd_SC d) (sd_SI d)) (sd_SA d);
                   step = dbl 0.1;
                   available_distance_eq1 = num_sub val score_eq1_next_lower_macro;
                   available_distance_eq2 = num_sub val score_eq2_next_lower_macro;
                   available_distance_eq3eq6 = num_sub val score_eq3eq6_next_lower_macro';
                   available_distance_eq4 = num_sub val score_eq4_next_lower_macro;
                   available_distance_eq5 = num_sub val score_eq5_next_lower_macro
               in case map_of (ms_eq3eq6 maxSeverityData) (tpl eq3) of
                    None \<Rightarrow> Inl TypeError
                  | Some eq3_row \<Rightarrow>
                      let maxSeverity_eq1 =
                            num_mul (num_at (ms_eq1 maxSeverityData) (Some (tpl eq1))) step;
                          maxSeverity_eq2 =
                            num_mul (num_at (ms_eq2 maxSeverityData) (Some (tpl eq2))) step;
                          maxSeverity_eq3eq6 = num_mul (num_at eq3_row (Some (tpl eq6))) step;
                          maxSeverity_eq4 =
                            num_mul (num_at (ms_eq4 maxSeverityData) (Some (tpl eq4))) step;
                          n_existing_lower =
                            existing_lower available_distance_eq1
                            + existing_lower available_distance_eq2
                            + existing_lower available_distance_eq3eq6
                            + existing_lower available_distance_eq4
                            + existing_lower available_distance_eq5;
                          mean_distance' =
                            mean_distance n_existing_lower
                              (normalized_severity available_distance_eq1
                                 current_severity_distance_eq1 maxSeverity_eq1)
                              (normalized_severity available_distance_eq2
                                 current_severity_distance_eq2 maxSeverity_eq2)
                              (normalized_severity available_distance_eq3eq6
                                 current_severity_distance_eq3eq6 maxSeverity_eq3eq6)
                              (normalized_severity available_distance_eq4
                                 current_severity_distance_eq4 maxSeverity_eq4)
                              (normalized_severity_eq5 available_distance_eq5)
                      in Inr (round_v4 (num_sub val mean_distance')))"

definition calculateBaseScoreV4 :: "string \<Rightarrow> error + number" where
  "calculateBaseScoreV4 vectorString =
     bindE (validateVectorV4 vectorString) (\<lambda>vvres.
       let cvssSelected = parseVectorV4 vectorString;
           macrov = macroVector cvssSelected
       in cvss_score cvssSelected cvssLookup_globalV4 maxSeverityV4 macrov)"

section \<open>Version dispatch\<close>

definition detectCvssVersion :: "string \<Rightarrow> error + string" where
  "detectCvssVersion cvssString =
     (let versionPrefix = (case split_on CHR ''/'' cvssString of [] \<Rightarrow> [] | v # _ \<Rightarrow> v)
      in if prefix ''CVSS:4.0'' versionPrefix then Inr ''4.0''
         else if prefix ''CVSS:3.'' versionPrefix then Inr ''3.1''
         else Inl (UnsupportedVersion versionPrefix))"

definition calculateBaseScore :: "string \<Rightarrow> error + number" where
  "calculateBaseScore cvssString =
     bindE (detectCvssVersion cvssString) (\<lambda>version.
       if version = ''4.0'' then calculateBaseScoreV4 cvssString
       else if version = ''3.1'' then
         bindE (calculateBaseResult cvssString) (\<lambda>r. Inr (sr_score r))
       else Inl (UnsupportedVersion version))"

section \<open>Properties of the rounding\<close>

lemma round_half_even_error: "\<bar>of_int (round_half_even y) - y\<bar> \<le> 1 / 2"
proof -
  obtain a b where q: "quotient_of y = (a, b)" by (cases "quotient_of y")
  then have b: "0 < b" and y: "y = of_int a / of_int b"
    using quotient_of_denom_pos [OF q] quotient_of_div [OF q] by simp_all
  define r where "r = a mod b"
  define d where "d = a div b"
  have r: "0 \<le> r" "r < b" using b by (simp_all add: r_def)
  have a: "a = d * b + r" by (simp add: r_def d_def)
  have yd: "y - of_int d = of_int r / of_int b"
    using b by (simp add: y a field_simps)
  have 1: "2 * r < b \<Longrightarrow> \<bar>of_int d - y\<bar> \<le> 1 / 2"
  proof -
    assume "2 * r < b"
    then have "(of_int (2 * r) :: rat) < of_int b" by (simp only: of_int_less_iff)
    then have "of_int r / of_int b < (1 / 2 :: rat)" using b by (simp add: field_simps)
    moreover have "0 \<le> (of_int r / of_int b :: rat)" using r b by simp
    ultimately show ?thesis using yd by linarith
  qed
  have 2: "b \<le> 2 * r \<Longrightarrow> \<bar>of_int (d + 1) - y\<bar> \<le> 1 / 2"
  proof -
    assume "b \<le> 2 * r"
    then have "(of_int b :: rat) \<le> of_int (2 * r)" by (simp only: of_int_le_iff)
    then have "(1 / 2 :: rat) \<le> of_int r / of_int b" using b by (simp add: field_simps)
    moreover have "(of_int r / of_int b :: rat) < 1" using r b by simp
    moreover have "of_int (d + 1) - y = 1 - of_int r / of_int b" using yd by simp
    ultimately show ?thesis by linarith
  qed
  have 3: "2 * r \<le> b \<Longrightarrow> \<bar>of_int d - y\<bar> \<le> 1 / 2"
  proof -
    assume "2 * r \<le> b"
    then have "(of_int (2 * r) :: rat) \<le> of_int b" by (simp only: of_int_le_iff)
    then have "of_int r / of_int b \<le> (1 / 2 :: rat)" using b by (simp add: field_simps)
    moreover have "0 \<le> (of_int r / of_int b :: rat)" using r b by simp
    ultimately show ?thesis using yd by linarith
  qed
  show ?thesis
    using 1 2 3 by (auto simp: round_half_even_def q Let_def r_def [symmetric] d_def [symmetric])
qed

lemma round_half_even_of_int [simp]: "round_half_even (of_int n) = n"
  by (simp add: round_half_even_def)

lemma expo_bounds:
  assumes "x \<noteq> 0"
  shows "2 powi (expo x) \<le> \<bar>x\<bar>" and "\<bar>x\<bar> < 2 powi (expo x + 1)"
proof -
  have "2 powi (expo x) \<le> \<bar>x\<bar> \<and> \<bar>x\<bar> < 2 powi (expo x + 1)"
  proof (cases "1 \<le> \<bar>x\<bar>")
    case True
    define n where "n = \<lfloor>\<bar>x\<bar>\<rfloor>"
    have n: "0 < n" using True by (simp add: n_def)
    have e: "expo x = bitlen n - 1" using True by (simp add: expo_def n_def)
    have bl: "1 \<le> bitlen n" using n by (simp add: bitlen_alt_def)
    have b1: "2 ^ nat (bitlen n - 1) \<le> n" and b2: "n < 2 ^ nat (bitlen n)"
      using bitlen_bounds [OF n] by simp_all
    have "(2::rat) powi (bitlen n - 1) = 2 ^ nat (bitlen n - 1)"
      using bl by (simp add: power_int_def)
    also have "\<dots> = of_int (2 ^ nat (bitlen n - 1))" by simp
    also have "\<dots> \<le> of_int n" using b1 by (simp only: of_int_le_iff)
    also have "\<dots> \<le> \<bar>x\<bar>" by (simp add: n_def)
    finally have lo: "2 powi (bitlen n - 1) \<le> \<bar>x\<bar>" .
    have "n + 1 \<le> 2 ^ nat (bitlen n)" using b2 by simp
    then have "(of_int (n + 1) :: rat) \<le> of_int (2 ^ nat (bitlen n))"
      by (simp only: of_int_le_iff)
    moreover have "\<bar>x\<bar> < of_int (n + 1)"
      using floor_correct [of "\<bar>x\<bar>"] by (simp add: n_def)
    ultimately have "\<bar>x\<bar> < 2 ^ nat (bitlen n)" by simp
    also have "\<dots> = 2 powi (bitlen n)" using bl by (simp add: power_int_def)
    finally show ?thesis using lo e by simp
  next
    case False
    define y where "y = 1 / \<bar>x\<bar>"
    have x: "0 < \<bar>x\<bar>" "\<bar>x\<bar> < 1" using False assms by simp_all
    have y: "1 < y" using x by (simp add: y_def)
    define n where "n = \<lceil>y\<rceil> - 1"
    have n: "0 < n" using y by (simp add: n_def)
    have ny: "of_int n < y" "y \<le> of_int (n + 1)"
      by (simp_all add: n_def) linarith+
    have e: "expo x = - bitlen n" using False by (simp add: expo_def n_def y_def)
    have bl: "1 \<le> bitlen n" using n by (simp add: bitlen_alt_def)
    have b1: "2 ^ nat (bitlen n - 1) \<le> n" and b2: "n < 2 ^ nat (bitlen n)"
      using bitlen_bounds [OF n] by simp_all
    have "n + 1 \<le> 2 ^ nat (bitlen n)" using b2 by simp
    then have "(of_int (n + 1) :: rat) \<le> of_int (2 ^ nat (bitlen n))"
      by (simp only: of_int_le_iff)
    then have "y \<le> 2 ^ nat (bitlen n)" using ny by simp
    then have "1 / \<bar>x\<bar> \<le> 2 ^ nat (bitlen n)" by (simp add: y_def)
    then have "1 \<le> 2 ^ nat (bitlen n) * \<bar>x\<bar>" using x by (simp add: field_simps)
    then have "1 / 2 ^ nat (bitlen n) \<le> \<bar>x\<bar>" by (simp add: field_simps)
    moreover have "(2::rat) powi (- bitlen n) = 1 / 2 ^ nat (bitlen n)"
      using bl by (simp add: power_int_def field_simps)
    ultimately have lo: "2 powi (- bitlen n) \<le> \<bar>x\<bar>" by simp
    have "(of_int (2 ^ nat (bitlen n - 1)) :: rat) \<le> of_int n"
      using b1 by (simp only: of_int_le_iff)
    then have "(2::rat) ^ nat (bitlen n - 1) \<le> of_int n" by simp
    then have "2 ^ nat (bitlen n - 1) < y" using ny(1) by linarith
    then have "2 ^ nat (bitlen n - 1) < 1 / \<bar>x\<bar>" by (simp add: y_def)
    then have "2 ^ nat (bitlen n - 1) * \<bar>x\<bar> < 1" using x by (simp add: field_simps)
    then have "\<bar>x\<bar> < 1 / 2 ^ nat (bitlen n - 1)" by (simp add: field_simps)
    moreover have "(2::rat) powi (- bitlen n + 1) = 1 / 2 ^ nat (bitlen n - 1)"
    proof -
      have "- bitlen n + 1 = - (bitlen n - 1)" by simp
      then have "(2::rat) powi (- bitlen n + 1) = 2 powi (- (bitlen n - 1))" by simp
      also have "\<dots> = 1 / 2 powi (bitlen n - 1)"
        by (simp only: power_int_minus inverse_eq_divide)
      also have "\<dots> = 1 / 2 ^ nat (bitlen n - 1)" using bl by (simp add: power_int_def)
      finally show ?thesis .
    qed
    ultimately have "\<bar>x\<bar> < 2 powi (- bitlen n + 1)" by simp
    then show ?thesis using lo e by simp
  qed
  then show "2 powi (expo x) \<le> \<bar>x\<bar>" and "\<bar>x\<bar> < 2 powi (expo x + 1)" by simp_all
qed

lemma fl_error: "\<bar>fl x - x\<bar> \<le> \<bar>x\<bar> / 2 ^ 53"
proof (cases "x = 0")
  case True
  then show ?thesis by (simp add: fl_def)
next
  case False
  define q :: rat where "q = 2 powi (expo x - 52)"
  have q: "0 < q" by (simp add: q_def)
  have fl: "fl x = of_int (round_half_even (x / q)) * q"
    using False by (simp add: fl_def q_def Let_def)
  have "\<bar>fl x - x\<bar> = \<bar>of_int (round_half_even (x / q)) - x / q\<bar> * q"
  proof -
    have "fl x - x = (of_int (round_half_even (x / q)) - x / q) * q"
      using q by (simp add: fl field_simps)
    then show ?thesis using q by (simp add: abs_mult)
  qed
  also have "\<dots> \<le> 1 / 2 * q"
    using round_half_even_error [of "x / q"] q by (intro mult_right_mono) simp_all
  also have "\<dots> = 2 powi (expo x) / 2 ^ 53"
  proof -
    have "(2::rat) powi (expo x - 52) = 2 powi (expo x) / 2 powi 52"
      by (simp add: power_int_diff)
    then show ?thesis by (simp add: q_def)
  qed
  also have "\<dots> \<le> \<bar>x\<bar> / 2 ^ 53"
    using expo_bounds(1) [OF False] by (simp add: divide_right_mono)
  finally show ?thesis .
qed

lemma fl_of_int:
  assumes "\<bar>n\<bar> \<le> 2 ^ 53"
  shows "fl (of_int n) = of_int n"
proof (cases "n = 0")
  case True
  then show ?thesis by (simp add: fl_def)
next
  case False
  define x :: rat where "x = of_int n"
  have x0: "x \<noteq> 0" using False by (simp add: x_def)
  define e where "e = expo x"
  have lo: "2 powi e \<le> \<bar>x\<bar>" and hi: "\<bar>x\<bar> < 2 powi (e + 1)"
    using expo_bounds [OF x0] by (simp_all add: e_def)
  have x1: "1 \<le> \<bar>x\<bar>"
  proof -
    have "1 \<le> \<bar>n\<bar>" using False by linarith
    then have "(of_int 1 :: rat) \<le> of_int \<bar>n\<bar>" by (simp only: of_int_le_iff)
    then show ?thesis by (simp add: x_def)
  qed
  have xle: "\<bar>x\<bar> \<le> 2 powi 53"
  proof -
    have "(of_int \<bar>n\<bar> :: rat) \<le> of_int (2 ^ 53)" using assms by (simp only: of_int_le_iff)
    then show ?thesis by (simp add: x_def)
  qed
  have e0: "0 \<le> e"
  proof (rule ccontr)
    assume "\<not> 0 \<le> e"
    then have "e + 1 \<le> 0" by simp
    then have "(2::rat) powi (e + 1) \<le> 2 powi 0" by (intro power_int_increasing) simp_all
    with hi x1 show False by simp
  qed
  have e53: "e \<le> 53"
  proof (rule ccontr)
    assume "\<not> e \<le> 53"
    then have "53 < e" by simp
    then have "(2::rat) powi 53 < 2 powi e" by (intro power_int_strict_increasing) simp_all
    with lo xle show False by simp
  qed
  have fl: "fl x = of_int (round_half_even (x / 2 powi (e - 52))) * 2 powi (e - 52)"
    using x0 by (simp add: fl_def e_def Let_def)
  show ?thesis
  proof (cases "e \<le> 52")
    case True
    have "x / 2 powi (e - 52) = x * 2 powi (52 - e)"
      by (simp add: power_int_diff field_simps)
    also have "\<dots> = of_int (n * 2 ^ nat (52 - e))"
      using True by (simp add: x_def power_int_def)
    finally have "round_half_even (x / 2 powi (e - 52)) = n * 2 ^ nat (52 - e)"
      by (simp only: round_half_even_of_int)
    then have "fl x = of_int n * (2 ^ nat (52 - e) * 2 powi (e - 52))"
      by (simp add: fl)
    also have "2 ^ nat (52 - e) * (2::rat) powi (e - 52) = 2 powi (52 - e) * 2 powi (e - 52)"
      using True by (simp add: power_int_def)
    also have "\<dots> = 1"
      by (simp add: power_int_add [symmetric])
    finally show ?thesis by (simp add: x_def)
  next
    case False
    with e53 have e: "e = 53" by simp
    with lo xle have ax: "\<bar>x\<bar> = 2 ^ 53" by simp
    then have "\<bar>n\<bar> = 2 ^ 53"
      by (simp add: x_def)
    then have "even \<bar>n\<bar>" by simp
    then have "even n" by simp
    then obtain b where nb: "n = 2 * b" by (elim evenE)
    have "x / 2 powi (e - 52) = of_int b" by (simp add: e x_def nb)
    then have "round_half_even (x / 2 powi (e - 52)) = b"
      by (simp only: round_half_even_of_int)
    then have "fl x = of_int b * 2" by (simp add: fl e)
    then show ?thesis by (simp add: x_def nb)
  qed
qed

lemma two_powi_add: "(2::rat) powi (a + b) = 2 powi a * 2 powi b"
  by (simp add: power_int_add)

lemma two_powi_less_imp: "(2::rat) powi a < 2 powi b \<Longrightarrow> a < b"
proof (rule ccontr)
  assume less: "(2::rat) powi a < 2 powi b" and "\<not> a < b"
  then have "b \<le> a" by simp
  then have "(2::rat) powi b \<le> 2 powi a" by (intro power_int_increasing) simp_all
  with less show False by simp
qed

lemma expo_unique:
  assumes "2 powi e \<le> \<bar>x\<bar>" and "\<bar>x\<bar> < 2 powi (e + 1)"
  shows "expo x = e"
proof -
  have x0: "x \<noteq> 0"
  proof
    assume "x = 0"
    with assms(1) have "(2::rat) powi e \<le> 0" by simp
    moreover have "0 < (2::rat) powi e" by simp
    ultimately show False by linarith
  qed
  have lo: "2 powi (expo x) \<le> \<bar>x\<bar>" and hi: "\<bar>x\<bar> < 2 powi (expo x + 1)"
    using expo_bounds [OF x0] by simp_all
  have "(2::rat) powi e < 2 powi (expo x + 1)" using assms(1) hi by linarith
  then have 1: "e < expo x + 1" by (rule two_powi_less_imp)
  have "(2::rat) powi (expo x) < 2 powi (e + 1)" using assms(2) lo by linarith
  then have 2: "expo x < e + 1" by (rule two_powi_less_imp)
  from 1 2 show ?thesis by simp
qed

lemma fl_mantissa:
  assumes "x \<noteq> 0"
  defines "n \<equiv> round_half_even (x / 2 powi (expo x - 52))"
  shows "fl x = of_int n * 2 powi (expo x - 52)" and "2 ^ 52 \<le> \<bar>n\<bar>" and "\<bar>n\<bar> \<le> 2 ^ 53"
proof -
  define q :: rat where "q = 2 powi (expo x - 52)"
  have q: "0 < q" by (simp add: q_def)
  show "fl x = of_int n * 2 powi (expo x - 52)"
    using assms by (simp add: fl_def Let_def)
  have qe: "q * 2 ^ 52 = 2 powi (expo x)"
  proof -
    have "(2::rat) powi (expo x - 52) = 2 powi (expo x) / 2 powi 52"
      by (simp add: power_int_diff)
    then show ?thesis by (simp add: q_def)
  qed
  have qe1: "q * 2 ^ 53 = 2 powi (expo x + 1)"
  proof -
    have "(2::rat) powi (expo x + 1) = 2 powi (expo x) * 2"
      by (simp add: power_int_add)
    then show ?thesis using qe by simp
  qed
  have lo: "2 ^ 52 \<le> \<bar>x / q\<bar>"
  proof -
    have "q * 2 ^ 52 \<le> \<bar>x\<bar>" using expo_bounds(1) [OF assms(1)] qe by simp
    then show ?thesis using q by (simp add: abs_divide field_simps)
  qed
  have hi: "\<bar>x / q\<bar> < 2 ^ 53"
  proof -
    have "\<bar>x\<bar> < q * 2 ^ 53" using expo_bounds(2) [OF assms(1)] qe1 by simp
    then show ?thesis using q by (simp add: abs_divide field_simps)
  qed
  have err: "\<bar>of_int n - x / q\<bar> \<le> 1 / 2"
    unfolding n_def q_def by (rule round_half_even_error)
  have "(2 ^ 52 :: rat) - 1 / 2 \<le> \<bar>of_int n\<bar>" using lo err by linarith
  then have "(2 ^ 52 :: rat) - 1 < of_int \<bar>n\<bar>" by simp
  then have "(of_int (2 ^ 52 - 1) :: rat) < of_int \<bar>n\<bar>" by simp
  then have "2 ^ 52 - 1 < \<bar>n\<bar>" by (simp only: of_int_less_iff)
  then show "2 ^ 52 \<le> \<bar>n\<bar>" by simp
  have "\<bar>of_int n\<bar> < (2 ^ 53 :: rat) + 1 / 2" using hi err by linarith
  then have "of_int \<bar>n\<bar> < (2 ^ 53 :: rat) + 1" by simp
  then have "(of_int \<bar>n\<bar> :: rat) < of_int (2 ^ 53 + 1)" by simp
  then have "\<bar>n\<bar> < 2 ^ 53 + 1" by (simp only: of_int_less_iff)
  then show "\<bar>n\<bar> \<le> 2 ^ 53" by simp
qed

lemma fl_scaled_int:
  assumes "\<bar>n\<bar> \<le> 2 ^ 53"
  shows "fl (of_int n * 2 powi k) = of_int n * 2 powi k"
proof (cases "n = 0")
  case True
  then show ?thesis by (simp add: fl_def)
next
  case False
  define x :: rat where "x = of_int n * 2 powi k"
  define p :: rat where "p = 2 powi k"
  have p: "0 < p" by (simp add: p_def)
  have x0: "x \<noteq> 0" using False by (simp add: x_def)
  define y :: rat where "y = of_int n"
  have y0: "y \<noteq> 0" using False by (simp add: y_def)
  have ylo: "2 powi (expo y) \<le> \<bar>y\<bar>" and yhi: "\<bar>y\<bar> < 2 powi (expo y + 1)"
    using expo_bounds [OF y0] by simp_all
  have ex: "expo x = expo y + k"
  proof (rule expo_unique)
    have "2 powi (expo y + k) = 2 powi (expo y) * p" by (simp add: p_def two_powi_add)
    also have "\<dots> \<le> \<bar>y\<bar> * p" using ylo p by (intro mult_right_mono) simp_all
    also have "\<dots> = \<bar>x\<bar>" using p by (simp add: x_def y_def p_def abs_mult)
    finally show "2 powi (expo y + k) \<le> \<bar>x\<bar>" .
    have "\<bar>x\<bar> = \<bar>y\<bar> * p" using p by (simp add: x_def y_def p_def abs_mult)
    also have "\<dots> < 2 powi (expo y + 1) * p" using yhi p by (intro mult_strict_right_mono)
    also have "\<dots> = 2 powi (expo y + k + 1)" by (simp add: p_def two_powi_add)
    finally show "\<bar>x\<bar> < 2 powi (expo y + k + 1)" .
  qed
  have fly: "fl y = y" unfolding y_def using assms by (rule fl_of_int)
  define d :: rat where "d = 2 powi (expo y - 52)"
  have xq: "2 powi (expo x - 52) = d * p"
  proof -
    have "expo x - 52 = (expo y - 52) + k" by (simp add: ex)
    then show ?thesis by (simp only: two_powi_add p_def d_def)
  qed
  have xy: "x = y * p" by (simp add: x_def y_def p_def)
  have "x / (d * p) = y / d" using p by (simp add: xy)
  then have "fl x = of_int (round_half_even (y / d)) * (d * p)"
    using x0 by (simp add: fl_def Let_def xq)
  moreover have "fl y = of_int (round_half_even (y / d)) * d"
    using y0 by (simp add: fl_def Let_def d_def)
  ultimately have "fl x = fl y * p" by simp
  then have "fl x = y * p" by (simp only: fly)
  then show ?thesis by (simp add: x_def y_def p_def)
qed

lemma fl_idem [simp]: "fl (fl x) = fl x"
proof (cases "x = 0")
  case True
  then show ?thesis by (simp add: fl_def)
next
  case False
  from fl_mantissa [OF False] show ?thesis
    using fl_scaled_int by metis
qed

lemma fl_0 [simp]: "fl 0 = 0" by (simp add: fl_def)

lemma fl_nonneg: "0 \<le> x \<Longrightarrow> 0 \<le> fl x"
proof -
  assume x: "0 \<le> x"
  have "\<bar>fl x - x\<bar> \<le> x / 2 ^ 53" using fl_error [of x] x by simp
  moreover have "x / 2 ^ 53 \<le> x" using x by (simp add: field_simps)
  ultimately show ?thesis by linarith
qed

lemma fl_pos: "0 < x \<Longrightarrow> 0 < fl x"
proof -
  assume x: "0 < x"
  have "\<bar>fl x - x\<bar> \<le> x / 2 ^ 53" using fl_error [of x] x by simp
  moreover have "x / 2 ^ 53 < x" using x by (simp add: field_simps)
  ultimately show ?thesis by linarith
qed

section \<open>Equations for evaluation\<close>

text \<open>
  The definitions above compute with reduced fractions at every step.  These equations
  say the same with integer arithmetic on numerator and denominator; they only make the
  evaluation of concrete vectors faster.
\<close>

lemma rhe_int_floor:
  assumes "0 < b"
  shows "rhe_int a b =
     (let y = (of_int a / of_int b :: rat); f = \<lfloor>y\<rfloor>; d = y - of_int f
      in if d < 1 / 2 then f else if 1 / 2 < d then f + 1
         else if even f then f else f + 1)"
proof -
  define y :: rat where "y = of_int a / of_int b"
  have f: "\<lfloor>y\<rfloor> = a div b" by (simp add: y_def floor_divide_of_int_eq)
  have "a = (a div b) * b + a mod b" by simp
  then have "(of_int a :: rat) = of_int (a div b) * of_int b + of_int (a mod b)"
    by (metis of_int_add of_int_mult)
  then have d: "y - of_int (a div b) = of_int (a mod b) / of_int b"
    using assms by (simp add: y_def field_simps)
  have 1: "(of_int (a mod b) / of_int b < (1 / 2 :: rat)) = (2 * (a mod b) < b)"
  proof -
    have "(of_int (a mod b) / of_int b < (1 / 2 :: rat)) = ((of_int (2 * (a mod b)) :: rat) < of_int b)"
      using assms by (simp add: field_simps)
    then show ?thesis by (simp only: of_int_less_iff)
  qed
  have 2: "((1 / 2 :: rat) < of_int (a mod b) / of_int b) = (b < 2 * (a mod b))"
  proof -
    have "((1 / 2 :: rat) < of_int (a mod b) / of_int b) = ((of_int b :: rat) < of_int (2 * (a mod b)))"
      using assms by (simp add: field_simps)
    then show ?thesis by (simp only: of_int_less_iff)
  qed
  show ?thesis
    unfolding rhe_int_def Let_def y_def [symmetric] f d 1 2 ..
qed

lemma round_half_even_frac:
  assumes "0 < b"
  shows "round_half_even (of_int a / of_int b) = rhe_int a b"
proof -
  obtain p q where pq: "quotient_of (of_int a / of_int b) = (p, q)"
    by (cases "quotient_of (of_int a / of_int b :: rat)")
  have q: "0 < q" using quotient_of_denom_pos [OF pq] .
  have eq: "(of_int a / of_int b :: rat) = of_int p / of_int q" using quotient_of_div [OF pq] .
  have "round_half_even (of_int a / of_int b) = rhe_int p q"
    by (simp add: round_half_even_def pq rhe_int_def)
  also have "\<dots> = rhe_int a b"
    unfolding rhe_int_floor [OF q] rhe_int_floor [OF assms] eq ..
  finally show ?thesis .
qed

lemma fl_code [code]:
  "fl x =
     (if x = 0 then 0
      else let k = expo x - 52
           in case quotient_of x of
                (a, b) \<Rightarrow>
                  of_int (if 0 \<le> k then rhe_int a (b * 2 ^ nat k)
                          else rhe_int (a * 2 ^ nat (- k)) b) * 2 powi k)"
proof (cases "x = 0")
  case True
  then show ?thesis by simp
next
  case False
  obtain a b where ab: "quotient_of x = (a, b)" by (cases "quotient_of x")
  have b: "0 < b" using quotient_of_denom_pos [OF ab] .
  have x: "x = of_int a / of_int b" using quotient_of_div [OF ab] .
  define k where "k = expo x - 52"
  have "round_half_even (x / 2 powi k) =
        (if 0 \<le> k then rhe_int a (b * 2 ^ nat k) else rhe_int (a * 2 ^ nat (- k)) b)"
  proof (cases "0 \<le> k")
    case True
    then have "x / 2 powi k = of_int a / of_int (b * 2 ^ nat k)"
      by (simp add: x power_int_def)
    moreover have "0 < b * 2 ^ nat k" using b by simp
    ultimately show ?thesis using True by (simp only: round_half_even_frac if_True)
  next
    case False
    then have "(2::rat) powi k = 1 / 2 ^ nat (- k)"
      by (simp add: power_int_def field_simps)
    then have "x / 2 powi k = of_int (a * 2 ^ nat (- k)) / of_int b"
      by (simp add: x)
    then show ?thesis using False b by (simp only: round_half_even_frac if_False)
  qed
  then show ?thesis
    using False by (simp add: fl_def Let_def ab k_def)
qed

lemma rat_pow_code [code abstract]:
  "quotient_of (rat_pow a n) = (case quotient_of a of (p, q) \<Rightarrow> (p ^ n, q ^ n))"
proof -
  obtain p q where pq: "quotient_of a = (p, q)" by (cases "quotient_of a")
  have q: "0 < q" using quotient_of_denom_pos [OF pq] .
  have c: "coprime p q" using quotient_of_coprime [OF pq] .
  have a: "a = of_int p / of_int q" using quotient_of_div [OF pq] .
  have "a ^ n = Fract (p ^ n) (q ^ n)"
    by (simp add: a Fract_of_int_quotient power_divide)
  moreover have "0 < q ^ n" using q by simp
  moreover have "coprime (p ^ n) (q ^ n)" using c by simp
  ultimately have "quotient_of (a ^ n) = (p ^ n, q ^ n)"
    by (simp add: quotient_of_Fract normalize_stable)
  then show ?thesis by (simp add: rat_pow_def pq)
qed

lemma Math_pow_code [code]: "Math_pow (Num a) n = Num (fl (rat_pow a n))" "Math_pow NaN n = NaN"
  by (simp_all add: rat_pow_def)

lemma ceiling_frac_minus_one:
  assumes "0 < a" "0 < b"
  shows "\<lceil>(of_int b / of_int a :: rat)\<rceil> - 1 = (b - 1) div a"
proof -
  define q where "q = (b - 1) div a"
  define r where "r = (b - 1) mod a"
  have r: "0 \<le> r" "r < a" using assms by (simp_all add: r_def)
  have b: "b = q * a + r + 1"
    using div_mult_mod_eq [of "b - 1" a] by (simp add: q_def r_def)
  have "(of_int b :: rat) = of_int q * of_int a + of_int (r + 1)"
    by (simp add: b)
  then have y: "(of_int b / of_int a :: rat) = of_int q + of_int (r + 1) / of_int a"
    using assms by (simp add: field_simps)
  have "0 < (of_int (r + 1) / of_int a :: rat)" using r assms by simp
  moreover have "(of_int (r + 1) / of_int a :: rat) \<le> 1"
  proof -
    have "r + 1 \<le> a" using r by simp
    then have "(of_int (r + 1) :: rat) \<le> of_int a" by (simp only: of_int_le_iff)
    then show ?thesis using assms by simp
  qed
  ultimately have "\<lceil>(of_int b / of_int a :: rat)\<rceil> = q + 1"
    unfolding y by (intro ceiling_unique) simp_all
  then show ?thesis by (simp add: q_def)
qed

lemma expo_code [code]:
  "expo x =
     (case quotient_of \<bar>x\<bar> of
        (a, b) \<Rightarrow> if b \<le> a then bitlen (a div b) - 1 else - bitlen ((b - 1) div a))"
proof (cases "x = 0")
  case True
  then show ?thesis by (simp add: expo_def bitlen_eq_zero_iff)
next
  case False
  obtain a b where ab: "quotient_of \<bar>x\<bar> = (a, b)" by (cases "quotient_of \<bar>x\<bar>")
  have b: "0 < b" using quotient_of_denom_pos [OF ab] .
  have x: "\<bar>x\<bar> = of_int a / of_int b" using quotient_of_div [OF ab] .
  have "0 < \<bar>x\<bar>" using False by simp
  then have a: "0 < a" using b unfolding x by (simp add: zero_less_divide_iff)
  have le: "(1 \<le> \<bar>x\<bar>) = (b \<le> a)"
  proof -
    have "(1 \<le> \<bar>x\<bar>) = ((of_int b :: rat) \<le> of_int a)" using b by (simp add: x field_simps)
    then show ?thesis by (simp only: of_int_le_iff)
  qed
  have fl: "\<lfloor>\<bar>x\<bar>\<rfloor> = a div b" by (simp add: x floor_divide_of_int_eq)
  have "1 / \<bar>x\<bar> = of_int b / of_int a" by (simp add: x)
  then have ce: "\<lceil>1 / \<bar>x\<bar>\<rceil> - 1 = (b - 1) div a"
    using ceiling_frac_minus_one [OF a b] by simp
  show ?thesis
    by (simp add: expo_def ab le fl ce)
qed

section \<open>Properties of the v4.0 validation\<close>

lemma advance_entry:
  "advance i key < length expectedMetricOrder \<Longrightarrow>
   fst (expectedMetricOrder ! advance i key) = key"
proof (induction i key rule: advance.induct)
  case (1 i key)
  show ?case
  proof (cases "i < length expectedMetricOrder \<and> fst (expectedMetricOrder ! i) \<noteq> key")
    case True
    then have eq: "advance i key = advance (Suc i) key"
      by (subst advance.simps) simp
    with 1 True show ?thesis by simp
  next
    case False
    then have eq: "advance i key = i"
      by (subst advance.simps) auto
    with 1(2) False show ?thesis by auto
  qed
qed

lemma advance_found:
  assumes "advance i key < length expectedMetricOrder"
  shows "find (\<lambda>entry. fst entry = key) expectedMetricOrder \<noteq> None"
proof -
  have "expectedMetricOrder ! advance i key \<in> set expectedMetricOrder"
    using assms by simp
  moreover have "fst (expectedMetricOrder ! advance i key) = key"
    using assms by (rule advance_entry)
  ultimately have ex: "\<exists>entry \<in> set expectedMetricOrder. fst entry = key"
    by (rule rev_bexI)
  show ?thesis
  proof
    assume "find (\<lambda>entry. fst entry = key) expectedMetricOrder = None"
    then have "\<not> (\<exists>entry. entry \<in> set expectedMetricOrder \<and> fst entry = key)"
      by (simp add: find_None_iff)
    with ex show False by blast
  qed
qed

text \<open>
  The branch that returns \<open>unexpected metric\<close> is never taken: a key the catalogue does
  not have drives \<^verbatim>\<open>expectedIndex\<close> to the end, and the test for that comes first.
\<close>

lemma validate_metrics_never_unexpected:
  "validate_metrics metrics i toSelect \<noteq> Inl (UnexpectedMetric key)"
proof (induction metrics arbitrary: i toSelect)
  case Nil
  show ?case by simp
next
  case (Cons metric metrics)
  obtain k v where sm: "split_metric metric = (k, v)" by (cases "split_metric metric")
  show ?case
  proof (cases "key_in k toSelect")
    case True
    with sm show ?thesis by simp
  next
    case notin: False
    show ?thesis
    proof (cases "length expectedMetricOrder \<le> advance i k")
      case True
      with sm notin show ?thesis by (simp add: Let_def)
    next
      case False
      then have "find (\<lambda>entry. fst entry = k) expectedMetricOrder \<noteq> None"
        using advance_found [of i k] by simp
      then obtain entry where f: "find (\<lambda>entry. fst entry = k) expectedMetricOrder = Some entry"
        by auto
      with sm notin False Cons.IH show ?thesis
        by (simp add: Let_def split: option.splits)
    qed
  qed
qed

lemma validateVectorV4_never_unexpected:
  "validateVectorV4 vectorString \<noteq> Inl (UnexpectedMetric key)"
  by (auto simp: validateVectorV4_def bindE_def Let_def validate_metrics_never_unexpected
      split: list.splits sum.splits)

lemma calculateBaseScoreV4_invalid:
  "validateVectorV4 vectorString = Inl e \<Longrightarrow> calculateBaseScoreV4 vectorString = Inl e"
  by (simp add: calculateBaseScoreV4_def bindE_def)

lemma cvss_score_error:
  "cvss_score cvssSelected lookup maxSeverityData macroVectorResult = Inl e \<Longrightarrow> e = TypeError"
  unfolding cvss_score_def Let_def
  by (simp split: if_splits option.splits)

lemma calculateBaseScoreV4_never_unexpected:
  "calculateBaseScoreV4 vectorString \<noteq> Inl (UnexpectedMetric key)"
proof (cases "validateVectorV4 vectorString")
  case (Inl e)
  then show ?thesis
    using validateVectorV4_never_unexpected [of vectorString key]
    by (simp add: calculateBaseScoreV4_invalid)
next
  case (Inr sel)
  then show ?thesis
    using cvss_score_error [of "parseVectorV4 vectorString" cvssLookup_globalV4 maxSeverityV4
        "macroVector (parseVectorV4 vectorString)" "UnexpectedMetric key"]
    by (auto simp: calculateBaseScoreV4_def bindE_def Let_def)
qed

lemma out_of_order_is_reported_out_of_sequence:
  "calculateBaseScoreV4 ''CVSS:4.0/AC:L/AV:N/AT:N/PR:N/UI:N/VC:H/VI:H/VA:H/SC:N/SI:N/SA:N''
   = Inl (MetricOutOfSequence ''AV'')"
  by (rule calculateBaseScoreV4_invalid) code_simp

lemma duplicate_is_reported_repeated:
  "calculateBaseScoreV4 ''CVSS:4.0/AV:N/AV:N/AC:L/AT:N/PR:N/UI:N/VC:H/VI:H/VA:H/SC:N/SI:N/SA:N''
   = Inl (RepeatedMetric ''AV'')"
  by (rule calculateBaseScoreV4_invalid) code_simp

text \<open>
  Claim C2.  The claim asks for three distinct errors: out of sequence for recognised keys
  in the wrong order, repeated metric for a duplicated key, unexpected metric for an
  unknown key.  The first two hold (the two lemmas above are instances).  The third does
  not: a vector that is valid except for one unknown key \<open>ZZ\<close> is reported as
  \<open>metric out of sequence: ZZ\<close>, and by \<open>calculateBaseScoreV4_never_unexpected\<close> no
  input at all is reported as unexpected.
\<close>

theorem unknown_key_is_reported_out_of_sequence:
  "calculateBaseScoreV4
     ''CVSS:4.0/AV:N/AC:L/AT:N/PR:N/UI:N/VC:H/VI:H/VA:H/SC:N/SI:N/SA:N/ZZ:X''
   = Inl (MetricOutOfSequence ''ZZ'')"
  by (rule calculateBaseScoreV4_invalid) code_simp

section \<open>Properties of the v3.x weights and scores\<close>

text \<open>
  Claim C8.  The weight of Privileges Required (read with Scope) and of Modified Privileges
  Required (read with Modified Scope), for each of the three scope values the function
  accepts: \<open>N\<close> is 0.85; \<open>L\<close> is 0.62 when the scope is \<open>U\<close> and 0.68 otherwise; \<open>H\<close> is
  0.27 when the scope is \<open>U\<close> and 0.5 otherwise.
\<close>

theorem privileges_required_weight:
  assumes "(metric, scopeMetric) = (''PR'', ''S'') \<or> (metric, scopeMetric) = (''MPR'', ''MS'')"
    and "map_of metricsMap metric = Some v"
    and "map_of metricsMap scopeMetric = Some scopeValue"
    and "scopeValue = ''U'' \<or> scopeValue = ''C'' \<or> scopeValue = ''X''"
  shows "(v = ''N'' \<longrightarrow> getMetricNumericValue metric metricsMap = Inr (dbl 0.85))
       \<and> (v = ''L'' \<longrightarrow> getMetricNumericValue metric metricsMap
              = Inr (if scopeValue = ''U'' then dbl 0.62 else dbl 0.68))
       \<and> (v = ''H'' \<longrightarrow> getMetricNumericValue metric metricsMap
              = Inr (if scopeValue = ''U'' then dbl 0.27 else dbl 0.5))"
  using assms
  by (auto simp: getMetricNumericValue_def getMetricValue_def bindE_def
      getPrivilegesRequiredNumericValue_def)

theorem privileges_required_weight_witness:
  "getMetricNumericValue ''PR'' [(''PR'', ''L''), (''S'', ''C'')] = Inr (dbl 0.68)
   \<and> getMetricNumericValue ''MPR'' [(''MPR'', ''H''), (''MS'', ''U'')] = Inr (dbl 0.27)"
  using privileges_required_weight
      [of "''PR''" "''S''" "[(''PR'', ''L''), (''S'', ''C'')]" "''L''" "''C''"]
    privileges_required_weight
      [of "''MPR''" "''MS''" "[(''MPR'', ''H''), (''MS'', ''U'')]" "''H''" "''U''"]
  by simp

text \<open>
  Claim C4.  The two published v3.x vectors score 3.8 and 8.6, that is the doubles the
  literals \<open>3.8\<close> and \<open>8.6\<close> denote.
\<close>

theorem regression_vectors:
  "calculateBaseScore ''CVSS:3.1/AV:N/AC:L/PR:H/UI:N/S:U/C:L/I:L/A:N'' = Inr (dbl 3.8)
   \<and> calculateBaseScore ''CVSS:3.0/AV:N/AC:L/PR:N/UI:N/S:C/C:H/I:N/A:N'' = Inr (dbl 8.6)"
  by code_simp

section \<open>Properties of the v3.x rounding\<close>

text \<open>
  The program rounds with a remainder and a floor taken on doubles.  For every input of
  magnitude at most \<open>10\<^sup>6\<close> the double arithmetic is exact enough: the remainder is
  the integer remainder, and the floor of the rounded quotient is the integer quotient.
\<close>

lemma floor_fl_div:
  assumes n: "\<bar>n\<bar> \<le> 10 ^ 12" and r: "n mod 10000 \<noteq> 0"
  shows "\<lfloor>fl (of_int n / 10000)\<rfloor> = n div 10000"
proof -
  define q where "q = n div 10000"
  define r where "r = n mod 10000"
  define y :: rat where "y = of_int n / 10000"
  have r1: "1 \<le> r" "r \<le> 9999" using r by (simp_all add: r_def)
  have "n = q * 10000 + r" by (simp add: q_def r_def)
  then have "(of_int n :: rat) = of_int q * 10000 + of_int r" by (metis of_int_add of_int_mult of_int_numeral)
  then have y: "y = of_int q + of_int r / 10000" by (simp add: y_def)
  have "(of_int 1 :: rat) \<le> of_int r" "(of_int r :: rat) \<le> of_int 9999"
    using r1 by (simp_all only: of_int_le_iff)
  then have rr: "(1 :: rat) \<le> of_int r" "(of_int r :: rat) \<le> 9999" by simp_all
  have "(of_int \<bar>n\<bar> :: rat) \<le> of_int (10 ^ 12)" using n by (simp only: of_int_le_iff)
  then have "\<bar>of_int n :: rat\<bar> \<le> 10 ^ 12" by simp
  then have yb: "\<bar>y\<bar> \<le> 10 ^ 8" by (simp add: y_def)
  have "\<bar>fl y - y\<bar> \<le> \<bar>y\<bar> / 2 ^ 53" by (rule fl_error)
  also have "\<dots> \<le> 10 ^ 8 / 2 ^ 53" using yb by (simp add: divide_right_mono)
  also have "\<dots> < 1 / 20000" by simp
  finally have e: "\<bar>fl y - y\<bar> < 1 / 20000" .
  have "of_int q \<le> fl y" using e y rr by linarith
  moreover have "fl y < of_int q + 1" using e y rr by linarith
  ultimately have "\<lfloor>fl y\<rfloor> = q" by (simp add: floor_unique)
  then show ?thesis by (simp add: y_def q_def)
qed

lemma num_rem_zero:
  "num_rem (Num (of_int n)) (Num 10000) = Num 0 \<longleftrightarrow> n mod 10000 = 0"
proof -
  define c where "c = (if 0 \<le> (of_int n / 10000 :: rat) then \<lfloor>of_int n / 10000 :: rat\<rfloor>
                       else \<lceil>of_int n / 10000 :: rat\<rceil>)"
  have "num_rem (Num (of_int n)) (Num 10000) = Num (of_int n - 10000 * of_int c)"
    by (simp add: c_def)
  also have "\<dots> = Num (of_int (n - 10000 * c))" by simp
  finally have "num_rem (Num (of_int n)) (Num 10000) = Num 0 \<longleftrightarrow> n - 10000 * c = 0"
    by (simp only: number.inject of_int_eq_0_iff)
  also have "\<dots> \<longleftrightarrow> n mod 10000 = 0"
  proof
    assume "n - 10000 * c = 0"
    then have "n = 10000 * c" by simp
    then show "n mod 10000 = 0" by simp
  next
    assume "n mod 10000 = 0"
    then obtain k where k: "n = 10000 * k" by (auto elim: dvdE simp: mod_eq_0_iff_dvd)
    have "(of_int n / 10000 :: rat) = of_int k" by (simp add: k)
    then have "c = k" by (simp add: c_def)
    then show "n - 10000 * c = 0" by (simp add: k)
  qed
  finally show ?thesis .
qed

lemma roundUp_int:
  assumes "\<bar>x\<bar> \<le> 10 ^ 6"
  defines "n \<equiv> \<lfloor>fl (x * 100000) + 1 / 2\<rfloor>"
  shows "roundUp (Num x) =
           (if n mod 10000 = 0 then dbl (of_int n / 100000)
            else dbl (of_int (n div 10000 + 1) / 10))"
proof -
  define p where "p = fl (x * 100000)"
  have "\<bar>p - x * 100000\<bar> \<le> \<bar>x * 100000\<bar> / 2 ^ 53" unfolding p_def by (rule fl_error)
  also have "\<dots> \<le> \<bar>x * 100000\<bar>" by (simp add: field_simps)
  finally have "\<bar>p\<bar> \<le> 2 * \<bar>x * 100000\<bar>" by linarith
  also have "\<dots> \<le> 2 * 10 ^ 11" using assms(1) by (simp add: abs_mult)
  finally have p1: "\<bar>p\<bar> \<le> 200000000000" by simp
  have n: "n = \<lfloor>p + 1 / 2\<rfloor>" by (simp add: n_def p_def)
  have "p + 1 / 2 < of_int (10 ^ 12) + 1" using p1 by simp
  then have "\<lfloor>p + 1 / 2\<rfloor> \<le> 10 ^ 12" by (rule iffD2 [OF floor_le_iff])
  moreover have "of_int (- (10 ^ 12)) \<le> p + 1 / 2" using p1 by simp
  then have "- (10 ^ 12) \<le> \<lfloor>p + 1 / 2\<rfloor>" by (rule iffD2 [OF le_floor_iff])
  ultimately have n1: "\<bar>n\<bar> \<le> 10 ^ 12" unfolding n by (rule abs_leI [OF _ iffD1 [OF minus_le_iff]])
  have mr: "Math_round (num_mul (Num x) (Num 100000)) = Num (of_int n)"
    by (simp add: n p_def)
  have ru: "roundUp (Num x) =
      (let intInput = Num (of_int n)
       in if num_rem intInput (Num 10000) = Num 0
          then num_div intInput (Num 100000)
          else num_div (num_add (Math_floor (num_div intInput (Num 10000))) (Num 1)) (Num 10))"
    by (simp only: roundUp_def mr)
  have ru2: "roundUp (Num x) =
      (if n mod 10000 = 0
       then num_div (Num (of_int n)) (Num 100000)
       else num_div (num_add (Math_floor (num_div (Num (of_int n)) (Num 10000))) (Num 1)) (Num 10))"
    by (simp only: ru Let_def num_rem_zero)
  show ?thesis
  proof (cases "n mod 10000 = 0")
    case True
    with ru2 show ?thesis by (simp add: dbl_def)
  next
    case False
    have fl1: "fl (of_int (n div 10000) + 1) = of_int (n div 10000) + 1"
    proof -
      have "\<bar>n div 10000 + 1\<bar> \<le> 10 ^ 12" using n1 by (simp add: abs_le_iff) linarith
      then have "\<bar>n div 10000 + 1\<bar> \<le> 2 ^ 53" by simp
      then have "fl (of_int (n div 10000 + 1)) = of_int (n div 10000 + 1)" by (rule fl_of_int)
      then show ?thesis by simp
    qed
    from ru2 False show ?thesis
      by (simp add: dbl_def floor_fl_div [OF n1 False] fl1)
  qed
qed

lemma roundUp_eq_spec:
  assumes "\<bar>x\<bar> \<le> 10 ^ 6"
  shows "roundUp (Num x) = roundup_spec (Num x)"
proof -
  have "roundup_spec (Num x) =
     (let n = \<lfloor>fl (x * 100000) + 1 / 2\<rfloor>
      in if n mod 10000 = 0 then dbl (of_int n / 100000)
         else dbl (of_int (n div 10000 + 1) / 10))"
    by (simp add: roundup_spec_def)
  then show ?thesis using roundUp_int [OF assms] by (simp add: Let_def)
qed

lemma roundUp_near:
  assumes "0 \<le> k" "k \<le> 10 ^ 6" "0 \<le> x" "\<bar>x - of_int k / 10\<bar> \<le> 1 / 10 ^ 6"
  shows "roundUp (Num x) = dbl (of_int k / 10)"
proof -
  define p where "p = fl (x * 100000)"
  have "(of_int k :: rat) \<le> of_int (10 ^ 6)" using assms(2) by (simp only: of_int_le_iff)
  then have kb: "(of_int k :: rat) \<le> 10 ^ 6" by simp
  have k0: "(0::rat) \<le> of_int k" using assms(1) by simp
  have a4: "\<bar>x - of_int k / 10\<bar> \<le> 1 / 1000000" using assms(4) by simp
  have "(of_int k :: rat) / 10 \<le> 100000" using kb by simp
  with a4 have "x \<le> 1000000" by linarith
  then have xb: "\<bar>x\<bar> \<le> 10 ^ 6" using assms(3) by simp
  have x1: "\<bar>x * 100000 - of_int k * 10000\<bar> \<le> 1 / 10"
    using a4 by linarith
  have "\<bar>p - x * 100000\<bar> \<le> \<bar>x * 100000\<bar> / 2 ^ 53" unfolding p_def by (rule fl_error)
  also have "\<dots> \<le> (10 ^ 11) / 2 ^ 53" using assms(3) xb by (simp add: divide_right_mono abs_mult)
  also have "\<dots> \<le> 1 / 10" by simp
  finally have "\<bar>p - x * 100000\<bar> \<le> 1 / 10" .
  with x1 have "\<bar>p - of_int k * 10000\<bar> \<le> 2 / 10" by linarith
  then have "of_int k * 10000 \<le> p + 1 / 2" "p + 1 / 2 < of_int k * 10000 + 1"
    by linarith+
  then have "of_int (k * 10000) \<le> p + 1 / 2" "p + 1 / 2 < of_int (k * 10000) + 1"
    by simp_all
  then have n: "\<lfloor>fl (x * 100000) + 1 / 2\<rfloor> = k * 10000"
    unfolding p_def by (intro floor_unique)
  have "(of_int (k * 10000) / 100000 :: rat) = of_int k / 10" by simp
  then show ?thesis
    using roundUp_int [OF xb] by (simp add: n)
qed

lemma roundUp_dbl:
  assumes "0 \<le> k" "k \<le> 10 ^ 6"
  shows "roundUp (dbl (of_int k / 10)) = dbl (of_int k / 10)"
proof -
  define t :: rat where "t = of_int k / 10"
  have "(of_int k :: rat) \<le> of_int (10 ^ 6)" using assms(2) by (simp only: of_int_le_iff)
  then have t: "0 \<le> t" "t \<le> 10 ^ 5" using assms(1) by (simp_all add: t_def)
  have "\<bar>fl t - t\<bar> \<le> \<bar>t\<bar> / 2 ^ 53" by (rule fl_error)
  also have "\<dots> \<le> 10 ^ 5 / 2 ^ 53" using t by (simp add: divide_right_mono)
  also have "\<dots> \<le> 1 / 10 ^ 6" by simp
  finally have "\<bar>fl t - of_int k / 10\<bar> \<le> 1 / 10 ^ 6" by (simp add: t_def)
  moreover have "0 \<le> fl t" using t by (intro fl_nonneg)
  ultimately have "roundUp (Num (fl t)) = dbl (of_int k / 10)"
    using assms by (intro roundUp_near)
  then show ?thesis by (simp add: dbl_def t_def)
qed

lemma roundUp_form:
  assumes "0 \<le> x" "x \<le> 10 + 1 / 10 ^ 6"
  shows "\<exists>k. 0 \<le> k \<and> k \<le> 100 \<and> roundUp (Num x) = dbl (of_int k / 10)"
proof -
  define p where "p = fl (x * 100000)"
  define n where "n = \<lfloor>p + 1 / 2\<rfloor>"
  have xb: "\<bar>x\<bar> \<le> 10 ^ 6" using assms by simp
  have r: "roundUp (Num x) =
           (if n mod 10000 = 0 then dbl (of_int n / 100000)
            else dbl (of_int (n div 10000 + 1) / 10))"
    using roundUp_int [OF xb] by (simp add: n_def p_def)
  have "0 \<le> p" unfolding p_def using assms(1) by (intro fl_nonneg) simp
  then have n0: "0 \<le> n" by (simp add: n_def)
  have "\<bar>p - x * 100000\<bar> \<le> \<bar>x * 100000\<bar> / 2 ^ 53" unfolding p_def by (rule fl_error)
  also have "\<dots> \<le> (2 * 10 ^ 6) / 2 ^ 53" using assms by (simp add: divide_right_mono)
  also have "\<dots> \<le> 1 / 10" by simp
  finally have "p \<le> x * 100000 + 1 / 10" by linarith
  then have "p + 1 / 2 < of_int (10 ^ 6 + 1)" using assms(2) by simp
  then have "n < 10 ^ 6 + 1" unfolding n_def by (simp only: floor_less_iff)
  then have n1: "n \<le> 10 ^ 6" by simp
  show ?thesis
  proof (cases "n mod 10000 = 0")
    case True
    then obtain k where k: "n = 10000 * k" by (auto elim: dvdE simp: mod_eq_0_iff_dvd)
    have "(of_int n / 100000 :: rat) = of_int k / 10" by (simp add: k)
    moreover have "0 \<le> k" "k \<le> 100" using n0 n1 k by simp_all
    ultimately show ?thesis using r True by auto
  next
    case False
    then have "n \<noteq> 10 ^ 6" by auto
    then have "n < 10 ^ 6" using n1 by simp
    then have "n div 10000 + 1 \<le> 100" by simp
    moreover have "0 \<le> n div 10000 + 1" using n0 by simp
    ultimately show ?thesis using r False by auto
  qed
qed

text \<open>
  Claim C9.  \<open>roundUp\<close> computes the roundup of the specification: the input times 100000
  rounded to the nearest integer, divided by 100000 when that integer is a multiple of
  10000, and otherwise the floor of its quotient by 10000, plus one, divided by 10.  This
  holds for every input of magnitude at most \<open>10\<^sup>6\<close> and for \<open>NaN\<close>.  An input that is
  the double of a one-decimal value \<open>k / 10\<close> is returned unchanged; in particular
  \<open>4.0\<close> gives \<open>4.0\<close>, which is not \<open>4.1\<close>.
\<close>

theorem roundUp_is_the_spec_roundup:
  "(\<bar>x\<bar> \<le> 10 ^ 6 \<longrightarrow> roundUp (Num x) = roundup_spec (Num x))
   \<and> roundUp NaN = roundup_spec NaN
   \<and> (0 \<le> k \<and> k \<le> 10 ^ 6 \<longrightarrow> roundUp (dbl (of_int k / 10)) = dbl (of_int k / 10))
   \<and> roundUp (dbl 4) = dbl 4 \<and> dbl 4 \<noteq> dbl 4.1"
proof (intro conjI impI)
  assume "\<bar>x\<bar> \<le> 10 ^ 6"
  then show "roundUp (Num x) = roundup_spec (Num x)" by (rule roundUp_eq_spec)
next
  show "roundUp NaN = roundup_spec NaN" by (simp add: roundUp_def roundup_spec_def)
next
  assume "0 \<le> k \<and> k \<le> 10 ^ 6"
  then show "roundUp (dbl (of_int k / 10)) = dbl (of_int k / 10)" by (simp add: roundUp_dbl)
next
  show "roundUp (dbl 4) = dbl 4" using roundUp_dbl [of 40] by simp
next
  show "dbl 4 \<noteq> dbl 4.1" by code_simp
qed

theorem roundUp_is_the_spec_roundup_witness:
  "\<bar>401 / 100 :: rat\<bar> \<le> 10 ^ 6
   \<and> roundUp (Num (401 / 100)) = roundup_spec (Num (401 / 100))
   \<and> (0::int) \<le> 57 \<and> (57::int) \<le> 10 ^ 6
   \<and> roundUp (dbl (of_int 57 / 10)) = dbl (of_int 57 / 10)"
  using roundUp_is_the_spec_roundup [of "401 / 100" 57] by simp

section \<open>Properties of the v4.0 scoring\<close>

text \<open>
  A vector that \<open>validateVectorV4\<close> accepts starts with the piece \<open>CVSS:4.0\<close>, so the
  dispatch of \<open>calculateBaseScore\<close> sends it to \<open>calculateBaseScoreV4\<close>.
\<close>

lemma validateVectorV4_prefix:
  assumes "validateVectorV4 s = Inr sel"
  shows "\<exists>ms. split_on CHR ''/'' s = ''CVSS:4.0'' # ms"
proof (cases "if s = [] then [] else split_on CHR ''/'' s")
  case Nil
  with assms show ?thesis by (simp add: validateVectorV4_def)
next
  case (Cons pre ms)
  with assms have "pre = ''CVSS:4.0''"
    by (simp add: validateVectorV4_def split: if_splits)
  with Cons show ?thesis by (simp split: if_splits)
qed

lemma detectCvssVersion_v4:
  assumes "validateVectorV4 s = Inr sel"
  shows "detectCvssVersion s = Inr ''4.0''"
proof -
  from validateVectorV4_prefix [OF assms] obtain ms where "split_on CHR ''/'' s = ''CVSS:4.0'' # ms" ..
  then show ?thesis by (simp add: detectCvssVersion_def)
qed

lemma cvss_score_shortcut:
  assumes "\<forall>metric \<in> set [''VC'', ''VI'', ''VA'', ''SC'', ''SI'', ''SA''].
             m cvssSelected metric = Some ''N''"
  shows "cvss_score cvssSelected lookup maxSeverityData macroVectorResult = Inr (Num 0)"
  unfolding cvss_score_def using assms by (rule if_P)

lemma calculateBaseScore_v4:
  assumes "validateVectorV4 s = Inr sel"
  shows "calculateBaseScore s = calculateBaseScoreV4 s"
  by (simp add: calculateBaseScore_def detectCvssVersion_v4 [OF assms] bindE_def)

text \<open>
  Claim C1, as the code has it.  The shortcut tests the effective values \<open>m\<close> of
  \<open>VC\<close>, \<open>VI\<close>, \<open>VA\<close>, \<open>SC\<close>, \<open>SI\<close>, \<open>SA\<close>: the modified metric when the vector has
  one that is not \<open>X\<close>, the base metric otherwise.  For every vector that
  \<open>validateVectorV4\<close> accepts and whose six effective values are \<open>N\<close>, both
  \<open>calculateBaseScoreV4\<close> and \<open>calculateBaseScore\<close> return 0, whatever the other metrics.
\<close>

theorem v4_shortcut_on_effective_values:
  assumes "validateVectorV4 s = Inr sel"
    and "\<forall>metric \<in> set [''VC'', ''VI'', ''VA'', ''SC'', ''SI'', ''SA''].
           m (parseVectorV4 s) metric = Some ''N''"
  shows "calculateBaseScoreV4 s = Inr (Num 0) \<and> calculateBaseScore s = Inr (Num 0)"
proof -
  have "calculateBaseScoreV4 s = Inr (Num 0)"
    by (simp add: calculateBaseScoreV4_def assms(1) bindE_def cvss_score_shortcut [OF assms(2)])
  then show ?thesis by (simp add: calculateBaseScore_v4 [OF assms(1)])
qed

text \<open>
  An instance: the base metrics are all \<open>H\<close> and the modified metrics all \<open>N\<close>; the
  score is 0.
\<close>

theorem v4_shortcut_on_effective_values_witness:
  "calculateBaseScoreV4
     ''CVSS:4.0/AV:N/AC:L/AT:N/PR:N/UI:N/VC:H/VI:H/VA:H/SC:H/SI:H/SA:H/MVC:N/MVI:N/MVA:N/MSC:N/MSI:N/MSA:N''
     = Inr (Num 0)
   \<and> calculateBaseScore
     ''CVSS:4.0/AV:N/AC:L/AT:N/PR:N/UI:N/VC:H/VI:H/VA:H/SC:H/SI:H/SA:H/MVC:N/MVI:N/MVA:N/MSC:N/MSI:N/MSA:N''
     = Inr (Num 0)"
proof (rule v4_shortcut_on_effective_values)
  show "validateVectorV4
     ''CVSS:4.0/AV:N/AC:L/AT:N/PR:N/UI:N/VC:H/VI:H/VA:H/SC:H/SI:H/SA:H/MVC:N/MVI:N/MVA:N/MSC:N/MSI:N/MSA:N''
    = Inr [(''AV'', ''N''), (''AC'', ''L''), (''AT'', ''N''), (''PR'', ''N''), (''UI'', ''N''),
           (''VC'', ''H''), (''VI'', ''H''), (''VA'', ''H''), (''SC'', ''H''), (''SI'', ''H''),
           (''SA'', ''H''), (''MVC'', ''N''), (''MVI'', ''N''), (''MVA'', ''N''), (''MSC'', ''N''),
           (''MSI'', ''N''), (''MSA'', ''N'')]"
    by code_simp
  show "\<forall>metric \<in> set [''VC'', ''VI'', ''VA'', ''SC'', ''SI'', ''SA''].
           m (parseVectorV4
     ''CVSS:4.0/AV:N/AC:L/AT:N/PR:N/UI:N/VC:H/VI:H/VA:H/SC:H/SI:H/SA:H/MVC:N/MVI:N/MVA:N/MSC:N/MSI:N/MSA:N'')
             metric = Some ''N''"
    by code_simp
qed

text \<open>
  The claim as worded, with the base metrics \<open>VC\<close> to \<open>SA\<close> of the vector all \<open>N\<close>
  and any modified metrics, fails: with \<open>MVC:H\<close> the vector is accepted, its six base
  values are \<open>N\<close>, and the score is 8.7.
\<close>

theorem modified_metric_defeats_base_shortcut:
  "(\<exists>sel. validateVectorV4
       ''CVSS:4.0/AV:N/AC:L/AT:N/PR:N/UI:N/VC:N/VI:N/VA:N/SC:N/SI:N/SA:N/MVC:H'' = Inr sel)
   \<and> map (get_prop (parseVectorV4
       ''CVSS:4.0/AV:N/AC:L/AT:N/PR:N/UI:N/VC:N/VI:N/VA:N/SC:N/SI:N/SA:N/MVC:H''))
       [''VC'', ''VI'', ''VA'', ''SC'', ''SI'', ''SA'']
     = [Some ''N'', Some ''N'', Some ''N'', Some ''N'', Some ''N'', Some ''N'']
   \<and> calculateBaseScoreV4
       ''CVSS:4.0/AV:N/AC:L/AT:N/PR:N/UI:N/VC:N/VI:N/VA:N/SC:N/SI:N/SA:N/MVC:H'' = Inr (dbl 8.7)
   \<and> calculateBaseScore
       ''CVSS:4.0/AV:N/AC:L/AT:N/PR:N/UI:N/VC:N/VI:N/VA:N/SC:N/SI:N/SA:N/MVC:H'' = Inr (dbl 8.7)
   \<and> dbl 8.7 \<noteq> Num 0"
proof -
  have v: "validateVectorV4
       ''CVSS:4.0/AV:N/AC:L/AT:N/PR:N/UI:N/VC:N/VI:N/VA:N/SC:N/SI:N/SA:N/MVC:H''
     = Inr [(''AV'', ''N''), (''AC'', ''L''), (''AT'', ''N''), (''PR'', ''N''), (''UI'', ''N''),
           (''VC'', ''N''), (''VI'', ''N''), (''VA'', ''N''), (''SC'', ''N''), (''SI'', ''N''),
           (''SA'', ''N''), (''MVC'', ''H'')]"
    by code_simp
  have b: "map (get_prop (parseVectorV4
       ''CVSS:4.0/AV:N/AC:L/AT:N/PR:N/UI:N/VC:N/VI:N/VA:N/SC:N/SI:N/SA:N/MVC:H''))
       [''VC'', ''VI'', ''VA'', ''SC'', ''SI'', ''SA'']
     = [Some ''N'', Some ''N'', Some ''N'', Some ''N'', Some ''N'', Some ''N'']"
    by code_simp
  have c: "calculateBaseScoreV4
       ''CVSS:4.0/AV:N/AC:L/AT:N/PR:N/UI:N/VC:N/VI:N/VA:N/SC:N/SI:N/SA:N/MVC:H'' = Inr (dbl 8.7)"
    by code_simp
  have d: "dbl 8.7 \<noteq> Num 0" by code_simp
  have e: "\<exists>sel. validateVectorV4
       ''CVSS:4.0/AV:N/AC:L/AT:N/PR:N/UI:N/VC:N/VI:N/VA:N/SC:N/SI:N/SA:N/MVC:H'' = Inr sel"
    using v by (rule exI)
  have f: "calculateBaseScore
       ''CVSS:4.0/AV:N/AC:L/AT:N/PR:N/UI:N/VC:N/VI:N/VA:N/SC:N/SI:N/SA:N/MVC:H'' = Inr (dbl 8.7)"
    using c by (simp only: calculateBaseScore_v4 [OF v])
  from e b c f d show ?thesis by (intro conjI)
qed

section \<open>Properties of the v3.x scoring\<close>

text \<open>
  What a successful \<open>validate\<close> says of its input, and the dispatch of
  \<open>calculateBaseScore\<close> on a string of version 3.0 or 3.1.  The three result functions
  read the validated string only through its metrics map, and the environmental one also
  through the version string it hands to \<open>calculateModifiedImpact\<close>.
\<close>

lemma bindE_Inr: "bindE (Inr x) f = f x" by (simp add: bindE_def)
lemma bindE_Inl: "bindE (Inl e) f = Inl e" by (simp add: bindE_def)

lemma bindE_eq_Inr:
  "bindE r f = Inr y \<longleftrightarrow> (\<exists>x. r = Inr x \<and> f x = Inr y)"
  by (cases r) (simp_all add: bindE_def)

lemma split_on_hd: "\<exists>rest. split_on c s = takeWhile (\<lambda>x. x \<noteq> c) s # rest"
  by (induction s) (auto split: list.splits)

lemma validate_ok:
  assumes "validate s = Inr vr"
  shows "prefix ''CVSS:'' s" and "vr_versionStr vr = parseVersion s"
    and "validateVersion (parseVersion s) = Inr ()"
    and "parseMetricsAsMap s = Inr (vr_metricsMap vr)"
    and "checkMandatoryMetrics (vr_metricsMap vr) baseMetrics = Inr ()"
    and "checkUnknownMetrics (vr_metricsMap vr)
           (baseMetrics @ temporalMetrics @ environmentalMetrics) = Inr ()"
    and "checkMetricsValues (vr_metricsMap vr)
           (baseMetrics @ temporalMetrics @ environmentalMetrics)
           (baseMetricValues @ temporalMetricValues @ environmentalMetricValues) = Inr ()"
  using assms
  by (auto simp: validate_def Let_def bindE_eq_Inr split: if_splits)

lemma detectCvssVersion_v3:
  assumes "prefix ''CVSS:'' s" and "parseVersion s = Some v" and "v = ''3.0'' \<or> v = ''3.1''"
  shows "detectCvssVersion s = Inr ''3.1''"
proof -
  from assms(1) obtain r where s: "s = ''CVSS:'' @ r" by (auto simp: prefix_def)
  from assms(2) have v: "takeWhile (\<lambda>c. c \<noteq> CHR ''/'') r = v" by (simp add: parseVersion_def s)
  have "takeWhile (\<lambda>c. c \<noteq> CHR ''/'') s = ''CVSS:'' @ v" by (simp add: s v)
  with split_on_hd [of "CHR ''/''" s] obtain rest where
    "split_on CHR ''/'' s = (''CVSS:'' @ v) # rest" by auto
  then show ?thesis using assms(3) by (auto simp: detectCvssVersion_def)
qed

lemma calculateBaseScore_v3:
  assumes "validate s = Inr vr" and "vr_versionStr vr = Some ''3.0'' \<or> vr_versionStr vr = Some ''3.1''"
  shows "calculateBaseScore s = bindE (calculateBaseResult s) (\<lambda>r. Inr (sr_score r))"
proof -
  from assms obtain v where "parseVersion s = Some v" "v = ''3.0'' \<or> v = ''3.1''"
    using validate_ok(2) [OF assms(1)] by auto
  then have "detectCvssVersion s = Inr ''3.1''"
    using validate_ok(1) [OF assms(1)] by (intro detectCvssVersion_v3)
  then show ?thesis by (simp add: calculateBaseScore_def bindE_Inr)
qed

lemma calculateBaseResult_metricsMap:
  assumes "validate s0 = Inr vr0" "validate s1 = Inr vr1" "vr_metricsMap vr0 = vr_metricsMap vr1"
  shows "calculateBaseResult s0 = calculateBaseResult s1"
  by (simp only: calculateBaseResult_def assms bindE_Inr)

lemma calculateTemporalResult_metricsMap:
  assumes "validate s0 = Inr vr0" "validate s1 = Inr vr1" "vr_metricsMap vr0 = vr_metricsMap vr1"
  shows "calculateTemporalResult s0 = calculateTemporalResult s1"
  by (simp only: calculateTemporalResult_def calculateBaseResult_metricsMap [OF assms] assms bindE_Inr)

lemma calculateEnvironmentalResult_metricsMap:
  assumes "validate s0 = Inr vr0" "validate s1 = Inr vr1" "vr_metricsMap vr0 = vr_metricsMap vr1"
    and "\<And>miss. calculateMiss (populateEnvironmentalMetricDefaults
                  (populateTemporalMetricDefaults (vr_metricsMap vr1))) = Inr miss \<Longrightarrow>
            calculateModifiedImpact
              (populateEnvironmentalMetricDefaults
                 (populateTemporalMetricDefaults (vr_metricsMap vr1))) miss (vr_versionStr vr0)
            = calculateModifiedImpact
              (populateEnvironmentalMetricDefaults
                 (populateTemporalMetricDefaults (vr_metricsMap vr1))) miss (vr_versionStr vr1)"
  shows "calculateEnvironmentalResult s0 = calculateEnvironmentalResult s1"
proof (cases "calculateMiss (populateEnvironmentalMetricDefaults
                  (populateTemporalMetricDefaults (vr_metricsMap vr1)))")
  case (Inl e)
  then show ?thesis
    by (simp only: calculateEnvironmentalResult_def assms(1-3) bindE_Inr Let_def bindE_Inl)
next
  case (Inr miss)
  then show ?thesis
    by (simp only: calculateEnvironmentalResult_def assms(1-3) bindE_Inr Let_def assms(4) [OF Inr])
qed

text \<open>
  The environmental score from its steps: the populated map, the modified impact at the
  validated version, the modified exploitability and the three temporal weights.
\<close>

lemma calculateEnvironmentalScore_steps:
  assumes "validate s = Inr vr"
    and "populateEnvironmentalMetricDefaults (populateTemporalMetricDefaults (vr_metricsMap vr))
         = metricsMap"
    and "calculateMiss metricsMap = Inr miss"
    and "calculateModifiedImpact metricsMap miss (vr_versionStr vr) = impact"
    and "calculateModifiedExploitability metricsMap = Inr exploitability"
    and "\<not> num_le impact (Num 0)"
    and "getMetricNumericValue ''E'' metricsMap = Inr e"
    and "getMetricNumericValue ''RL'' metricsMap = Inr rl"
    and "getMetricNumericValue ''RC'' metricsMap = Inr rc"
    and "roundUp (num_mul (num_mul (num_mul
          (roundUp (Math_min
             (if map_of metricsMap ''MS'' = Some ''U'' then num_add impact exploitability
              else num_mul (dbl 1.08) (num_add impact exploitability))
             (Num 10)))
          e) rl) rc) = score"
  shows "calculateEnvironmentalScore s = Inr score"
  unfolding calculateEnvironmentalScore_def calculateEnvironmentalResult_def
  by (simp only: assms(1) bindE_Inr Let_def assms(2) assms(3) assms(4) assms(5) assms(6) if_False
      assms(7) assms(8) assms(9) assms(10) ScoreResult.simps)

text \<open>
  Claim C7.  With Modified Scope not Unchanged, \<open>calculateModifiedImpact\<close> computes
  \<open>7.52 (MISS - 0.029) - 3.25 (MISS 0.9731 - 0.02)\<^sup>1\<^sup>3\<close> for version 3.1 and the
  same with factor 1 and exponent 15 for version 3.0.  \<open>calculateEnvironmentalResult\<close>
  hands it the version that \<open>validate\<close> parsed from the string: its result is the
  environmental equations over the populated metrics map with
  \<open>calculateModifiedImpact\<close> taken at \<open>parseVersion\<close> of the string, and the version
  occurs nowhere else in it.  Two validated strings with the same metrics map have the
  same base and temporal results, the same base score when their versions are 3.0 and
  3.1, and the same environmental result when the Modified Scope is Unchanged.  With
  Modified Scope Changed the two versions do differ: the same metrics score 6.8 under
  3.0 and 6.9 under 3.1.
\<close>

theorem modified_impact_is_the_only_version_dependence:
  "(map_of metricsMap ''MS'' \<noteq> Some ''U'' \<longrightarrow>
      calculateModifiedImpact metricsMap miss (Some ''3.1'')
        = num_sub (num_mul (dbl 7.52) (num_sub miss (dbl 0.029)))
            (num_mul (dbl 3.25) (Math_pow (num_sub (num_mul miss (dbl 0.9731)) (dbl 0.02)) 13))
      \<and> calculateModifiedImpact metricsMap miss (Some ''3.0'')
        = num_sub (num_mul (dbl 7.52) (num_sub miss (dbl 0.029)))
            (num_mul (dbl 3.25) (Math_pow (num_sub (num_mul miss (Num 1)) (dbl 0.02)) 15)))
   \<and> (validate s = Inr vr \<longrightarrow>
        parseVersion s = vr_versionStr vr
        \<and> calculateEnvironmentalResult s =
           (let metricsMap' = populateEnvironmentalMetricDefaults
                               (populateTemporalMetricDefaults (vr_metricsMap vr))
            in bindE (calculateMiss metricsMap') (\<lambda>miss'.
               let impact = calculateModifiedImpact metricsMap' miss' (parseVersion s)
               in bindE (calculateModifiedExploitability metricsMap') (\<lambda>exploitability.
                  let scopeUnchanged = (map_of metricsMap' ''MS'' = Some ''U'')
                  in bindE
                       (if num_le impact (Num 0) then Inr (Num 0)
                        else
                          bindE (getMetricNumericValue ''E'' metricsMap') (\<lambda>e.
                          bindE (getMetricNumericValue ''RL'' metricsMap') (\<lambda>rl.
                          bindE (getMetricNumericValue ''RC'' metricsMap') (\<lambda>rc.
                            Inr (roundUp
                                   (num_mul
                                      (num_mul
                                         (num_mul
                                            (roundUp
                                               (Math_min
                                                  (if scopeUnchanged
                                                   then num_add impact exploitability
                                                   else num_mul (dbl 1.08)
                                                          (num_add impact exploitability))
                                                  (Num 10)))
                                            e) rl) rc))))))
                       (\<lambda>score.
                          Inr \<lparr>sr_score = score,
                               sr_impact =
                                 (if num_le impact (Num 0) then Num 0 else roundUp impact),
                               sr_exploitability =
                                 (if num_le impact (Num 0) then Num 0
                                  else roundUp exploitability),
                               sr_metricsMap = metricsMap'\<rparr>)))))
   \<and> (validate s0 = Inr vr0 \<and> validate s1 = Inr vr1 \<and> vr_metricsMap vr0 = vr_metricsMap vr1 \<longrightarrow>
        parseVersion s0 = vr_versionStr vr0 \<and> parseVersion s1 = vr_versionStr vr1
        \<and> calculateBaseResult s0 = calculateBaseResult s1
        \<and> calculateTemporalResult s0 = calculateTemporalResult s1
        \<and> calculateTemporalScore s0 = calculateTemporalScore s1
        \<and> (vr_versionStr vr0 = Some ''3.0'' \<and> vr_versionStr vr1 = Some ''3.1'' \<longrightarrow>
              calculateBaseScore s0 = calculateBaseScore s1)
        \<and> (map_of (populateEnvironmentalMetricDefaults
                      (populateTemporalMetricDefaults (vr_metricsMap vr1))) ''MS'' = Some ''U''
             \<longrightarrow> calculateEnvironmentalResult s0 = calculateEnvironmentalResult s1
                 \<and> calculateEnvironmentalScore s0 = calculateEnvironmentalScore s1))
   \<and> calculateEnvironmentalScore ''CVSS:3.0/AV:P/AC:H/PR:H/UI:R/S:C/C:H/I:H/A:H'' = Inr (dbl 6.8)
   \<and> calculateEnvironmentalScore ''CVSS:3.1/AV:P/AC:H/PR:H/UI:R/S:C/C:H/I:H/A:H'' = Inr (dbl 6.9)
   \<and> dbl 6.8 \<noteq> dbl 6.9"
proof (intro conjI impI)
  assume "map_of metricsMap ''MS'' \<noteq> Some ''U''"
  then show "calculateModifiedImpact metricsMap miss (Some ''3.1'')
        = num_sub (num_mul (dbl 7.52) (num_sub miss (dbl 0.029)))
            (num_mul (dbl 3.25) (Math_pow (num_sub (num_mul miss (dbl 0.9731)) (dbl 0.02)) 13))"
    by (simp add: calculateModifiedImpact_def)
next
  assume "map_of metricsMap ''MS'' \<noteq> Some ''U''"
  then show "calculateModifiedImpact metricsMap miss (Some ''3.0'')
        = num_sub (num_mul (dbl 7.52) (num_sub miss (dbl 0.029)))
            (num_mul (dbl 3.25) (Math_pow (num_sub (num_mul miss (Num 1)) (dbl 0.02)) 15))"
    by (simp add: calculateModifiedImpact_def)
next
  assume v: "validate s = Inr vr"
  show p: "parseVersion s = vr_versionStr vr" by (rule validate_ok(2) [OF v, symmetric])
  show "calculateEnvironmentalResult s =
           (let metricsMap' = populateEnvironmentalMetricDefaults
                               (populateTemporalMetricDefaults (vr_metricsMap vr))
            in bindE (calculateMiss metricsMap') (\<lambda>miss'.
               let impact = calculateModifiedImpact metricsMap' miss' (parseVersion s)
               in bindE (calculateModifiedExploitability metricsMap') (\<lambda>exploitability.
                  let scopeUnchanged = (map_of metricsMap' ''MS'' = Some ''U'')
                  in bindE
                       (if num_le impact (Num 0) then Inr (Num 0)
                        else
                          bindE (getMetricNumericValue ''E'' metricsMap') (\<lambda>e.
                          bindE (getMetricNumericValue ''RL'' metricsMap') (\<lambda>rl.
                          bindE (getMetricNumericValue ''RC'' metricsMap') (\<lambda>rc.
                            Inr (roundUp
                                   (num_mul
                                      (num_mul
                                         (num_mul
                                            (roundUp
                                               (Math_min
                                                  (if scopeUnchanged
                                                   then num_add impact exploitability
                                                   else num_mul (dbl 1.08)
                                                          (num_add impact exploitability))
                                                  (Num 10)))
                                            e) rl) rc))))))
                       (\<lambda>score.
                          Inr \<lparr>sr_score = score,
                               sr_impact =
                                 (if num_le impact (Num 0) then Num 0 else roundUp impact),
                               sr_exploitability =
                                 (if num_le impact (Num 0) then Num 0
                                  else roundUp exploitability),
                               sr_metricsMap = metricsMap'\<rparr>))))"
    by (simp only: calculateEnvironmentalResult_def v bindE_Inr p Let_def)
next
  assume a: "validate s0 = Inr vr0 \<and> validate s1 = Inr vr1 \<and> vr_metricsMap vr0 = vr_metricsMap vr1"
  then have v: "validate s0 = Inr vr0" "validate s1 = Inr vr1" "vr_metricsMap vr0 = vr_metricsMap vr1"
    by simp_all
  show "parseVersion s0 = vr_versionStr vr0" by (rule validate_ok(2) [OF v(1), symmetric])
  show "parseVersion s1 = vr_versionStr vr1" by (rule validate_ok(2) [OF v(2), symmetric])
  show b: "calculateBaseResult s0 = calculateBaseResult s1" by (rule calculateBaseResult_metricsMap [OF v])
  show t: "calculateTemporalResult s0 = calculateTemporalResult s1"
    by (rule calculateTemporalResult_metricsMap [OF v])
  show "calculateTemporalScore s0 = calculateTemporalScore s1"
    by (simp only: calculateTemporalScore_def t)
  {
    assume "vr_versionStr vr0 = Some ''3.0'' \<and> vr_versionStr vr1 = Some ''3.1''"
    then show "calculateBaseScore s0 = calculateBaseScore s1"
      by (simp only: calculateBaseScore_v3 [OF v(1)] calculateBaseScore_v3 [OF v(2)] b simp_thms)
  }
  {
    assume h: "map_of (populateEnvironmentalMetricDefaults
                      (populateTemporalMetricDefaults (vr_metricsMap vr1))) ''MS'' = Some ''U''"
    show e: "calculateEnvironmentalResult s0 = calculateEnvironmentalResult s1"
      by (rule calculateEnvironmentalResult_metricsMap [OF v]) (simp add: calculateModifiedImpact_def h)
    show "calculateEnvironmentalScore s0 = calculateEnvironmentalScore s1"
      by (simp only: calculateEnvironmentalScore_def e)
  }
next
  show "calculateEnvironmentalScore ''CVSS:3.0/AV:P/AC:H/PR:H/UI:R/S:C/C:H/I:H/A:H'' = Inr (dbl 6.8)"
  proof (rule calculateEnvironmentalScore_steps)
    show "validate ''CVSS:3.0/AV:P/AC:H/PR:H/UI:R/S:C/C:H/I:H/A:H''
      = Inr \<lparr>vr_isTemporal = False, vr_isEnvironmental = False,
          vr_metricsMap =
           [(''AV'', ''P''), (''AC'', ''H''), (''PR'', ''H''), (''UI'', ''R''), (''S'', ''C''),
            (''C'', ''H''), (''I'', ''H''), (''A'', ''H'')],
          vr_versionStr = Some ''3.0''\<rparr>"
      by code_simp
    show "populateEnvironmentalMetricDefaults (populateTemporalMetricDefaults (vr_metricsMap
        \<lparr>vr_isTemporal = False, vr_isEnvironmental = False,
          vr_metricsMap =
           [(''AV'', ''P''), (''AC'', ''H''), (''PR'', ''H''), (''UI'', ''R''), (''S'', ''C''),
            (''C'', ''H''), (''I'', ''H''), (''A'', ''H'')],
          vr_versionStr = Some ''3.0''\<rparr>))
      = [(''AV'', ''P''), (''AC'', ''H''), (''PR'', ''H''), (''UI'', ''R''),
         (''S'', ''C''), (''C'', ''H''), (''I'', ''H''), (''A'', ''H''),
         (''E'', ''X''), (''RL'', ''X''), (''RC'', ''X''), (''AR'', ''X''),
         (''CR'', ''X''), (''IR'', ''X''), (''MAV'', ''P''), (''MAC'', ''H''),
         (''MPR'', ''H''), (''MUI'', ''R''), (''MS'', ''C''), (''MC'', ''H''),
         (''MI'', ''H''), (''MA'', ''H'')]"
      by code_simp
    show "calculateMiss
        [(''AV'', ''P''), (''AC'', ''H''), (''PR'', ''H''), (''UI'', ''R''),
         (''S'', ''C''), (''C'', ''H''), (''I'', ''H''), (''A'', ''H''),
         (''E'', ''X''), (''RL'', ''X''), (''RC'', ''X''), (''AR'', ''X''),
         (''CR'', ''X''), (''IR'', ''X''), (''MAV'', ''P''), (''MAC'', ''H''),
         (''MPR'', ''H''), (''MUI'', ''R''), (''MS'', ''C''), (''MC'', ''H''),
         (''MI'', ''H''), (''MA'', ''H'')]
      = Inr (Num (514995624589071 / 562949953421312))"
      by code_simp
    show "calculateModifiedImpact
        [(''AV'', ''P''), (''AC'', ''H''), (''PR'', ''H''), (''UI'', ''R''),
         (''S'', ''C''), (''C'', ''H''), (''I'', ''H''), (''A'', ''H''),
         (''E'', ''X''), (''RL'', ''X''), (''RC'', ''X''), (''AR'', ''X''),
         (''CR'', ''X''), (''IR'', ''X''), (''MAV'', ''P''), (''MAC'', ''H''),
         (''MPR'', ''H''), (''MUI'', ''R''), (''MS'', ''C''), (''MC'', ''H''),
         (''MI'', ''H''), (''MA'', ''H'')]
        (Num (514995624589071 / 562949953421312))
        (vr_versionStr \<lparr>vr_isTemporal = False, vr_isEnvironmental = False,
          vr_metricsMap =
           [(''AV'', ''P''), (''AC'', ''H''), (''PR'', ''H''), (''UI'', ''R''), (''S'', ''C''),
            (''C'', ''H''), (''I'', ''H''), (''A'', ''H'')],
          vr_versionStr = Some ''3.0''\<rparr>)
      = Num (3404569598519635 / 562949953421312)"
      by code_simp
    show "calculateModifiedExploitability
        [(''AV'', ''P''), (''AC'', ''H''), (''PR'', ''H''), (''UI'', ''R''),
         (''S'', ''C''), (''C'', ''H''), (''I'', ''H''), (''A'', ''H''),
         (''E'', ''X''), (''RL'', ''X''), (''RC'', ''X''), (''AR'', ''X''),
         (''CR'', ''X''), (''IR'', ''X''), (''MAV'', ''P''), (''MAC'', ''H''),
         (''MPR'', ''H''), (''MUI'', ''R''), (''MS'', ''C''), (''MC'', ''H''),
         (''MI'', ''H''), (''MA'', ''H'')]
      = Inr (Num (252473596550241 / 1125899906842624))"
      by code_simp
    show "\<not> num_le (Num (3404569598519635 / 562949953421312)) (Num 0)" by simp
    show "getMetricNumericValue ''E''
        [(''AV'', ''P''), (''AC'', ''H''), (''PR'', ''H''), (''UI'', ''R''),
         (''S'', ''C''), (''C'', ''H''), (''I'', ''H''), (''A'', ''H''),
         (''E'', ''X''), (''RL'', ''X''), (''RC'', ''X''), (''AR'', ''X''),
         (''CR'', ''X''), (''IR'', ''X''), (''MAV'', ''P''), (''MAC'', ''H''),
         (''MPR'', ''H''), (''MUI'', ''R''), (''MS'', ''C''), (''MC'', ''H''),
         (''MI'', ''H''), (''MA'', ''H'')] = Inr (Num 1)"
      by code_simp
    show "getMetricNumericValue ''RL''
        [(''AV'', ''P''), (''AC'', ''H''), (''PR'', ''H''), (''UI'', ''R''),
         (''S'', ''C''), (''C'', ''H''), (''I'', ''H''), (''A'', ''H''),
         (''E'', ''X''), (''RL'', ''X''), (''RC'', ''X''), (''AR'', ''X''),
         (''CR'', ''X''), (''IR'', ''X''), (''MAV'', ''P''), (''MAC'', ''H''),
         (''MPR'', ''H''), (''MUI'', ''R''), (''MS'', ''C''), (''MC'', ''H''),
         (''MI'', ''H''), (''MA'', ''H'')] = Inr (Num 1)"
      by code_simp
    show "getMetricNumericValue ''RC''
        [(''AV'', ''P''), (''AC'', ''H''), (''PR'', ''H''), (''UI'', ''R''),
         (''S'', ''C''), (''C'', ''H''), (''I'', ''H''), (''A'', ''H''),
         (''E'', ''X''), (''RL'', ''X''), (''RC'', ''X''), (''AR'', ''X''),
         (''CR'', ''X''), (''IR'', ''X''), (''MAV'', ''P''), (''MAC'', ''H''),
         (''MPR'', ''H''), (''MUI'', ''R''), (''MS'', ''C''), (''MC'', ''H''),
         (''MI'', ''H''), (''MA'', ''H'')] = Inr (Num 1)"
      by code_simp
    show "roundUp (num_mul (num_mul (num_mul
            (roundUp (Math_min
               (if map_of
                     [(''AV'', ''P''), (''AC'', ''H''), (''PR'', ''H''), (''UI'', ''R''),
         (''S'', ''C''), (''C'', ''H''), (''I'', ''H''), (''A'', ''H''),
         (''E'', ''X''), (''RL'', ''X''), (''RC'', ''X''), (''AR'', ''X''),
         (''CR'', ''X''), (''IR'', ''X''), (''MAV'', ''P''), (''MAC'', ''H''),
         (''MPR'', ''H''), (''MUI'', ''R''), (''MS'', ''C''), (''MC'', ''H''),
         (''MI'', ''H''), (''MA'', ''H'')] ''MS'' = Some ''U''
                then num_add (Num (3404569598519635 / 562949953421312)) (Num (252473596550241 / 1125899906842624))
                else num_mul (dbl 1.08)
                       (num_add (Num (3404569598519635 / 562949953421312)) (Num (252473596550241 / 1125899906842624))))
               (Num 10)))
            (Num 1)) (Num 1)) (Num 1)) = dbl 6.8"
      by code_simp
  qed
next
  show "calculateEnvironmentalScore ''CVSS:3.1/AV:P/AC:H/PR:H/UI:R/S:C/C:H/I:H/A:H'' = Inr (dbl 6.9)"
  proof (rule calculateEnvironmentalScore_steps)
    show "validate ''CVSS:3.1/AV:P/AC:H/PR:H/UI:R/S:C/C:H/I:H/A:H''
      = Inr \<lparr>vr_isTemporal = False, vr_isEnvironmental = False,
          vr_metricsMap =
           [(''AV'', ''P''), (''AC'', ''H''), (''PR'', ''H''), (''UI'', ''R''), (''S'', ''C''),
            (''C'', ''H''), (''I'', ''H''), (''A'', ''H'')],
          vr_versionStr = Some ''3.1''\<rparr>"
      by code_simp
    show "populateEnvironmentalMetricDefaults (populateTemporalMetricDefaults (vr_metricsMap
        \<lparr>vr_isTemporal = False, vr_isEnvironmental = False,
          vr_metricsMap =
           [(''AV'', ''P''), (''AC'', ''H''), (''PR'', ''H''), (''UI'', ''R''), (''S'', ''C''),
            (''C'', ''H''), (''I'', ''H''), (''A'', ''H'')],
          vr_versionStr = Some ''3.1''\<rparr>))
      = [(''AV'', ''P''), (''AC'', ''H''), (''PR'', ''H''), (''UI'', ''R''),
         (''S'', ''C''), (''C'', ''H''), (''I'', ''H''), (''A'', ''H''),
         (''E'', ''X''), (''RL'', ''X''), (''RC'', ''X''), (''AR'', ''X''),
         (''CR'', ''X''), (''IR'', ''X''), (''MAV'', ''P''), (''MAC'', ''H''),
         (''MPR'', ''H''), (''MUI'', ''R''), (''MS'', ''C''), (''MC'', ''H''),
         (''MI'', ''H''), (''MA'', ''H'')]"
      by code_simp
    show "calculateMiss
        [(''AV'', ''P''), (''AC'', ''H''), (''PR'', ''H''), (''UI'', ''R''),
         (''S'', ''C''), (''C'', ''H''), (''I'', ''H''), (''A'', ''H''),
         (''E'', ''X''), (''RL'', ''X''), (''RC'', ''X''), (''AR'', ''X''),
         (''CR'', ''X''), (''IR'', ''X''), (''MAV'', ''P''), (''MAC'', ''H''),
         (''MPR'', ''H''), (''MUI'', ''R''), (''MS'', ''C''), (''MC'', ''H''),
         (''MI'', ''H''), (''MA'', ''H'')]
      = Inr (Num (514995624589071 / 562949953421312))"
      by code_simp
    show "calculateModifiedImpact
        [(''AV'', ''P''), (''AC'', ''H''), (''PR'', ''H''), (''UI'', ''R''),
         (''S'', ''C''), (''C'', ''H''), (''I'', ''H''), (''A'', ''H''),
         (''E'', ''X''), (''RL'', ''X''), (''RC'', ''X''), (''AR'', ''X''),
         (''CR'', ''X''), (''IR'', ''X''), (''MAV'', ''P''), (''MAC'', ''H''),
         (''MPR'', ''H''), (''MUI'', ''R''), (''MS'', ''C''), (''MC'', ''H''),
         (''MI'', ''H''), (''MA'', ''H'')]
        (Num (514995624589071 / 562949953421312))
        (vr_versionStr \<lparr>vr_isTemporal = False, vr_isEnvironmental = False,
          vr_metricsMap =
           [(''AV'', ''P''), (''AC'', ''H''), (''PR'', ''H''), (''UI'', ''R''), (''S'', ''C''),
            (''C'', ''H''), (''I'', ''H''), (''A'', ''H'')],
          vr_versionStr = Some ''3.1''\<rparr>)
      = Num (3449772136368151 / 562949953421312)"
      by code_simp
    show "calculateModifiedExploitability
        [(''AV'', ''P''), (''AC'', ''H''), (''PR'', ''H''), (''UI'', ''R''),
         (''S'', ''C''), (''C'', ''H''), (''I'', ''H''), (''A'', ''H''),
         (''E'', ''X''), (''RL'', ''X''), (''RC'', ''X''), (''AR'', ''X''),
         (''CR'', ''X''), (''IR'', ''X''), (''MAV'', ''P''), (''MAC'', ''H''),
         (''MPR'', ''H''), (''MUI'', ''R''), (''MS'', ''C''), (''MC'', ''H''),
         (''MI'', ''H''), (''MA'', ''H'')]
      = Inr (Num (252473596550241 / 1125899906842624))"
      by code_simp
    show "\<not> num_le (Num (3449772136368151 / 562949953421312)) (Num 0)" by simp
    show "getMetricNumericValue ''E''
        [(''AV'', ''P''), (''AC'', ''H''), (''PR'', ''H''), (''UI'', ''R''),
         (''S'', ''C''), (''C'', ''H''), (''I'', ''H''), (''A'', ''H''),
         (''E'', ''X''), (''RL'', ''X''), (''RC'', ''X''), (''AR'', ''X''),
         (''CR'', ''X''), (''IR'', ''X''), (''MAV'', ''P''), (''MAC'', ''H''),
         (''MPR'', ''H''), (''MUI'', ''R''), (''MS'', ''C''), (''MC'', ''H''),
         (''MI'', ''H''), (''MA'', ''H'')] = Inr (Num 1)"
      by code_simp
    show "getMetricNumericValue ''RL''
        [(''AV'', ''P''), (''AC'', ''H''), (''PR'', ''H''), (''UI'', ''R''),
         (''S'', ''C''), (''C'', ''H''), (''I'', ''H''), (''A'', ''H''),
         (''E'', ''X''), (''RL'', ''X''), (''RC'', ''X''), (''AR'', ''X''),
         (''CR'', ''X''), (''IR'', ''X''), (''MAV'', ''P''), (''MAC'', ''H''),
         (''MPR'', ''H''), (''MUI'', ''R''), (''MS'', ''C''), (''MC'', ''H''),
         (''MI'', ''H''), (''MA'', ''H'')] = Inr (Num 1)"
      by code_simp
    show "getMetricNumericValue ''RC''
        [(''AV'', ''P''), (''AC'', ''H''), (''PR'', ''H''), (''UI'', ''R''),
         (''S'', ''C''), (''C'', ''H''), (''I'', ''H''), (''A'', ''H''),
         (''E'', ''X''), (''RL'', ''X''), (''RC'', ''X''), (''AR'', ''X''),
         (''CR'', ''X''), (''IR'', ''X''), (''MAV'', ''P''), (''MAC'', ''H''),
         (''MPR'', ''H''), (''MUI'', ''R''), (''MS'', ''C''), (''MC'', ''H''),
         (''MI'', ''H''), (''MA'', ''H'')] = Inr (Num 1)"
      by code_simp
    show "roundUp (num_mul (num_mul (num_mul
            (roundUp (Math_min
               (if map_of
                     [(''AV'', ''P''), (''AC'', ''H''), (''PR'', ''H''), (''UI'', ''R''),
         (''S'', ''C''), (''C'', ''H''), (''I'', ''H''), (''A'', ''H''),
         (''E'', ''X''), (''RL'', ''X''), (''RC'', ''X''), (''AR'', ''X''),
         (''CR'', ''X''), (''IR'', ''X''), (''MAV'', ''P''), (''MAC'', ''H''),
         (''MPR'', ''H''), (''MUI'', ''R''), (''MS'', ''C''), (''MC'', ''H''),
         (''MI'', ''H''), (''MA'', ''H'')] ''MS'' = Some ''U''
                then num_add (Num (3449772136368151 / 562949953421312)) (Num (252473596550241 / 1125899906842624))
                else num_mul (dbl 1.08)
                       (num_add (Num (3449772136368151 / 562949953421312)) (Num (252473596550241 / 1125899906842624))))
               (Num 10)))
            (Num 1)) (Num 1)) (Num 1)) = dbl 6.9"
      by code_simp
  qed
next
  show "dbl 6.8 \<noteq> dbl 6.9" by code_simp
qed

text \<open>
  An instance: Modified Scope not Unchanged for the two formulas, a version 3.0 string
  with scope changed for the version that reaches \<open>calculateModifiedImpact\<close>, and the same
  metrics under versions 3.0 and 3.1 with scope unchanged for the equal results.
\<close>

theorem modified_impact_is_the_only_version_dependence_witness:
  "calculateModifiedImpact [(''MS'', ''C'')] (dbl 0.5) (Some ''3.1'')
     = num_sub (num_mul (dbl 7.52) (num_sub (dbl 0.5) (dbl 0.029)))
         (num_mul (dbl 3.25) (Math_pow (num_sub (num_mul (dbl 0.5) (dbl 0.9731)) (dbl 0.02)) 13))
   \<and> calculateModifiedImpact [(''MS'', ''C'')] (dbl 0.5) (Some ''3.0'')
     = num_sub (num_mul (dbl 7.52) (num_sub (dbl 0.5) (dbl 0.029)))
         (num_mul (dbl 3.25) (Math_pow (num_sub (num_mul (dbl 0.5) (Num 1)) (dbl 0.02)) 15))
   \<and> parseVersion ''CVSS:3.0/AV:P/AC:H/PR:H/UI:R/S:C/C:H/I:H/A:H'' = Some ''3.0''
   \<and> calculateBaseResult ''CVSS:3.0/AV:N/AC:L/PR:H/UI:N/S:U/C:L/I:L/A:N''
     = calculateBaseResult ''CVSS:3.1/AV:N/AC:L/PR:H/UI:N/S:U/C:L/I:L/A:N''
   \<and> calculateBaseScore ''CVSS:3.0/AV:N/AC:L/PR:H/UI:N/S:U/C:L/I:L/A:N''
     = calculateBaseScore ''CVSS:3.1/AV:N/AC:L/PR:H/UI:N/S:U/C:L/I:L/A:N''
   \<and> calculateTemporalScore ''CVSS:3.0/AV:N/AC:L/PR:H/UI:N/S:U/C:L/I:L/A:N''
     = calculateTemporalScore ''CVSS:3.1/AV:N/AC:L/PR:H/UI:N/S:U/C:L/I:L/A:N''
   \<and> calculateEnvironmentalScore ''CVSS:3.0/AV:N/AC:L/PR:H/UI:N/S:U/C:L/I:L/A:N''
     = calculateEnvironmentalScore ''CVSS:3.1/AV:N/AC:L/PR:H/UI:N/S:U/C:L/I:L/A:N''"
proof -
  have v: "validate ''CVSS:3.0/AV:P/AC:H/PR:H/UI:R/S:C/C:H/I:H/A:H''
    = Inr \<lparr>vr_isTemporal = False, vr_isEnvironmental = False,
        vr_metricsMap =
         [(''AV'', ''P''), (''AC'', ''H''), (''PR'', ''H''), (''UI'', ''R''), (''S'', ''C''),
          (''C'', ''H''), (''I'', ''H''), (''A'', ''H'')],
        vr_versionStr = Some ''3.0''\<rparr>"
    by code_simp
  have v0: "validate ''CVSS:3.0/AV:N/AC:L/PR:H/UI:N/S:U/C:L/I:L/A:N''
    = Inr \<lparr>vr_isTemporal = False, vr_isEnvironmental = False,
        vr_metricsMap =
         [(''AV'', ''N''), (''AC'', ''L''), (''PR'', ''H''), (''UI'', ''N''), (''S'', ''U''),
          (''C'', ''L''), (''I'', ''L''), (''A'', ''N'')],
        vr_versionStr = Some ''3.0''\<rparr>"
    by code_simp
  have v1: "validate ''CVSS:3.1/AV:N/AC:L/PR:H/UI:N/S:U/C:L/I:L/A:N''
    = Inr \<lparr>vr_isTemporal = False, vr_isEnvironmental = False,
        vr_metricsMap =
         [(''AV'', ''N''), (''AC'', ''L''), (''PR'', ''H''), (''UI'', ''N''), (''S'', ''U''),
          (''C'', ''L''), (''I'', ''L''), (''A'', ''N'')],
        vr_versionStr = Some ''3.1''\<rparr>"
    by code_simp
  have ms: "map_of (populateEnvironmentalMetricDefaults (populateTemporalMetricDefaults
         [(''AV'', ''N''), (''AC'', ''L''), (''PR'', ''H''), (''UI'', ''N''), (''S'', ''U''),
          (''C'', ''L''), (''I'', ''L''), (''A'', ''N'')])) ''MS'' = Some ''U''"
    by code_simp
  show ?thesis
    using modified_impact_is_the_only_version_dependence
      [of "[(''MS'', ''C'')]" "dbl 0.5"
          "''CVSS:3.0/AV:P/AC:H/PR:H/UI:R/S:C/C:H/I:H/A:H''" "\<lparr>vr_isTemporal = False, vr_isEnvironmental = False,
        vr_metricsMap =
         [(''AV'', ''P''), (''AC'', ''H''), (''PR'', ''H''), (''UI'', ''R''), (''S'', ''C''),
          (''C'', ''H''), (''I'', ''H''), (''A'', ''H'')],
        vr_versionStr = Some ''3.0''\<rparr>"
          "''CVSS:3.0/AV:N/AC:L/PR:H/UI:N/S:U/C:L/I:L/A:N''" "\<lparr>vr_isTemporal = False, vr_isEnvironmental = False,
        vr_metricsMap =
         [(''AV'', ''N''), (''AC'', ''L''), (''PR'', ''H''), (''UI'', ''N''), (''S'', ''U''),
          (''C'', ''L''), (''I'', ''L''), (''A'', ''N'')],
        vr_versionStr = Some ''3.0''\<rparr>"
          "''CVSS:3.1/AV:N/AC:L/PR:H/UI:N/S:U/C:L/I:L/A:N''" "\<lparr>vr_isTemporal = False, vr_isEnvironmental = False,
        vr_metricsMap =
         [(''AV'', ''N''), (''AC'', ''L''), (''PR'', ''H''), (''UI'', ''N''), (''S'', ''U''),
          (''C'', ''L''), (''I'', ''L''), (''A'', ''N'')],
        vr_versionStr = Some ''3.1''\<rparr>"]
      v v0 v1 ms
    by simp
qed

section \<open>Properties of the v3.x base and temporal scores\<close>

text \<open>
  Every weight the tables give is a double that is not negative, or \<open>NaN\<close> for a value
  the table of the metric does not have.  So the exploitability is not negative, the
  argument of the last \<open>roundUp\<close> lies between 0 and 10, and a base score is \<open>NaN\<close> or
  has one decimal.
\<close>

lemma dbl_0 [simp]: "dbl 0 = Num 0" by (simp add: dbl_def)

lemma fl_1 [simp]: "fl 1 = 1" using fl_of_int [of 1] by simp

lemma dbl_1 [simp]: "dbl 1 = Num 1" by (simp add: dbl_def)

lemma weight_table_nonneg:
  assumes "score_of (baseMetricValueScores @ temporalMetricValueScores
                       @ environmentalMetricValueScores) metric = Some score"
    and "map_of score val = Some n"
  shows "0 \<le> n"
  using assms
  by (auto simp: score_of_def baseMetricValueScores_def temporalMetricValueScores_def
      environmentalMetricValueScores_def split: if_splits option.splits)

lemma getPrivilegesRequiredNumericValue_nonneg:
  assumes "getPrivilegesRequiredNumericValue val scopeValue = Inr w"
  shows "\<exists>x. w = Num x \<and> 0 \<le> x"
  using assms
  by (auto simp: getPrivilegesRequiredNumericValue_def dbl_def fl_nonneg split: if_splits)

lemma getMetricNumericValue_nonneg:
  assumes "getMetricNumericValue metric metricsMap = Inr w"
  shows "w = NaN \<or> (\<exists>x. w = Num x \<and> 0 \<le> x)"
proof -
  from assms obtain val where val: "getMetricValue metric metricsMap = Inr val"
    and w: "(if metric = ''PR'' then
         bindE (getMetricValue ''S'' metricsMap) (getPrivilegesRequiredNumericValue val)
       else if metric = ''MPR'' then
         bindE (getMetricValue ''MS'' metricsMap) (getPrivilegesRequiredNumericValue val)
       else
         (case score_of (baseMetricValueScores @ temporalMetricValueScores
                           @ environmentalMetricValueScores) metric of
            None \<Rightarrow> Inl (MissingMetricScore metric)
          | Some score \<Rightarrow> Inr (case map_of score val of None \<Rightarrow> NaN | Some n \<Rightarrow> dbl n))) = Inr w"
    by (auto simp: getMetricNumericValue_def bindE_eq_Inr)
  consider "metric = ''PR''" | "metric = ''MPR''" | "metric \<noteq> ''PR''" "metric \<noteq> ''MPR''" by blast
  then show ?thesis
  proof cases
    case 1
    with w obtain sv where "getPrivilegesRequiredNumericValue val sv = Inr w"
      by (auto simp: bindE_eq_Inr)
    then show ?thesis using getPrivilegesRequiredNumericValue_nonneg by blast
  next
    case 2
    with w obtain sv where "getPrivilegesRequiredNumericValue val sv = Inr w"
      by (auto simp: bindE_eq_Inr)
    then show ?thesis using getPrivilegesRequiredNumericValue_nonneg by blast
  next
    case 3
    with w obtain score where sc: "score_of (baseMetricValueScores @ temporalMetricValueScores
                           @ environmentalMetricValueScores) metric = Some score"
      and w': "w = (case map_of score val of None \<Rightarrow> NaN | Some n \<Rightarrow> dbl n)"
      by (auto split: option.splits)
    show ?thesis
    proof (cases "map_of score val")
      case None
      with w' show ?thesis by simp
    next
      case (Some n)
      with weight_table_nonneg [OF sc Some] w' show ?thesis by (simp add: dbl_def fl_nonneg)
    qed
  qed
qed

lemma num_mul_nonneg:
  assumes "a = NaN \<or> (\<exists>x. a = Num x \<and> 0 \<le> x)" "b = NaN \<or> (\<exists>x. b = Num x \<and> 0 \<le> x)"
  shows "num_mul a b = NaN \<or> (\<exists>x. num_mul a b = Num x \<and> 0 \<le> x)"
  using assms by (auto simp: fl_nonneg)

lemma calculateExploitability_nonneg:
  assumes "calculateExploitability metricsMap = Inr e"
  shows "e = NaN \<or> (\<exists>x. e = Num x \<and> 0 \<le> x)"
proof -
  from assms obtain av ac pr ui where
    g: "getMetricNumericValue ''AV'' metricsMap = Inr av"
       "getMetricNumericValue ''AC'' metricsMap = Inr ac"
       "getMetricNumericValue ''PR'' metricsMap = Inr pr"
       "getMetricNumericValue ''UI'' metricsMap = Inr ui"
    and e: "e = num_mul (num_mul (num_mul (num_mul (dbl 8.22) av) ac) pr) ui"
    by (auto simp: calculateExploitability_def bindE_eq_Inr)
  have "dbl 8.22 = NaN \<or> (\<exists>x. dbl 8.22 = Num x \<and> 0 \<le> x)" by (simp add: dbl_def fl_nonneg)
  then show ?thesis unfolding e
    by (intro num_mul_nonneg getMetricNumericValue_nonneg [OF g(1)]
        getMetricNumericValue_nonneg [OF g(2)] getMetricNumericValue_nonneg [OF g(3)]
        getMetricNumericValue_nonneg [OF g(4)])
qed

lemma roundUp_min_form:
  assumes "0 \<le> y"
  shows "one_decimal (roundUp (Math_min (Num y) (Num 10)))"
proof -
  have "0 \<le> min y 10" "min y 10 \<le> 10 + 1 / 10 ^ 6" using assms by simp_all
  then show ?thesis unfolding one_decimal_def by (simp add: roundUp_form)
qed

lemma roundUp_NaN [simp]: "roundUp NaN = NaN" by (simp add: roundUp_def)

lemma final_score_form:
  assumes "e = NaN \<or> (\<exists>x. e = Num x \<and> 0 \<le> x)"
  shows "(let score =
            (if num_le impact (Num 0) then Num 0
             else if scopeUnchanged
               then roundUp (Math_min (num_add impact e) (Num 10))
               else roundUp (Math_min (num_mul (dbl 1.08) (num_add impact e)) (Num 10)))
          in score = NaN \<or> one_decimal score)"
proof (cases impact)
  case NaN
  then show ?thesis by (simp add: dbl_def)
next
  case (Num i)
  show ?thesis
  proof (cases "i \<le> 0")
    case True
    have "one_decimal (Num 0)" unfolding one_decimal_def by (rule exI [of _ 0]) simp
    with True Num show ?thesis by simp
  next
    case False
    from assms show ?thesis
    proof
      assume "e = NaN"
      with False Num show ?thesis by (simp add: dbl_def)
    next
      assume "\<exists>x. e = Num x \<and> 0 \<le> x"
      then obtain x where x: "e = Num x" "0 \<le> x" by blast
      have p: "0 \<le> fl (i + x)" using False x(2) by (intro fl_nonneg) simp
      have q: "0 \<le> fl (fl (27 / 25) * fl (i + x))"
        by (intro fl_nonneg mult_nonneg_nonneg p) simp
      show ?thesis
        using False Num x roundUp_min_form [OF p] roundUp_min_form [OF q]
        by (simp add: dbl_def)
    qed
  qed
qed

lemma base_score_form:
  assumes "calculateBaseResult s = Inr r"
  shows "sr_score r = NaN \<or> one_decimal (sr_score r)"
proof (cases "validate s")
  case (Inl err)
  with assms show ?thesis by (simp add: calculateBaseResult_def bindE_Inl)
next
  case v: (Inr vr)
  show ?thesis
  proof (cases "calculateIss (vr_metricsMap vr)")
    case (Inl err)
    with assms v show ?thesis by (simp add: calculateBaseResult_def bindE_Inl bindE_Inr)
  next
    case i: (Inr iss)
    show ?thesis
    proof (cases "calculateExploitability (vr_metricsMap vr)")
      case (Inl err)
      with assms v i show ?thesis by (simp add: calculateBaseResult_def bindE_Inl bindE_Inr)
    next
      case e: (Inr e)
      from assms v i e have "sr_score r =
          (if num_le (calculateImpact (vr_metricsMap vr) iss) (Num 0) then Num 0
           else if map_of (vr_metricsMap vr) ''S'' = Some ''U''
             then roundUp (Math_min (num_add (calculateImpact (vr_metricsMap vr) iss) e) (Num 10))
             else roundUp (Math_min (num_mul (dbl 1.08)
                    (num_add (calculateImpact (vr_metricsMap vr) iss) e)) (Num 10)))"
        by (auto simp: calculateBaseResult_def bindE_Inr Let_def)
      with final_score_form [OF calculateExploitability_nonneg [OF e],
          of "calculateImpact (vr_metricsMap vr) iss" "map_of (vr_metricsMap vr) ''S'' = Some ''U''"]
      show ?thesis by (simp add: Let_def)
    qed
  qed
qed

lemma one_decimal_idem:
  assumes "one_decimal x"
  shows "roundUp (num_mul (num_mul (num_mul x (Num 1)) (Num 1)) (Num 1)) = x"
proof -
  from assms obtain k where k: "0 \<le> k" "k \<le> 100" "x = dbl (of_int k / 10)"
    unfolding one_decimal_def by blast
  have "num_mul (num_mul (num_mul x (Num 1)) (Num 1)) (Num 1) = x" by (simp add: k(3) dbl_def)
  moreover have "roundUp x = x" unfolding k(3) using k(1,2) by (intro roundUp_dbl) simp_all
  ultimately show ?thesis by simp
qed

lemma map_of_populateTemporalMetricDefaults:
  assumes "map_of metricsMap key = None" "key \<in> set temporalMetrics"
  shows "map_of (populateTemporalMetricDefaults metricsMap) key = Some ''X''"
  using assms
  by (auto simp: populateTemporalMetricDefaults_def temporalMetrics_def has_def update_conv')

lemma temporal_weight_X:
  assumes "map_of metricsMap key = Some ''X''" "key \<in> set temporalMetrics"
  shows "getMetricNumericValue key metricsMap = Inr (Num 1)"
  using assms
  by (auto simp: getMetricNumericValue_def getMetricValue_def bindE_def temporalMetrics_def
      score_of_def baseMetricValueScores_def temporalMetricValueScores_def)

lemma one_decimal_roundUp:
  assumes "one_decimal x"
  shows "roundUp x = x"
proof -
  from assms obtain k where k: "0 \<le> k" "k \<le> 100" "x = dbl (of_int k / 10)"
    unfolding one_decimal_def by blast
  show ?thesis unfolding k(3) using k(1,2) by (intro roundUp_dbl) simp_all
qed

text \<open>
  Claim C10.  For a string that \<open>validate\<close> accepts, of version 3.0 or 3.1 and without
  the keys \<open>E\<close>, \<open>RL\<close>, \<open>RC\<close>, \<open>calculateTemporalScore\<close> returns what
  \<open>calculateBaseScore\<close> returns (the same score, or the same error): each temporal metric
  defaults to \<open>X\<close>, whose weight is 1, and \<open>roundUp\<close> returns a score of one decimal
  unchanged.
\<close>

theorem temporal_score_without_temporal_metrics:
  assumes "validate s = Inr vr"
    and "vr_versionStr vr = Some ''3.0'' \<or> vr_versionStr vr = Some ''3.1''"
    and "\<forall>key \<in> set temporalMetrics. map_of (vr_metricsMap vr) key = None"
  shows "calculateTemporalScore s = calculateBaseScore s
    \<and> (\<forall>key \<in> set temporalMetrics.
          map_of (populateTemporalMetricDefaults (vr_metricsMap vr)) key = Some ''X''
          \<and> getMetricNumericValue key (populateTemporalMetricDefaults (vr_metricsMap vr))
              = Inr (Num 1))
    \<and> (one_decimal x \<longrightarrow> roundUp x = x)"
proof (intro conjI ballI impI)
  have b: "calculateBaseScore s = bindE (calculateBaseResult s) (\<lambda>r. Inr (sr_score r))"
    by (rule calculateBaseScore_v3 [OF assms(1,2)])
  show x: "map_of (populateTemporalMetricDefaults (vr_metricsMap vr)) key = Some ''X''"
    if "key \<in> set temporalMetrics" for key
    using that assms(3) by (intro map_of_populateTemporalMetricDefaults) simp_all
  show w: "getMetricNumericValue key (populateTemporalMetricDefaults (vr_metricsMap vr)) = Inr (Num 1)"
    if "key \<in> set temporalMetrics" for key
    using that by (intro temporal_weight_X x)
  have w3: "getMetricNumericValue ''RC'' (populateTemporalMetricDefaults (vr_metricsMap vr)) = Inr (Num 1)"
    "getMetricNumericValue ''E'' (populateTemporalMetricDefaults (vr_metricsMap vr)) = Inr (Num 1)"
    "getMetricNumericValue ''RL'' (populateTemporalMetricDefaults (vr_metricsMap vr)) = Inr (Num 1)"
    by (rule w, simp add: temporalMetrics_def)+
  show "calculateTemporalScore s = calculateBaseScore s"
  proof (cases "calculateBaseResult s")
    case (Inl err)
    then show ?thesis
      by (simp add: b calculateTemporalScore_def calculateTemporalResult_def assms(1)
          bindE_Inr bindE_Inl)
  next
    case (Inr r)
    have "roundUp (num_mul (num_mul (num_mul (sr_score r) (Num 1)) (Num 1)) (Num 1)) = sr_score r"
      using base_score_form [OF Inr]
    proof
      assume "sr_score r = NaN"
      then show ?thesis by simp
    next
      assume "one_decimal (sr_score r)"
      then show ?thesis by (rule one_decimal_idem)
    qed
    then show ?thesis
      by (simp add: b calculateTemporalScore_def calculateTemporalResult_def assms(1)
          bindE_Inr Inr w3)
  qed
  show "roundUp x = x" if "one_decimal x" using that by (rule one_decimal_roundUp)
qed

theorem temporal_score_without_temporal_metrics_witness:
  "calculateTemporalScore ''CVSS:3.1/AV:N/AC:L/PR:H/UI:N/S:U/C:L/I:L/A:N''
     = calculateBaseScore ''CVSS:3.1/AV:N/AC:L/PR:H/UI:N/S:U/C:L/I:L/A:N''
   \<and> getMetricNumericValue ''E'' (populateTemporalMetricDefaults
         [(''AV'', ''N''), (''AC'', ''L''), (''PR'', ''H''), (''UI'', ''N''), (''S'', ''U''),
          (''C'', ''L''), (''I'', ''L''), (''A'', ''N'')]) = Inr (Num 1)
   \<and> one_decimal (dbl (38 / 10)) \<and> roundUp (dbl (38 / 10)) = dbl (38 / 10)"
proof -
  have v: "validate ''CVSS:3.1/AV:N/AC:L/PR:H/UI:N/S:U/C:L/I:L/A:N''
    = Inr \<lparr>vr_isTemporal = False, vr_isEnvironmental = False,
        vr_metricsMap =
         [(''AV'', ''N''), (''AC'', ''L''), (''PR'', ''H''), (''UI'', ''N''), (''S'', ''U''),
          (''C'', ''L''), (''I'', ''L''), (''A'', ''N'')],
        vr_versionStr = Some ''3.1''\<rparr>"
    by code_simp
  have o: "one_decimal (dbl (38 / 10))"
    unfolding one_decimal_def by (rule exI [of _ 38]) simp
  show ?thesis
    using temporal_score_without_temporal_metrics
      [of "''CVSS:3.1/AV:N/AC:L/PR:H/UI:N/S:U/C:L/I:L/A:N''" "\<lparr>vr_isTemporal = False, vr_isEnvironmental = False,
        vr_metricsMap =
         [(''AV'', ''N''), (''AC'', ''L''), (''PR'', ''H''), (''UI'', ''N''), (''S'', ''U''),
          (''C'', ''L''), (''I'', ''L''), (''A'', ''N'')],
        vr_versionStr = Some ''3.1''\<rparr>" "dbl (38 / 10)"] v o
    by (simp add: temporalMetrics_def)
qed

section \<open>Properties of the two validators on v4.0 vectors\<close>

text \<open>
  What \<open>validateVectorV4\<close> accepts: every segment has a key of the v4.0 catalogue and
  a value, the keys are distinct, and the mandatory metrics are present.  On the same
  segments the parser builds the very object \<open>validateVectorV4\<close> returns, and the
  vector has no empty segment, so no \<open>//\<close>.
\<close>

lemma split_on_unfold:
  "split_on c s = takeWhile (\<lambda>x. x \<noteq> c) s
     # (case dropWhile (\<lambda>x. x \<noteq> c) s of [] \<Rightarrow> [] | _ # rest \<Rightarrow> split_on c rest)"
  by (induction s) (auto split: list.splits)

lemma split_metric_empty: "split_metric [] = ([], None)"
  by (simp add: split_metric_def)

lemma has_update: "has (AList.update k v al) k' \<longleftrightarrow> k' = k \<or> has al k'"
  by (simp add: has_def update_conv')

lemma validate_metrics_parse:
  "validate_metrics ms i acc = Inr sel \<Longrightarrow> parseMetrics ms acc = Inr sel"
proof (induction ms arbitrary: i acc)
  case Nil
  then show ?case by simp
next
  case (Cons seg ms)
  obtain key val where sm: "split_metric seg = (key, val)" by (cases "split_metric seg")
  from Cons.prems sm have nk: "\<not> key_in key acc"
    by (auto simp: Let_def split: if_splits)
  then have nh: "\<not> has acc key" by (simp add: key_in_def)
  from Cons.prems sm nk obtain v where v: "val = Some v"
    and rec: "validate_metrics ms (advance i key) (AList.update key v acc) = Inr sel"
    by (auto simp: Let_def split: if_splits option.splits)
  from Cons.IH [OF rec] show ?case by (simp add: sm nh v)
qed

lemma validate_metrics_keys:
  "validate_metrics ms i acc = Inr sel \<Longrightarrow> has sel k \<Longrightarrow>
     has acc k \<or> k \<in> fst ` set expectedMetricOrder"
proof (induction ms arbitrary: i acc)
  case Nil
  then show ?case by simp
next
  case (Cons seg ms)
  obtain key val where sm: "split_metric seg = (key, val)" by (cases "split_metric seg")
  from Cons.prems(1) sm have nk: "\<not> key_in key acc"
    by (auto simp: Let_def split: if_splits)
  from Cons.prems(1) sm nk obtain v entry where v: "val = Some v"
    and f: "find (\<lambda>entry. fst entry = key) expectedMetricOrder = Some entry"
    and rec: "validate_metrics ms (advance i key) (AList.update key v acc) = Inr sel"
    by (auto simp: Let_def split: if_splits option.splits)
  from f obtain j where "j < length expectedMetricOrder" "expectedMetricOrder ! j = entry"
    "fst entry = key"
    by (auto simp: find_Some_iff)
  then have "entry \<in> set expectedMetricOrder" "fst entry = key" by (auto intro: nth_mem)
  then have "key \<in> fst ` set expectedMetricOrder" by (auto intro: image_eqI)
  with Cons.IH [OF rec Cons.prems(2)] show ?case by (auto simp: has_update)
qed

lemma validate_metrics_segments:
  "validate_metrics ms i acc = Inr sel \<Longrightarrow> seg \<in> set ms \<Longrightarrow> seg \<noteq> []"
proof (induction ms arbitrary: i acc)
  case Nil
  then show ?case by simp
next
  case (Cons seg' ms)
  obtain key val where sm: "split_metric seg' = (key, val)" by (cases "split_metric seg'")
  from Cons.prems(1) sm have nk: "\<not> key_in key acc"
    by (auto simp: Let_def split: if_splits)
  from Cons.prems(1) sm nk obtain v where v: "val = Some v"
    and rec: "validate_metrics ms (advance i key) (AList.update key v acc) = Inr sel"
    by (auto simp: Let_def split: if_splits option.splits)
  from sm v have "seg' \<noteq> []" by (auto simp: split_metric_empty)
  with Cons.IH [OF rec] Cons.prems(2) show ?case by auto
qed

lemma no_double_slash:
  "\<forall>seg \<in> set (tl (split_on CHR ''/'' v)). seg \<noteq> [] \<Longrightarrow> indexOf v ''//'' = - 1"
proof (induction v)
  case Nil
  then show ?case by simp
next
  case (Cons x xs)
  show ?case
  proof (cases "x = CHR ''/''")
    case True
    with Cons.prems have ne: "\<forall>seg \<in> set (split_on CHR ''/'' xs). seg \<noteq> []" by simp
    then have "hd (split_on CHR ''/'' xs) \<noteq> []" by (cases xs) (auto split: list.splits)
    then have "\<not> prefix ''/'' xs" by (cases xs) auto
    moreover from ne have "\<forall>seg \<in> set (tl (split_on CHR ''/'' xs)). seg \<noteq> []"
      by (cases "split_on CHR ''/'' xs") auto
    then have "indexOf xs ''//'' = - 1" by (rule Cons.IH)
    ultimately show ?thesis using True by simp
  next
    case False
    with Cons.prems have "\<forall>seg \<in> set (tl (split_on CHR ''/'' xs)). seg \<noteq> []"
      by (auto split: list.splits)
    then have "indexOf xs ''//'' = - 1" by (rule Cons.IH)
    then show ?thesis using False by simp
  qed
qed

lemma validateVectorV4_ok:
  assumes "validateVectorV4 s = Inr sel"
  obtains ms where "split_on CHR ''/'' s = ''CVSS:4.0'' # ms"
    and "validate_metrics ms 0 [] = Inr sel"
    and "\<forall>metric \<in> set mandatoryMetrics. has sel metric"
proof -
  from validateVectorV4_prefix [OF assms] obtain ms where
    ms: "split_on CHR ''/'' s = ''CVSS:4.0'' # ms" ..
  have ne: "s \<noteq> []" using assms by (auto simp: validateVectorV4_def)
  from assms ms ne obtain toSelect where
    vm: "validate_metrics ms 0 [] = Inr toSelect"
    and r: "(let missingMandatoryMetrics =
                  filter (\<lambda>metric. \<not> key_in metric toSelect) mandatoryMetrics
            in if missingMandatoryMetrics \<noteq> [] then
                 Inl (MissingMandatoryMetrics missingMandatoryMetrics)
               else Inr toSelect) = Inr sel"
    by (auto simp: validateVectorV4_def bindE_eq_Inr)
  from r have eq: "toSelect = sel"
    and f: "filter (\<lambda>metric. \<not> key_in metric sel) mandatoryMetrics = []"
    by (auto simp: Let_def split: if_splits)
  from f have "\<forall>metric \<in> set mandatoryMetrics. key_in metric sel"
    by (simp add: filter_empty_conv)
  then have "\<forall>metric \<in> set mandatoryMetrics. has sel metric"
    by (auto simp: key_in_def mandatoryMetrics_def object_prototype_keys_def)
  with ms vm eq that show ?thesis by simp
qed

text \<open>
  Claim C3.  \<open>validate\<close> throws on every string that \<open>validateVectorV4\<close> accepts.
  Version and vector pass, the parser returns the selected metrics, and the check of the
  eight v3.x base metrics fails: \<open>AV\<close>, \<open>AC\<close>, \<open>PR\<close>, \<open>UI\<close> are there, \<open>C\<close>, \<open>I\<close>,
  \<open>A\<close> are keys of no v4.0 vector, and \<open>S\<close> is there only as the v4.0 Safety metric.
  The error names \<open>S\<close>, or \<open>C\<close> when the vector has a Safety metric.
\<close>

theorem validate_rejects_every_v4_vector:
  assumes "validateVectorV4 s = Inr sel"
  shows "validate s = Inl (MissingMandatoryMetric (if has sel ''S'' then ''C'' else ''S''))
    \<and> parseMetricsAsMap s = Inr sel
    \<and> \<not> has sel ''C'' \<and> \<not> has sel ''I'' \<and> \<not> has sel ''A''"
proof -
  from validateVectorV4_ok [OF assms] obtain ms where
    ms: "split_on CHR ''/'' s = ''CVSS:4.0'' # ms"
    and vm: "validate_metrics ms 0 [] = Inr sel"
    and mand: "\<forall>metric \<in> set mandatoryMetrics. has sel metric" .
  define d where "d = dropWhile (\<lambda>x. x \<noteq> CHR ''/'') s"
  from ms split_on_unfold [of "CHR ''/''" s] have
    tw: "takeWhile (\<lambda>x. x \<noteq> CHR ''/'') s = ''CVSS:4.0''"
    and tl: "ms = (case d of [] \<Rightarrow> [] | _ # rest \<Rightarrow> split_on CHR ''/'' rest)"
    by (simp_all add: d_def)
  have s: "s = ''CVSS:4.0'' @ d"
    using takeWhile_dropWhile_id [of "\<lambda>x. x \<noteq> CHR ''/''" s] by (simp add: tw d_def)
  have "ms \<noteq> []" using vm mand by (auto simp: mandatoryMetrics_def has_def)
  with tl obtain c rest where d: "d = c # rest" and ms': "ms = split_on CHR ''/'' rest"
    by (cases d) auto
  have "dropWhile (\<lambda>x. x \<noteq> CHR ''/'') s \<noteq> []" using d by (simp add: d_def)
  then have "\<not> hd (dropWhile (\<lambda>x. x \<noteq> CHR ''/'') s) \<noteq> CHR ''/''" by (rule hd_dropWhile)
  then have c: "c = CHR ''/''" using d by (simp add: d_def)
  have segs: "\<forall>seg \<in> set ms. seg \<noteq> []" using validate_metrics_segments [OF vm] by blast
  have rest: "rest \<noteq> []" using segs ms' by auto
  have nds: "indexOf rest ''//'' = - 1"
  proof (rule no_double_slash, rule ballI)
    fix seg assume "seg \<in> set (tl (split_on CHR ''/'' rest))"
    then have "seg \<in> set (split_on CHR ''/'' rest)"
      by (cases "split_on CHR ''/'' rest") auto
    with segs ms' show "seg \<noteq> []" by simp
  qed
  have pv: "parseVersion s = Some ''4.0''" by (simp add: parseVersion_def s d c)
  have pvec: "parseVector s = Some rest" by (simp add: parseVector_def s d c)
  have pm: "parseMetricsAsMap s = Inr sel"
    by (simp add: parseMetricsAsMap_def pvec ms' [symmetric] validate_metrics_parse [OF vm])
  have keys: "\<not> has sel k" if "k \<notin> fst ` set expectedMetricOrder" for k
    using validate_metrics_keys [OF vm, of k] that by (auto simp: has_def)
  have nC: "\<not> has sel ''C''" "\<not> has sel ''I''" "\<not> has sel ''A''"
    by (rule keys, simp add: expectedMetricOrder_def)+
  have cm: "checkMandatoryMetrics sel baseMetrics
           = Inl (MissingMandatoryMetric (if has sel ''S'' then ''C'' else ''S''))"
    using mand nC by (simp add: checkMandatoryMetrics_def baseMetrics_def mandatoryMetrics_def)
  have p: "prefix ''CVSS:'' s" "s \<noteq> []" by (subst s, simp)+
  have "validate s = Inl (MissingMandatoryMetric (if has sel ''S'' then ''C'' else ''S''))"
    unfolding validate_def Let_def
    by (simp add: p pv pvec pm cm validateVersion_def validateVector_def includes_str_def nds rest
        bindE_Inr bindE_Inl)
  with pm nC show ?thesis by simp
qed

theorem validate_rejects_every_v4_vector_witness:
  "validate ''CVSS:4.0/AV:N/AC:L/AT:N/PR:N/UI:N/VC:H/VI:H/VA:H/SC:N/SI:N/SA:N''
     = Inl (MissingMandatoryMetric ''S'')
   \<and> validate ''CVSS:4.0/AV:N/AC:L/AT:N/PR:N/UI:N/VC:H/VI:H/VA:H/SC:N/SI:N/SA:N/S:P''
     = Inl (MissingMandatoryMetric ''C'')"
proof -
  have v1: "validateVectorV4 ''CVSS:4.0/AV:N/AC:L/AT:N/PR:N/UI:N/VC:H/VI:H/VA:H/SC:N/SI:N/SA:N''
    = Inr [(''AV'', ''N''), (''AC'', ''L''), (''AT'', ''N''), (''PR'', ''N''), (''UI'', ''N''),
           (''VC'', ''H''), (''VI'', ''H''), (''VA'', ''H''), (''SC'', ''N''), (''SI'', ''N''),
           (''SA'', ''N'')]"
    by code_simp
  have v2: "validateVectorV4 ''CVSS:4.0/AV:N/AC:L/AT:N/PR:N/UI:N/VC:H/VI:H/VA:H/SC:N/SI:N/SA:N/S:P''
    = Inr [(''AV'', ''N''), (''AC'', ''L''), (''AT'', ''N''), (''PR'', ''N''), (''UI'', ''N''),
           (''VC'', ''H''), (''VI'', ''H''), (''VA'', ''H''), (''SC'', ''N''), (''SI'', ''N''),
           (''SA'', ''N''), (''S'', ''P'')]"
    by code_simp
  from validate_rejects_every_v4_vector [OF v1] validate_rejects_every_v4_vector [OF v2]
  show ?thesis by (simp add: has_def)
qed

end
